(* ===== verification/Prelude.thy ===== *)
theory Prelude
  imports Complex_Main "HOL-Library.Product_Lexorder" "HOL-Library.List_Lexorder"
    "HOL-Library.Char_ord" "HOL-Library.Sublist" "HOL-Library.Multiset"
begin

text \<open>
  Shared vocabulary of the dashboard model (\<open>src/dash.py\<close>): the types that name the
  columns of the transaction frame, Python's \<open>dict.get\<close>, pandas' \<open>Series.unique\<close>
  (distinct values in order of first appearance), the error values the script can raise,
  and the generic lemmas on lists, sums and maps that the component theories share.
\<close>

section \<open>Types of the model\<close>

text \<open>
  A calendar date (\<open>Timestamp.date()\<close>) is the triple (year, month, day); the
  lexicographic order of \<open>HOL-Library.Product_Lexorder\<close> is chronological order on valid
  dates. A pandas monthly period (\<open>dt.to_period('M')\<close>) is the pair (year, month).
  Amounts are Python floats, modelled as exact reals: rounding of float arithmetic is not
  modelled.
\<close>

type_synonym date = "int \<times> nat \<times> nat"
type_synonym month_period = "int \<times> nat"
type_synonym money = real

text \<open>The exceptions of the script that the model makes explicit.\<close>

datatype erro =
    ErroData        \<comment> \<open>\<open>pd.to_datetime\<close> cannot parse a date\<close>
  | ErroNaT         \<comment> \<open>\<open>NaT.date()\<close>: min/max of an empty date column\<close>
  | NameError string  \<comment> \<open>a variable read before any assignment\<close>

named_theorems ledger_sums "sums over filtered transaction lists"

section \<open>Python and pandas helpers\<close>

text \<open>\<open>d.get(k, default)\<close> on a Python dict.\<close>

definition dict_get :: "('k \<rightharpoonup> 'v) \<Rightarrow> 'k \<Rightarrow> 'v \<Rightarrow> 'v" where
  "dict_get m k d = (case m k of None \<Rightarrow> d | Some v \<Rightarrow> v)"

text \<open>
  \<open>Series.unique()\<close>: the distinct values in order of first appearance (HOL's
  \<open>remdups\<close> keeps the last occurrence instead). \<open>seen\<close> is the list of values
  already emitted.
\<close>

fun unique_aux :: "'a list \<Rightarrow> 'a list \<Rightarrow> 'a list" where
  "unique_aux seen [] = []"
| "unique_aux seen (x # xs) =
     (if x \<in> set seen then unique_aux seen xs else x # unique_aux (x # seen) xs)"

definition unique :: "'a list \<Rightarrow> 'a list" where
  "unique xs = unique_aux [] xs"

section \<open>Lemmas on the helpers\<close>

lemma dict_get_None [simp]: "m k = None \<Longrightarrow> dict_get m k d = d"
  by (simp add: dict_get_def)

lemma dict_get_Some [simp]: "m k = Some v \<Longrightarrow> dict_get m k d = v"
  by (simp add: dict_get_def)

lemma dict_get_upd [simp]: "dict_get (m(k \<mapsto> v)) j d = (if j = k then v else dict_get m j d)"
  by (simp add: dict_get_def)

lemma dict_get_in_ran: "k \<in> dom m \<Longrightarrow> dict_get m k d \<in> ran m"
  by (auto simp: dict_get_def ran_def)

lemma set_unique_aux: "set (unique_aux seen xs) = set xs - set seen"
  by (induction seen xs rule: unique_aux.induct) auto

lemma distinct_unique_aux: "distinct (unique_aux seen xs)"
  by (induction seen xs rule: unique_aux.induct) (auto simp: set_unique_aux)

lemma unique_aux_distinct_id:
  "distinct xs \<Longrightarrow> set seen \<inter> set xs = {} \<Longrightarrow> unique_aux seen xs = xs"
  by (induction seen xs rule: unique_aux.induct) auto

lemma set_unique [simp]: "set (unique xs) = set xs"
  by (simp add: unique_def set_unique_aux)

lemma distinct_unique [simp]: "distinct (unique xs)"
  by (simp add: unique_def distinct_unique_aux)

lemma unique_Nil_iff [simp]: "unique xs = [] \<longleftrightarrow> xs = []"
  by (metis set_empty set_unique)

lemma unique_distinct_id: "distinct xs \<Longrightarrow> unique xs = xs"
  by (simp add: unique_def unique_aux_distinct_id)

lemma unique_const: "xs \<noteq> [] \<Longrightarrow> set xs = {x} \<Longrightarrow> unique xs = [x]"
proof -
  assume "xs \<noteq> []" and s: "set xs = {x}"
  then obtain y ys where u: "unique xs = y # ys" by (metis neq_Nil_conv unique_Nil_iff)
  then have "y = x" "set ys \<subseteq> {x}" "y \<notin> set ys"
    using s distinct_unique [of xs] set_unique [of xs] by (auto simp del: distinct_unique set_unique)
  then show ?thesis using u by (metis subset_singletonD empty_set singletonI set_empty2 insert_not_empty)
qed

lemma length_unique_le: "length (unique xs) \<le> length xs"
  by (metis distinct_card distinct_unique card_length set_unique)

text \<open>The elements kept by \<open>List.map_filter\<close> (pandas' \<open>dropna\<close> after a conversion).\<close>

lemma in_set_map_filter: "y \<in> set (List.map_filter f xs) \<longleftrightarrow> (\<exists>x\<in>set xs. f x = Some y)"
  by (induction xs) (auto simp: map_filter_simps split: option.splits)

lemma filter_nao_membro: "c \<notin> set xs \<Longrightarrow> filter (\<lambda>x. x \<noteq> c) xs = xs"
  by (induction xs) auto

text \<open>A filter on a conjunction splits the sum it feeds.\<close>

lemma sum_list_filter_split [ledger_sums]:
  "sum_list (map f (filter P xs)) =
     sum_list (map f (filter (\<lambda>x. P x \<and> Q x) xs)) + sum_list (map f (filter (\<lambda>x. P x \<and> \<not> Q x) xs))"
  for f :: "'a \<Rightarrow> 'b::comm_monoid_add"
  by (induction xs) (simp_all add: algebra_simps)

lemma abs_sum_list_nonpos [ledger_sums]:
  "(\<forall>x\<in>set xs. f x \<le> 0) \<Longrightarrow> \<bar>sum_list (map f xs)\<bar> = sum_list (map (\<lambda>x. \<bar>f x\<bar>) xs)"
  for f :: "'a \<Rightarrow> real"
proof (induction xs)
  case Nil
  then show ?case by simp
next
  case (Cons x xs)
  then have "sum_list (map f xs) \<le> 0" by (intro sum_list_nonpos) auto
  with Cons show ?case by simp
qed

lemma abs_sum_list_le [ledger_sums]:
  "\<bar>sum_list (map f xs)\<bar> \<le> sum_list (map (\<lambda>x. \<bar>f x\<bar>) xs)"
  for f :: "'a \<Rightarrow> real"
proof (induction xs)
  case Nil
  then show ?case by simp
next
  case (Cons x xs)
  have "\<bar>f x + sum_list (map f xs)\<bar> \<le> \<bar>f x\<bar> + \<bar>sum_list (map f xs)\<bar>"
    by (rule abs_triangle_ineq)
  with Cons.IH show ?case by simp
qed

text \<open>The absolute value of a sum is the sum of the absolute values exactly when the
  terms share one sign.\<close>

lemma sum_list_max0_eq_0:
  fixes g :: "'a \<Rightarrow> real"
  shows "sum_list (map (\<lambda>x. max (g x) 0) xs) = 0 \<longleftrightarrow> (\<forall>x\<in>set xs. g x \<le> 0)"
proof -
  have "sum_list (map (\<lambda>x. max (g x) 0) xs) = 0 \<longleftrightarrow> (\<forall>y\<in>set (map (\<lambda>x. max (g x) 0) xs). y = 0)"
    by (rule sum_list_nonneg_eq_0_iff) auto
  also have "\<dots> \<longleftrightarrow> (\<forall>x\<in>set xs. max (g x) 0 = 0)"
    by (simp only: set_map ball_simps)
  finally show ?thesis
    by (simp add: max_def)
qed

lemma abs_sum_list_eq_iff:
  fixes f :: "'a \<Rightarrow> real"
  shows "\<bar>sum_list (map f xs)\<bar> = sum_list (map (\<lambda>x. \<bar>f x\<bar>) xs) \<longleftrightarrow>
           (\<forall>x\<in>set xs. f x \<le> 0) \<or> (\<forall>x\<in>set xs. 0 \<le> f x)"
proof -
  define P where "P = sum_list (map (\<lambda>x. max (f x) 0) xs)"
  define N where "N = sum_list (map (\<lambda>x. max (- f x) 0) xs)"
  have "sum_list (map f xs) = sum_list (map (\<lambda>x. max (f x) 0 - max (- f x) 0) xs)"
    by (intro arg_cong [where f = sum_list] map_cong) (auto simp: max_def)
  also have "\<dots> = P - N"
    by (simp add: P_def N_def sum_list_subtractf)
  finally have s: "sum_list (map f xs) = P - N" .
  have "sum_list (map (\<lambda>x. \<bar>f x\<bar>) xs) = sum_list (map (\<lambda>x. max (f x) 0 + max (- f x) 0) xs)"
    by (intro arg_cong [where f = sum_list] map_cong) (auto simp: max_def)
  also have "\<dots> = P + N"
    by (simp add: P_def N_def sum_list_addf)
  finally have a: "sum_list (map (\<lambda>x. \<bar>f x\<bar>) xs) = P + N" .
  have "0 \<le> P"
    unfolding P_def by (rule sum_list_nonneg) auto
  moreover have "0 \<le> N"
    unfolding N_def by (rule sum_list_nonneg) auto
  ultimately
  have "\<bar>P - N\<bar> = P + N \<longleftrightarrow> P = 0 \<or> N = 0"
    by linarith
  then show ?thesis
    using s a sum_list_max0_eq_0 [of f xs] sum_list_max0_eq_0 [of "\<lambda>x. - f x" xs]
    by (simp add: P_def N_def)
qed
lemma sum_list_le_const:
  fixes f :: "'a \<Rightarrow> real"
  shows "\<forall>x\<in>set xs. f x \<le> c \<Longrightarrow> sum_list (map f xs) \<le> of_nat (length xs) * c"
  by (induction xs) (auto simp: algebra_simps)

lemma sum_list_filter_cong [ledger_sums]:
  "(\<And>x. x \<in> set xs \<Longrightarrow> P x = Q x) \<Longrightarrow>
     sum_list (map f (filter P xs)) = sum_list (map f (filter Q xs))"
  by (metis filter_cong)

lemma sum_list_delta:
  "distinct cs \<Longrightarrow> a \<in> set cs \<Longrightarrow> sum_list (map (\<lambda>c. if a = c then v else 0) cs) = (v::'b::comm_monoid_add)"
  by (simp add: sum_list_distinct_conv_sum_set)

text \<open>A sum of terms that each lie between two bounds.\<close>

lemma sum_list_bounds:
  fixes f :: "'a \<Rightarrow> nat"
  assumes "\<And>x. x \<in> set xs \<Longrightarrow> a \<le> f x \<and> f x \<le> b"
  shows "a * length xs \<le> sum_list (map f xs) \<and> sum_list (map f xs) \<le> b * length xs"
proof -
  have "sum_list (map (\<lambda>x. a) xs) \<le> sum_list (map f xs)" "sum_list (map f xs) \<le> sum_list (map (\<lambda>x. b) xs)"
    using assms by (auto intro: sum_list_mono)
  then show ?thesis by (simp add: sum_list_triv mult.commute)
qed

text \<open>A group-by sum: the sums of the groups of a key, over a distinct list of keys that
  covers every row, add up to the sum of all rows.\<close>

lemma sum_list_partition [ledger_sums]:
  "distinct cs \<Longrightarrow> set (map k xs) \<subseteq> set cs \<Longrightarrow>
     sum_list (map (\<lambda>c. sum_list (map f (filter (\<lambda>x. k x = c) xs))) cs) = sum_list (map f xs)"
  for f :: "'a \<Rightarrow> 'b::comm_monoid_add"
proof (induction xs)
  case Nil
  then show ?case by (simp add: sum_list_distinct_conv_sum_set)
next
  case (Cons x xs)
  have eq: "\<And>c. sum_list (map f (filter (\<lambda>y. k y = c) (x # xs))) =
              (if k x = c then f x else 0) + sum_list (map f (filter (\<lambda>y. k y = c) xs))"
    by simp
  have "sum_list (map (\<lambda>c. sum_list (map f (filter (\<lambda>y. k y = c) (x # xs)))) cs) =
        sum_list (map (\<lambda>c. if k x = c then f x else 0) cs) +
        sum_list (map (\<lambda>c. sum_list (map f (filter (\<lambda>y. k y = c) xs))) cs)"
    by (simp only: eq sum_list_addf)
  with Cons show ?case by (simp add: sum_list_delta)
qed

end
