(* ===== verification/Ledger.thy ===== *)
theory Ledger
  imports Prelude
begin

text \<open>
  The transaction frame and how it is loaded (\<open>src/dash.py\<close>, lines 106--124).
  A raw CSV row (\<open>linha\<close>) carries the results of the two conversions of
  \<open>process_data\<close>: \<open>pd.to_datetime\<close> (\<open>None\<close>: the date cannot be parsed, which
  raises) and \<open>pd.to_numeric(errors='coerce')\<close> (\<open>None\<close>: NaN, which
  \<open>dropna\<close> removes). A processed row (\<open>transacao\<close>) has every column, plus the
  monthly period \<open>mes\<close> that \<open>process_data\<close> adds.
\<close>

record linha =
  l_data :: "date option"
  l_descricao :: string
  l_categoria :: string
  l_valor :: "money option"
  l_tipo :: string
  l_tags :: string

record transacao =
  data :: date
  descricao :: string
  categoria :: string
  valor :: money
  tipo :: string
  tags :: string
  mes :: month_period

text \<open>\<open>Series.dt.to_period('M')\<close>: the month a date falls in.\<close>

definition periodo_mes :: "date \<Rightarrow> month_period" where
  "periodo_mes d = (fst d, fst (snd d))"

text \<open>One row through the three column conversions; \<open>None\<close> is a row that
  \<open>dropna(subset=['valor'])\<close> drops.\<close>

definition converter_linha :: "linha \<Rightarrow> transacao option" where
  "converter_linha r =
     (case (l_data r, l_valor r) of
        (Some d, Some v) \<Rightarrow>
          Some \<lparr>data = d, descricao = l_descricao r, categoria = l_categoria r, valor = v,
                tipo = l_tipo r, tags = l_tags r, mes = periodo_mes d\<rparr>
      | _ \<Rightarrow> None)"

text \<open>
  \<open>process_data(df)\<close>: \<open>pd.to_datetime\<close> converts the whole column first and raises
  if any date fails; otherwise the rows with an unparsable amount are dropped, in order.
\<close>

definition process_data :: "linha list \<Rightarrow> erro + transacao list" where
  "process_data rs =
     (if list_all (\<lambda>r. l_data r \<noteq> None) rs then Inr (List.map_filter converter_linha rs)
      else Inl ErroData)"

text \<open>
  Lines 113--124. The uploaded file is processed inside \<open>try\<close>: an exception shows an
  error message and leaves \<open>df = None\<close> (\<open>ErroArquivo\<close>). Without an upload, the
  sample frame kept in the session is processed outside any \<open>try\<close>: an exception there
  would stop the script (\<open>Excecao\<close>).
\<close>

datatype carga =
    SemDados
  | Carregado "transacao list"
  | ErroArquivo erro
  | Excecao erro

definition carregar :: "linha list option \<Rightarrow> linha list option \<Rightarrow> carga" where
  "carregar upload amostra =
     (case upload of
        Some rs \<Rightarrow> (case process_data rs of Inl e \<Rightarrow> ErroArquivo e | Inr df \<Rightarrow> Carregado df)
      | None \<Rightarrow>
          (case amostra of
             Some rs \<Rightarrow> (case process_data rs of Inl e \<Rightarrow> Excecao e | Inr df \<Rightarrow> Carregado df)
           | None \<Rightarrow> SemDados))"

section \<open>Lemmas\<close>

lemma converter_linha_Some_iff:
  "converter_linha r = Some t \<longleftrightarrow>
     (\<exists>d v. l_data r = Some d \<and> l_valor r = Some v \<and>
        t = \<lparr>data = d, descricao = l_descricao r, categoria = l_categoria r, valor = v,
             tipo = l_tipo r, tags = l_tags r, mes = periodo_mes d\<rparr>)"
  by (auto simp: converter_linha_def split: option.splits)

lemma converter_linha_None_iff:
  "converter_linha r = None \<longleftrightarrow> l_data r = None \<or> l_valor r = None"
  by (auto simp: converter_linha_def split: option.splits)

lemma map_filter_converter_Cons:
  "List.map_filter converter_linha (r # rs) =
     (case converter_linha r of None \<Rightarrow> List.map_filter converter_linha rs
      | Some t \<Rightarrow> t # List.map_filter converter_linha rs)"
  by (simp add: List.map_filter_def split: option.splits)

lemma converter_linha_sem_valor: "l_valor r = None \<Longrightarrow> converter_linha r = None"
  by (simp add: converter_linha_None_iff)

lemma map_filter_converter_sem_valores:
  "list_all (\<lambda>r. l_valor r = None) rs \<Longrightarrow> List.map_filter converter_linha rs = []"
  by (induction rs) (simp_all add: map_filter_converter_Cons converter_linha_sem_valor)

lemma list_all_map_filter_converter:
  "list_all (\<lambda>r. case converter_linha r of None \<Rightarrow> True | Some t \<Rightarrow> P t) rs \<Longrightarrow>
   list_all P (List.map_filter converter_linha rs)"
  by (induction rs) (auto simp: map_filter_converter_Cons split: option.splits)

lemma length_map_filter_converter:
  "length (List.map_filter converter_linha rs) = length (filter (\<lambda>r. converter_linha r \<noteq> None) rs)"
  by (induction rs) (auto simp: map_filter_converter_Cons split: option.splits)

lemma mes_converter_linha:
  "converter_linha r = Some t \<Longrightarrow> mes t = periodo_mes (data t)"
  by (auto simp: converter_linha_Some_iff)

lemma process_data_Inl_iff: "process_data rs = Inl e \<longleftrightarrow> e = ErroData \<and> (\<exists>r\<in>set rs. l_data r = None)"
  by (auto simp: process_data_def list_all_iff simp del: not_None_eq)

lemma process_data_Inr_iff:
  "process_data rs = Inr df \<longleftrightarrow>
     (\<forall>r\<in>set rs. l_data r \<noteq> None) \<and> df = List.map_filter converter_linha rs"
  by (auto simp: process_data_def list_all_iff)

end
