(* ===== verification/Goals.thy ===== *)
theory Goals
  imports Ledger
begin

text \<open>
  Monthly goals per expense category (\<open>src/dash.py\<close>, lines 194--221 and 235).
  The goals live in \<open>st.session_state['metas']\<close>, a dict from category to limit,
  created empty on first use; every run of the script writes back, for each expense
  category, the value of that category's \<open>st.number_input\<close> widget.
\<close>

text \<open>Lines 195--198: distinct categories of debit rows other than the income category
  \<open>'Renda'\<close>, in order of first appearance.\<close>

definition categorias_despesas :: "transacao list \<Rightarrow> string list" where
  "categorias_despesas df =
     unique (map categoria (filter (\<lambda>t. tipo t = ''debito'' \<and> categoria t \<noteq> ''Renda'') df))"

text \<open>
  Streamlit's \<open>st.number_input(min_value=mn, value=v, key=k)\<close>, a library call, by its
  documented contract: \<open>inp\<close> is the value the user has entered in the widget with key
  \<open>k\<close> (\<open>None\<close>: never edited), and the widget refuses a value below \<open>min_value\<close>,
  keeping the value it shows.
\<close>

definition number_input :: "money \<Rightarrow> money \<Rightarrow> money option \<Rightarrow> money" where
  "number_input mn v inp = (case inp of None \<Rightarrow> v | Some x \<Rightarrow> if mn \<le> x then x else v)"

text \<open>Lines 211--221: one widget per expense category, its value stored back into the
  dict; the widget shows the stored goal, or 1000.0 for a category without one.\<close>

fun metas_loop :: "(string \<rightharpoonup> money) \<Rightarrow> (string \<Rightarrow> money option) \<Rightarrow> string list \<Rightarrow> (string \<rightharpoonup> money)" where
  "metas_loop m inp [] = m"
| "metas_loop m inp (c # cs) =
     metas_loop (m(c \<mapsto> number_input 0 (dict_get m c 1000) (inp c))) inp cs"

text \<open>Lines 207--221: \<open>metas\<close> is created empty when the session has none.\<close>

definition definir_metas ::
  "(string \<rightharpoonup> money) option \<Rightarrow> (string \<Rightarrow> money option) \<Rightarrow> string list \<Rightarrow> (string \<rightharpoonup> money)" where
  "definir_metas sess inp cats = metas_loop (case sess of None \<Rightarrow> Map.empty | Some m \<Rightarrow> m) inp cats"

text \<open>Lines 235 and 280: the goal a category is measured against.\<close>

definition meta_categoria :: "(string \<rightharpoonup> money) \<Rightarrow> string \<Rightarrow> money" where
  "meta_categoria m c = dict_get m c 1000"

text \<open>The invariant of the goal dict: every stored goal is non-negative.\<close>

definition metas_validas :: "(string \<rightharpoonup> money) \<Rightarrow> bool" where
  "metas_validas m \<longleftrightarrow> (\<forall>v\<in>ran m. 0 \<le> v)"

section \<open>Lemmas\<close>

lemma number_input_cases:
  "number_input mn v inp = v \<or> (\<exists>x. inp = Some x \<and> mn \<le> x \<and> number_input mn v inp = x)"
  by (auto simp: number_input_def split: option.splits)

lemma number_input_ge: "mn \<le> v \<Longrightarrow> mn \<le> number_input mn v inp"
  by (auto simp: number_input_def split: option.splits)

lemma metas_validas_empty [simp]: "metas_validas Map.empty"
  by (simp add: metas_validas_def)

lemma metas_validas_upd:
  "metas_validas m \<Longrightarrow> 0 \<le> v \<Longrightarrow> metas_validas (m(c \<mapsto> v))"
  by (auto simp: metas_validas_def ran_def)

lemma metas_validas_lookup: "metas_validas m \<Longrightarrow> m c = Some v \<Longrightarrow> 0 \<le> v"
  by (auto simp: metas_validas_def ran_def)

lemma meta_categoria_nonneg: "metas_validas m \<Longrightarrow> 0 \<le> meta_categoria m c"
  by (cases "m c") (auto simp: meta_categoria_def dict_get_def dest: metas_validas_lookup)

lemma metas_loop_validas: "metas_validas m \<Longrightarrow> metas_validas (metas_loop m inp cats)"
proof (induction cats arbitrary: m)
  case Nil
  then show ?case by simp
next
  case (Cons c cs)
  have "0 \<le> dict_get m c 1000"
    using meta_categoria_nonneg [OF Cons.prems] by (simp add: meta_categoria_def)
  then have "0 \<le> number_input 0 (dict_get m c 1000) (inp c)"
    by (rule number_input_ge)
  with Cons.prems have "metas_validas (m(c \<mapsto> number_input 0 (dict_get m c 1000) (inp c)))"
    by (rule metas_validas_upd)
  then show ?case by (simp add: Cons.IH del: fun_upd_apply)
qed

lemma dom_metas_loop: "dom (metas_loop m inp cats) = dom m \<union> set cats"
  by (induction cats arbitrary: m) auto

lemma metas_loop_other: "c \<notin> set cats \<Longrightarrow> metas_loop m inp cats c = m c"
  by (induction cats arbitrary: m) auto

text \<open>After the loop a category holds the widget value computed at its last occurrence;
  every occurrence computes the same value, so it is the one of the first.\<close>

lemma metas_loop_member:
  "c \<in> set cats \<Longrightarrow> metas_loop m inp cats c = Some (number_input 0 (dict_get m c 1000) (inp c))"
proof (induction cats arbitrary: m)
  case Nil
  then show ?case by simp
next
  case (Cons d cs)
  show ?case
  proof (cases "c \<in> set cs")
    case True
    then have "metas_loop (m(d \<mapsto> number_input 0 (dict_get m d 1000) (inp d))) inp cs c =
      Some (number_input 0 (dict_get (m(d \<mapsto> number_input 0 (dict_get m d 1000) (inp d))) c 1000) (inp c))"
      by (rule Cons.IH)
    then show ?thesis
      by (auto simp: number_input_def split: option.splits)
  next
    case False
    with Cons.prems have "c = d" by simp
    with False show ?thesis by (simp add: metas_loop_other)
  qed
qed

section \<open>Properties\<close>

text \<open>
  C7. The goal dict stays valid: if the session's goal dict (when there is one) holds
  only non-negative goals, so does the dict written back after the goal widgets run, for
  any values the user enters and any list of expense categories.
\<close>

theorem definir_metas_validas:
  assumes "case sess of None \<Rightarrow> True | Some m \<Rightarrow> metas_validas m"
  shows "metas_validas (definir_metas sess inp cats)"
  using assms
  by (cases sess) (simp_all add: definir_metas_def metas_loop_validas)

theorem definir_metas_validas_witness:
  "(case Some [''Food'' \<mapsto> (100::real)] of None \<Rightarrow> True | Some m \<Rightarrow> metas_validas m) \<and>
   metas_validas (definir_metas (Some [''Food'' \<mapsto> 100]) (\<lambda>_. Some (-5)) [''Food'', ''Transporte''])"
proof -
  have h: "case Some [''Food'' \<mapsto> (100::real)] of None \<Rightarrow> True | Some m \<Rightarrow> metas_validas m"
    by (simp add: metas_validas_upd)
  show ?thesis
    using h definir_metas_validas [OF h, of "\<lambda>_. Some (-5)" "[''Food'', ''Transporte'']"] by simp
qed

text \<open>
  C8. What the goal widgets write back: every expense category gets the value the user
  entered when it is non-negative, otherwise its stored goal, or 1000.0 for a category
  that had none; every other category keeps its stored goal. The dict is created empty
  when the session has none.
\<close>

theorem definir_metas_valor:
  "definir_metas sess inp cats c =
     (let m0 = (case sess of None \<Rightarrow> Map.empty | Some m \<Rightarrow> m) in
      if c \<in> set cats then
        Some (case inp c of
                Some x \<Rightarrow> if 0 \<le> x then x else dict_get m0 c 1000
              | None \<Rightarrow> dict_get m0 c 1000)
      else m0 c)"
  by (simp add: definir_metas_def Let_def metas_loop_member metas_loop_other number_input_def
      split: option.splits)

end
