(* ===== verification/Badges.thy ===== *)
theory Badges
  imports Goals
begin

text \<open>
  The badge ("conquista") engine (\<open>src/dash.py\<close>, lines 223--268): for every expense
  category, the spend is compared with the goal through the thresholds 0.7, 0.85, 1,
  1.2 and 1.5 of the goal, giving one of six badges. The cascade is a chain of
  \<open>if/elif\<close> with no final \<open>else\<close>: a category that matched no branch would reuse
  \<open>badge_type\<close> from the previous iteration, or raise \<open>NameError\<close> on the first. The
  model keeps that behaviour (\<open>classificar_badge\<close> returns \<open>None\<close> when no branch
  matches) and proves that it never arises.
\<close>

text \<open>Lines 230--233 (repeated at 275--278): absolute value of the sum of the debit
  amounts of a category.\<close>

definition gasto_categoria :: "transacao list \<Rightarrow> string \<Rightarrow> money" where
  "gasto_categoria df c =
     \<bar>sum_list (map valor (filter (\<lambda>t. categoria t = c \<and> tipo t = ''debito'') df))\<bar>"

datatype badge = Ouro | Prata | Bronze | AcimaDaMeta | AlertaAlto | AlertaCritico

text \<open>The \<open>badge_color\<close> assigned with each \<open>badge_type\<close>.\<close>

fun badge_cor :: "badge \<Rightarrow> string" where
  "badge_cor Ouro = ''gold''"
| "badge_cor Prata = ''silver''"
| "badge_cor Bronze = ''bronze''"
| "badge_cor AcimaDaMeta = ''yellow''"
| "badge_cor AlertaAlto = ''orange''"
| "badge_cor AlertaCritico = ''red''"

text \<open>Lines 237--261, branch by branch; \<open>None\<close>: no branch assigns \<open>badge_type\<close>.\<close>

definition classificar_badge :: "money \<Rightarrow> money \<Rightarrow> badge option" where
  "classificar_badge g m =
     (if g \<le> m then
        (if g \<le> m * 0.7 then Some Ouro
         else if g > m * 0.70 \<and> g \<le> m * 0.85 then Some Prata
         else if g > m * 0.85 \<and> g \<le> m then Some Bronze
         else None)
      else
        (if g > m \<and> g \<le> m * 1.2 then Some AcimaDaMeta
         else if g > m * 1.2 \<and> g \<le> m * 1.5 then Some AlertaAlto
         else if g > m * 1.5 then Some AlertaCritico
         else None))"

text \<open>
  Lines 227--261: the loop over the expense categories. \<open>prev\<close> is the badge left in
  \<open>badge_type\<close> by the previous iteration (\<open>None\<close>: not yet assigned); a category
  that matches no branch appends \<open>prev\<close> again, or raises \<open>NameError\<close> when there is
  none.
\<close>

fun coletar_badges ::
  "badge option \<Rightarrow> transacao list \<Rightarrow> (string \<rightharpoonup> money) \<Rightarrow> string list \<Rightarrow>
     erro + (string \<times> badge \<times> string) list" where
  "coletar_badges prev df m [] = Inr []"
| "coletar_badges prev df m (c # cs) =
     (case (case classificar_badge (gasto_categoria df c) (meta_categoria m c) of
              None \<Rightarrow> prev | Some b \<Rightarrow> Some b) of
        None \<Rightarrow> Inl (NameError ''badge_type'')
      | Some b \<Rightarrow>
          (case coletar_badges (Some b) df m cs of
             Inl e \<Rightarrow> Inl e
           | Inr bs \<Rightarrow> Inr ((c, b, badge_cor b) # bs)))"

text \<open>Lines 264--268: one success message per badge, or the encouragement message when
  the list is empty.\<close>

datatype aviso = Sucesso badge string | InfoEconomize

definition exibir_badges :: "(string \<times> badge \<times> string) list \<Rightarrow> aviso list" where
  "exibir_badges bs =
     (if bs \<noteq> [] then map (\<lambda>(c, b, cor). Sucesso b c) bs else [InfoEconomize])"

section \<open>Lemmas\<close>

lemma gasto_categoria_nonneg: "0 \<le> gasto_categoria df c"
  by (simp add: gasto_categoria_def)

text \<open>The cascade, branch by branch, in the closed form used by the proofs.\<close>

lemma classificar_badge_eq:
  "classificar_badge g m =
     Some (if g \<le> m * 0.7 \<and> g \<le> m then Ouro
           else if g \<le> m * 0.85 \<and> g \<le> m then Prata
           else if g \<le> m then Bronze
           else if g \<le> m * 1.2 then AcimaDaMeta
           else if g \<le> m * 1.5 then AlertaAlto
           else AlertaCritico)"
  unfolding classificar_badge_def by auto

lemma classificar_badge_Some: "\<exists>b. classificar_badge g m = Some b"
  by (simp add: classificar_badge_eq)

lemma coletar_badges_Inr:
  "coletar_badges prev df m cats =
     Inr (map (\<lambda>c. let b = the (classificar_badge (gasto_categoria df c) (meta_categoria m c))
                   in (c, b, badge_cor b)) cats)"
proof (induction cats arbitrary: prev)
  case Nil
  then show ?case by simp
next
  case (Cons c cs)
  obtain b where b: "classificar_badge (gasto_categoria df c) (meta_categoria m c) = Some b"
    using classificar_badge_Some by blast
  with Cons.IH [of "Some b"] show ?case by (simp add: Let_def)
qed

section \<open>Properties\<close>

text \<open>
  C1. The badge loop never raises \<open>NameError\<close> and never reuses a stale badge: for
  every frame, goal dict and category list (whatever \<open>badge_type\<close> held before), it
  returns one entry per category, in order, holding that category's own badge from the
  cascade and the colour assigned with it.
\<close>

theorem coletar_badges_never_fails:
  "\<exists>bs. coletar_badges prev df m cats = Inr bs \<and>
     list_all2 (\<lambda>c e. \<exists>b. e = (c, b, badge_cor b) \<and>
                        classificar_badge (gasto_categoria df c) (meta_categoria m c) = Some b)
       cats bs"
proof -
  have "\<forall>c\<in>set cats. \<exists>b. (let b' = the (classificar_badge (gasto_categoria df c) (meta_categoria m c))
          in (c, b', badge_cor b')) = (c, b, badge_cor b) \<and>
        classificar_badge (gasto_categoria df c) (meta_categoria m c) = Some b"
    by (auto simp: Let_def classificar_badge_eq)
  then show ?thesis
    by (simp add: coletar_badges_Inr list_all2_map2 list_all2_same)
qed

lemma exibir_badges_nonempty:
  "bs \<noteq> [] \<Longrightarrow> exibir_badges bs = map (\<lambda>(c, b, cor). Sucesso b c) bs"
  by (simp add: exibir_badges_def)

end
