(* ===== verification/Progress.thy ===== *)
theory Progress
  imports Badges
begin

text \<open>
  The goal progress bars (\<open>src/dash.py\<close>, lines 270--317). For each expense category
  the spend is turned into a percentage of the goal (0 when the goal is not positive),
  clamped at 100 for the bar. Up to 100\% the bar is drawn by \<open>st.progress\<close> with a
  text prefix chosen by the bands 70 and 85; above 100\% a red HTML bar is drawn instead.
  \<open>st.progress\<close> raises \<open>StreamlitAPIException\<close> for a float outside [0.0, 1.0].
\<close>

text \<open>Line 281.\<close>

definition percentual_real :: "money \<Rightarrow> money \<Rightarrow> real" where
  "percentual_real g m = (if m > 0 then g / m * 100 else 0)"

text \<open>Line 282.\<close>

definition percentual_barra :: "money \<Rightarrow> money \<Rightarrow> real" where
  "percentual_barra g m = min (percentual_real g m) 100"

text \<open>The text prefix of the bar: none, the warning sign, the siren.\<close>

datatype faixa = SemAlerta | Atencao | Perigo

text \<open>\<open>Progresso v f p\<close>: \<open>st.progress(v, text=...)\<close> with prefix \<open>f\<close> and
  percentage \<open>p\<close>; \<open>BarraVermelha p\<close>: the HTML bar of line 303.\<close>

datatype barra = Progresso real faixa real | BarraVermelha real

text \<open>Lines 295--311.\<close>

definition exibir_progresso :: "money \<Rightarrow> money \<Rightarrow> barra" where
  "exibir_progresso g m =
     (let p = percentual_real g m; b = percentual_barra g m in
      if p \<le> 70 then Progresso (b / 100) SemAlerta p
      else if p \<le> 85 then Progresso (b / 100) Atencao p
      else if p \<le> 100 then Progresso (b / 100) Perigo p
      else BarraVermelha p)"

text \<open>Lines 284--289: one entry of \<open>progress_data\<close>.\<close>

record linha_progresso =
  pg_categoria :: string
  pg_gasto :: money
  pg_meta :: money
  pg_percentual :: real

text \<open>Lines 274--317: for each expense category, its \<open>progress_data\<close> entry and the bar
  drawn for it.\<close>

definition progresso_categoria :: "transacao list \<Rightarrow> (string \<rightharpoonup> money) \<Rightarrow> string \<Rightarrow> linha_progresso \<times> barra" where
  "progresso_categoria df m c =
     (let g = gasto_categoria df c; mt = meta_categoria m c in
      (\<lparr>pg_categoria = c, pg_gasto = g, pg_meta = mt, pg_percentual = percentual_real g mt\<rparr>,
       exibir_progresso g mt))"

definition progresso :: "transacao list \<Rightarrow> (string \<rightharpoonup> money) \<Rightarrow> string list \<Rightarrow> (linha_progresso \<times> barra) list" where
  "progresso df m cats = map (progresso_categoria df m) cats"

text \<open>The precondition of \<open>st.progress\<close> on a float value.\<close>

fun barra_valida :: "barra \<Rightarrow> bool" where
  "barra_valida (Progresso v f p) \<longleftrightarrow> 0 \<le> v \<and> v \<le> 1"
| "barra_valida (BarraVermelha p) \<longleftrightarrow> True"

section \<open>Lemmas\<close>

lemma percentual_real_nonneg: "0 \<le> g \<Longrightarrow> 0 \<le> percentual_real g m"
  by (simp add: percentual_real_def)

lemma percentual_barra_le: "percentual_barra g m \<le> 100"
  by (simp add: percentual_barra_def)

lemma percentual_barra_nonneg: "0 \<le> g \<Longrightarrow> 0 \<le> percentual_barra g m"
  by (simp add: percentual_barra_def percentual_real_nonneg)

text \<open>The percentage against a positive goal, compared with a band: the comparison the
  badge cascade makes on the spend.\<close>

lemma percentual_real_le_iff:
  "0 < m \<Longrightarrow> percentual_real g m \<le> 100 * k \<longleftrightarrow> g \<le> m * k"
  by (simp add: percentual_real_def pos_divide_le_eq mult.commute)

lemma percentual_real_zero [simp]: "m \<le> 0 \<Longrightarrow> percentual_real g m = 0"
  by (simp add: percentual_real_def)

lemma exibir_progresso_valida: "0 \<le> g \<Longrightarrow> barra_valida (exibir_progresso g m)"
  by (simp add: exibir_progresso_def Let_def percentual_barra_le percentual_barra_nonneg)

lemma progresso_categoria_snd:
  "snd (progresso_categoria df m c) = exibir_progresso (gasto_categoria df c) (meta_categoria m c)"
  by (simp add: progresso_categoria_def Let_def)

section \<open>Properties\<close>

text \<open>
  C4. \<open>st.progress\<close> is never called out of range: for every frame, every goal dict
  (negative goals included) and every category list, each bar the progress section draws
  with \<open>st.progress\<close> has a value in [0, 1], so the call cannot raise.
\<close>

theorem progresso_barras_validas:
  "list_all (\<lambda>e. barra_valida (snd e)) (progresso df m cats)"
  by (simp add: progresso_def list_all_iff progresso_categoria_snd
      exibir_progresso_valida gasto_categoria_nonneg)

end
