(* ===== verification/Filters.thy ===== *)
theory Filters
  imports Ledger
begin

text \<open>
  The sidebar filters (\<open>src/dash.py\<close>, lines 127--156). The bounds of the date input
  are the earliest and latest dates of the frame (\<open>.min().date()\<close>, which raises on an
  empty frame: \<open>NaT\<close> has no date). The period filter applies only when the date input
  holds two dates (a range being picked holds one); the category filter keeps the rows
  whose category is selected, all categories of the period being selected by default.
\<close>

text \<open>Lines 132--133.\<close>

definition limites_datas :: "transacao list \<Rightarrow> erro + (date \<times> date)" where
  "limites_datas df =
     (case map data df of
        [] \<Rightarrow> Inl ErroNaT
      | d # ds \<Rightarrow> Inr (fold min ds d, fold max ds d))"

text \<open>Lines 142--146: \<open>date_range\<close> is the tuple the date input returns.\<close>

definition filtrar_periodo :: "date list \<Rightarrow> transacao list \<Rightarrow> transacao list" where
  "filtrar_periodo date_range df =
     (case date_range of
        [start_date, end_date] \<Rightarrow> filter (\<lambda>t. start_date \<le> data t \<and> data t \<le> end_date) df
      | _ \<Rightarrow> df)"

text \<open>Line 149.\<close>

definition categorias_disponiveis :: "transacao list \<Rightarrow> string list" where
  "categorias_disponiveis df = unique (map categoria df)"

text \<open>Line 156.\<close>

definition filtrar_categorias :: "string list \<Rightarrow> transacao list \<Rightarrow> transacao list" where
  "filtrar_categorias selecionadas df = filter (\<lambda>t. categoria t \<in> set selecionadas) df"

text \<open>Lines 127--156: the whole sidebar stage, from the loaded frame to \<open>df_filtered\<close>.\<close>

definition filtros :: "transacao list \<Rightarrow> date list \<Rightarrow> string list \<Rightarrow> erro + transacao list" where
  "filtros df date_range selecionadas =
     (case limites_datas df of
        Inl e \<Rightarrow> Inl e
      | Inr _ \<Rightarrow> Inr (filtrar_categorias selecionadas (filtrar_periodo date_range df)))"

section \<open>Lemmas\<close>

lemma fold_min_Min: "fold min ds d = Min (set (d # ds))"
  by (metis Min.set_eq_fold)

lemma fold_max_Max: "fold max ds d = Max (set (d # ds))"
  by (metis Max.set_eq_fold)

lemma limites_datas_Nil [simp]: "limites_datas [] = Inl ErroNaT"
  by (simp add: limites_datas_def)

lemma limites_datas_Inr:
  assumes "limites_datas df = Inr (lo, hi)"
  shows "\<forall>t\<in>set df. lo \<le> data t \<and> data t \<le> hi"
    and "lo \<in> data ` set df" and "hi \<in> data ` set df"
proof -
  obtain d ds where dd: "map data df = d # ds"
    using assms by (cases "map data df") (auto simp: limites_datas_def)
  with assms have lh: "lo = fold min ds d" "hi = fold max ds d"
    by (auto simp: limites_datas_def)
  have set_eq: "set (d # ds) = data ` set df"
    by (metis dd list.set_map)
  show "\<forall>t\<in>set df. lo \<le> data t \<and> data t \<le> hi"
    using lh set_eq by (simp add: fold_min_Min fold_max_Max)
  have ne: "data ` set df \<noteq> {}"
    using set_eq by auto
  show "lo \<in> data ` set df" "hi \<in> data ` set df"
    using lh set_eq ne by (simp_all add: fold_min_Min fold_max_Max)
qed

lemma limites_datas_Cons:
  "limites_datas (t # df) = Inr (fold min (map data df) (data t), fold max (map data df) (data t))"
  by (simp add: limites_datas_def)

lemma filtrar_periodo_pair:
  "filtrar_periodo [s, e] df = filter (\<lambda>t. s \<le> data t \<and> data t \<le> e) df"
  by (simp add: filtrar_periodo_def)

lemma filtrar_periodo_append:
  "filtrar_periodo r (xs @ ys) = filtrar_periodo r xs @ filtrar_periodo r ys"
  by (simp add: filtrar_periodo_def split: list.splits)

lemma filtrar_categorias_append:
  "filtrar_categorias sel (xs @ ys) = filtrar_categorias sel xs @ filtrar_categorias sel ys"
  by (simp add: filtrar_categorias_def)

lemma filtrar_periodo_subseq: "subseq (filtrar_periodo r df) df"
  by (simp add: filtrar_periodo_def split: list.splits)

lemma filtrar_categorias_subseq: "subseq (filtrar_categorias sel df) df"
  by (simp add: filtrar_categorias_def)

lemma filtros_Inl_iff: "filtros df r sel = Inl e \<longleftrightarrow> df = [] \<and> e = ErroNaT"
  by (cases df) (auto simp: filtros_def limites_datas_def)

text \<open>
  The sidebar stage with the default category selection (every category of the
  period) keeps every row of the period, in order; it raises exactly when the loaded
  frame is empty.
\<close>

lemma filtros_selecao_padrao:
  "filtros df r (categorias_disponiveis (filtrar_periodo r df)) =
     (if df = [] then Inl ErroNaT else Inr (filtrar_periodo r df))"
proof (cases df)
  case Nil
  then show ?thesis by (simp add: filtros_def)
next
  case (Cons t ts)
  have "filtrar_categorias (categorias_disponiveis d) d = d" for d
    by (simp add: filtrar_categorias_def categorias_disponiveis_def)
  with Cons show ?thesis by (simp add: filtros_def limites_datas_Cons)
qed

section \<open>Properties\<close>

text \<open>
  C30. With its widgets at their default values, the period \<open>(min_date, max_date)\<close> of
  line 137 and every category offered (line 153), the sidebar keeps the whole loaded
  frame, the rows of the first and the last day included.
\<close>

theorem sidebar_padrao_completo:
  assumes "limites_datas df = Inr (lo, hi)"
  shows "filtros df [lo, hi] (categorias_disponiveis (filtrar_periodo [lo, hi] df)) = Inr df"
proof -
  have "filtrar_periodo [lo, hi] df = df"
    using limites_datas_Inr(1) [OF assms] by (simp add: filtrar_periodo_def)
  moreover have "df \<noteq> []"
    using assms by auto
  ultimately show ?thesis
    using filtros_selecao_padrao [of df "[lo, hi]"] by simp
qed

end
