(* ===== verification/Calendar.thy ===== *)
theory Calendar
  imports Prelude
begin

text \<open>
  Calendar dates as the script uses them (\<open>src/dash.py\<close>): the day range of the sample
  generator (\<open>pd.date_range(start='2024-01-01', end='2024-01-31', freq='D')\<close>, line 74),
  the text a sample date is stored as (\<open>date.strftime('%Y-%m-%d')\<close>, line 95), its
  parse back by \<open>pd.to_datetime\<close> in \<open>process_data\<close> (line 107), and the day count of
  the summary statistics (\<open>(max - min).days\<close>, line 490). pandas is a library: these
  definitions state its documented behaviour on the inputs the script gives it (proleptic
  Gregorian calendar, midnight timestamps, ISO text with four-digit years). The day
  number \<open>dias_civis\<close> is the standard days-from-civil formula (days since 1970-01-01).
\<close>

section \<open>Dates\<close>

text \<open>The Gregorian leap-year rule, the length of a month, and the valid dates.\<close>

definition bissexto :: "int \<Rightarrow> bool" where
  "bissexto y \<longleftrightarrow> 4 dvd y \<and> (\<not> 100 dvd y \<or> 400 dvd y)"

definition dias_no_mes :: "int \<Rightarrow> nat \<Rightarrow> nat" where
  "dias_no_mes y m =
     (if m = 2 then (if bissexto y then 29 else 28)
      else if m = 4 \<or> m = 6 \<or> m = 9 \<or> m = 11 then 30 else 31)"

definition data_valida :: "date \<Rightarrow> bool" where
  "data_valida d \<longleftrightarrow> (case d of (y, m, dd) \<Rightarrow> 1 \<le> m \<and> m \<le> 12 \<and> 1 \<le> dd \<and> dd \<le> dias_no_mes y m)"

text \<open>The next calendar day: one step of \<open>freq='D'\<close>.\<close>

definition dia_seguinte :: "date \<Rightarrow> date" where
  "dia_seguinte d =
     (case d of (y, m, dd) \<Rightarrow>
        if dd < dias_no_mes y m then (y, m, dd + 1)
        else if m < 12 then (y, m + 1, 1)
        else (y + 1, 1, 1))"

text \<open>The day number of a date: days since 1970-01-01 (H. Hinnant's \<open>days_from_civil\<close>);
  the difference of two midnight timestamps counts the difference of their day numbers.\<close>

definition dias_civis :: "date \<Rightarrow> int" where
  "dias_civis d =
     (case d of (y, m, dd) \<Rightarrow>
        let y' = (if m \<le> 2 then y - 1 else y);
            era = y' div 400;
            yoe = y' - era * 400;
            mp = (int m + 9) mod 12;
            doy = (153 * mp + 2) div 5 + int dd - 1;
            doe = yoe * 365 + yoe div 4 - yoe div 100 + doy
        in era * 146097 + doe - 719468)"

section \<open>Decimal text\<close>

text \<open>\<open>strftime\<close> digits: two for day and month, four for the year (pandas timestamps
  lie in the years 1677--2262).\<close>

definition digito :: "nat \<Rightarrow> char" where
  "digito n = char_of (48 + n)"

definition dois_digitos :: "nat \<Rightarrow> string" where
  "dois_digitos n = [digito (n div 10 mod 10), digito (n mod 10)]"

definition quatro_digitos :: "nat \<Rightarrow> string" where
  "quatro_digitos n = [digito (n div 1000 mod 10), digito (n div 100 mod 10), digito (n div 10 mod 10), digito (n mod 10)]"

text \<open>Line 95: \<open>date.strftime('%Y-%m-%d')\<close>.\<close>

definition formatar_iso :: "date \<Rightarrow> string" where
  "formatar_iso d =
     (case d of (y, m, dd) \<Rightarrow> quatro_digitos (nat y) @ ''-'' @ dois_digitos m @ ''-'' @ dois_digitos dd)"

text \<open>Line 107: \<open>pd.to_datetime\<close> on a text \<open>'YYYY-MM-DD'\<close>: four, two and two
  decimal digits separated by hyphens, naming a valid date; any other text raises (\<open>None\<close>).\<close>

definition valor_digito :: "char \<Rightarrow> nat option" where
  "valor_digito c = (if CHR ''0'' \<le> c \<and> c \<le> CHR ''9'' then Some (of_char c - 48) else None)"

fun ler_num :: "nat \<Rightarrow> string \<Rightarrow> nat option" where
  "ler_num acc [] = Some acc"
| "ler_num acc (c # cs) = (case valor_digito c of None \<Rightarrow> None | Some v \<Rightarrow> ler_num (10 * acc + v) cs)"

definition ler_iso :: "string \<Rightarrow> date option" where
  "ler_iso s =
     (case s of
        [y1, y2, y3, y4, h1, m1, m2, h2, d1, d2] \<Rightarrow>
          if h1 = CHR ''-'' \<and> h2 = CHR ''-'' then
            (case (ler_num 0 [y1, y2, y3, y4], ler_num 0 [m1, m2], ler_num 0 [d1, d2]) of
               (Some y, Some m, Some dd) \<Rightarrow>
                 if data_valida (int y, m, dd) then Some (int y, m, dd) else None
             | _ \<Rightarrow> None)
          else None
      | _ \<Rightarrow> None)"

section \<open>Day ranges\<close>

text \<open>Line 74: \<open>pd.date_range(start, end, freq='D')\<close>, every day from \<open>start\<close> to
  \<open>end\<close>, both included (empty when \<open>end\<close> precedes \<open>start\<close>).\<close>

definition date_range :: "date \<Rightarrow> date \<Rightarrow> date list" where
  "date_range a b = map (\<lambda>n. (dia_seguinte ^^ n) a) [0..<nat (dias_civis b - dias_civis a + 1)]"

section \<open>Lemmas\<close>

lemma dias_anos:
  "y div 400 * 146097 + (y - y div 400 * 400) * 365 + (y - y div 400 * 400) div 4 - (y - y div 400 * 400) div 100 =
   365 * y + y div 4 - y div 100 + y div 400"
  for y :: int
proof -
  obtain e r where y: "y = 400 * e + r" "0 \<le> r" "r < 400" "e = y div 400"
    by (metis div_mult_mod_eq mult.commute pos_mod_bound pos_mod_sign zero_less_numeral add.commute)
  have a: "y div 4 = 100 * e + r div 4" using y by simp
  have b: "y div 100 = 4 * e + r div 100" using y by simp
  have c: "y - e * 400 = r" using y by simp
  have "365 * y + y div 4 - y div 100 + y div 400 =
        365 * (400 * e + r) + (100 * e + r div 4) - (4 * e + r div 100) + e"
    by (simp only: a b flip: y(4)) (simp only: y(1))
  moreover have "y div 400 * 146097 + (y - y div 400 * 400) * 365 + (y - y div 400 * 400) div 4 -
      (y - y div 400 * 400) div 100 = e * 146097 + r * 365 + r div 4 - r div 100"
    by (simp only: c flip: y(4))
  ultimately show ?thesis by (simp add: algebra_simps)
qed

lemma dias_civis_anos:
  "dias_civis (y, m, dd) =
     (let y' = (if m \<le> 2 then y - 1 else y)
      in 365 * y' + y' div 4 - y' div 100 + y' div 400 + (153 * ((int m + 9) mod 12) + 2) div 5 + int dd - 1 - 719468)"
proof -
  define y' where "y' = (if m \<le> 2 then y - 1 else y)"
  have "dias_civis (y, m, dd) =
        (y' div 400 * 146097 + (y' - y' div 400 * 400) * 365 + (y' - y' div 400 * 400) div 4 -
         (y' - y' div 400 * 400) div 100) + (153 * ((int m + 9) mod 12) + 2) div 5 + int dd - 1 - 719468"
    unfolding dias_civis_def Let_def y'_def by simp
  then show ?thesis
    by (simp only: dias_anos Let_def y'_def)
qed
lemma dias_civis_dia: "dias_civis (y, m, dd) = dias_civis (y, m, 0) + int dd"
  by (simp add: dias_civis_def Let_def)

lemma div_pred: "(0::int) < k \<Longrightarrow> y div k - (y - 1) div k = (if k dvd y then 1 else 0)"
proof -
  assume k: "0 < k"
  define q r where "q = y div k" and "r = y mod k"
  have y: "y = r + k * q" and r: "0 \<le> r" "r < k"
    using k by (simp_all add: q_def r_def)
  have "y - 1 = (r - 1) + k * q"
    by (simp add: y)
  then have "(y - 1) div k = (r - 1) div k + q"
    using k by (metis div_mult_self2 add.commute less_irrefl)
  moreover have "(r - 1) div k = (if r = 0 then -1 else 0)"
    using r k by (auto simp: div_eq_minus1 div_pos_pos_trivial)
  moreover have "k dvd y \<longleftrightarrow> r = 0"
    by (simp add: r_def dvd_eq_mod_eq_0)
  ultimately show ?thesis
    using k by (simp add: q_def)
qed

lemma dias_ano:
  "(365 * y + y div 4 - y div 100 + y div 400) - (365 * (y - 1) + (y - 1) div 4 - (y - 1) div 100 + (y - 1) div 400)
   = 365 + (if bissexto y then 1 else 0)"
  for y :: int
proof -
  have "(4::int) dvd 100" "(100::int) dvd 400" by simp_all
  then have h: "100 dvd y \<Longrightarrow> 4 dvd y" "400 dvd y \<Longrightarrow> 100 dvd y"
    by (meson dvd_trans)+
  have d: "y div 4 - (y - 1) div 4 = (if 4 dvd y then 1 else 0)"
    "y div 100 - (y - 1) div 100 = (if 100 dvd y then 1 else 0)"
    "y div 400 - (y - 1) div 400 = (if 400 dvd y then 1 else 0)"
    by (simp_all add: div_pred)
  consider "400 dvd y" | "\<not> 400 dvd y" "100 dvd y" | "\<not> 100 dvd y" "4 dvd y" | "\<not> 4 dvd y"
    by blast
  then show ?thesis
  proof cases
    case 1
    with h d show ?thesis by (simp add: bissexto_def)
  next
    case 2
    with h d show ?thesis by (simp add: bissexto_def)
  next
    case 3
    then have "\<not> 400 dvd y" using h by blast
    with 3 h d show ?thesis by (simp add: bissexto_def)
  next
    case 4
    then have "\<not> 100 dvd y" "\<not> 400 dvd y" using h by blast+
    with 4 h d show ?thesis by (simp add: bissexto_def)
  qed
qed

lemma dias_no_mes_ge: "28 \<le> dias_no_mes y m"
  by (simp add: dias_no_mes_def)

lemma dias_civis_fevereiro: "dias_civis (y, 3, 1) = dias_civis (y, 2, dias_no_mes y 2) + 1"
proof (cases "bissexto y")
  case True
  then show ?thesis using dias_ano [of y] by (simp add: dias_civis_anos dias_no_mes_def Let_def; linarith)
next
  case False
  then show ?thesis using dias_ano [of y] by (simp add: dias_civis_anos dias_no_mes_def Let_def; linarith)
qed

lemma dias_civis_fim_mes:
  assumes "1 \<le> m" "m < 12"
  shows "dias_civis (y, m + 1, 1) = dias_civis (y, m, dias_no_mes y m) + 1"
proof -
  have "m = 2 \<or> m = 1 \<or> m = 3 \<or> m = 4 \<or> m = 5 \<or> m = 6 \<or> m = 7 \<or> m = 8 \<or> m = 9 \<or> m = 10 \<or> m = 11"
    using assms by presburger
  then show ?thesis
  proof (elim disjE)
    assume "m = 2"
    then show ?thesis using dias_civis_fevereiro [of y] by simp
  qed (simp_all add: dias_civis_anos dias_no_mes_def Let_def)
qed

lemma dias_civis_seguinte:
  assumes "data_valida d"
  shows "dias_civis (dia_seguinte d) = dias_civis d + 1"
proof -
  obtain y m dd where d: "d = (y, m, dd)" by (cases d)
  consider "dd < dias_no_mes y m" | "dd = dias_no_mes y m" "m < 12" | "dd = dias_no_mes y m" "m = 12"
    using assms d by (fastforce simp: data_valida_def)
  then show ?thesis
  proof cases
    case 1
    then show ?thesis
      using dias_civis_dia [of y m dd] dias_civis_dia [of y m "dd + 1"] by (simp add: d dia_seguinte_def)
  next
    case 2
    then show ?thesis
      using assms dias_civis_fim_mes [of m y] by (simp add: d dia_seguinte_def data_valida_def)
  next
    case 3
    then show ?thesis
      by (simp add: d dia_seguinte_def dias_civis_anos dias_no_mes_def)
  qed
qed

lemma data_valida_seguinte:
  assumes "data_valida d"
  shows "data_valida (dia_seguinte d)"
proof -
  obtain y m dd where d: "d = (y, m, dd)" by (cases d)
  have ge: "1 \<le> dias_no_mes y' m'" for y' m'
    using dias_no_mes_ge [of y' m'] by linarith
  consider "dd < dias_no_mes y m" | "dd = dias_no_mes y m" "m < 12" | "dd = dias_no_mes y m" "m = 12"
    using assms d by (fastforce simp: data_valida_def)
  then show ?thesis
  proof cases
    case 1
    then show ?thesis using assms by (simp add: d dia_seguinte_def data_valida_def)
  next
    case 2
    then show ?thesis using assms ge by (simp add: d dia_seguinte_def data_valida_def)
  next
    case 3
    then show ?thesis using ge by (simp add: d dia_seguinte_def data_valida_def)
  qed
qed

lemma data_valida_funpow: "data_valida d \<Longrightarrow> data_valida ((dia_seguinte ^^ n) d)"
  by (induction n) (simp_all add: data_valida_seguinte)

lemma dias_civis_funpow:
  "data_valida d \<Longrightarrow> dias_civis ((dia_seguinte ^^ n) d) = dias_civis d + int n"
  by (induction n) (simp_all add: dias_civis_seguinte data_valida_funpow)

lemma funpow_mesmo_mes:
  "dd + n \<le> dias_no_mes y m \<Longrightarrow> (dia_seguinte ^^ n) (y, m, dd) = (y, m, dd + n)"
  by (induction n) (simp_all add: dia_seguinte_def)

lemma length_date_range: "length (date_range a b) = nat (dias_civis b - dias_civis a + 1)"
  by (simp add: date_range_def)

lemma date_range_valida: "data_valida a \<Longrightarrow> list_all data_valida (date_range a b)"
  by (simp add: date_range_def list_all_iff data_valida_funpow)

lemma date_range_mes:
  "date_range (y, m, 1) (y, m, dias_no_mes y m) = map (\<lambda>k. (y, m, k)) [1..<dias_no_mes y m + 1]"
proof -
  have len: "nat (dias_civis (y, m, dias_no_mes y m) - dias_civis (y, m, 1) + 1) = dias_no_mes y m"
    using dias_civis_dia [of y m 1] dias_civis_dia [of y m "dias_no_mes y m"] by simp
  have "date_range (y, m, 1) (y, m, dias_no_mes y m) = map (\<lambda>n. (dia_seguinte ^^ n) (y, m, 1)) [0..<dias_no_mes y m]"
    by (simp only: date_range_def len)
  also have "\<dots> = map (\<lambda>n. (y, m, Suc n)) [0..<dias_no_mes y m]"
    by (rule map_cong) (simp_all add: funpow_mesmo_mes)
  also have "\<dots> = map (\<lambda>k. (y, m, k)) [1..<dias_no_mes y m + 1]"
    by (simp add: map_Suc_upt [symmetric] del: upt_Suc)
  finally show ?thesis .
qed

lemma valor_digito_digito: "n < 10 \<Longrightarrow> valor_digito (digito n) = Some n"
  by (simp add: valor_digito_def digito_def less_eq_char_def)

lemma valor_digito_Some: "valor_digito c = Some v \<Longrightarrow> v < 10 \<and> digito v = c"
  by (auto simp: valor_digito_def digito_def less_eq_char_def split: if_splits)

lemma of_char_digito: "n < 10 \<Longrightarrow> of_char (digito n) = 48 + n"
  by (simp add: digito_def)

lemma mod_dez: "n mod (10 * k) = 10 * (n div 10 mod k) + n mod 10"
  for n :: nat
  by (rule mod_mult2_eq)

lemma ler_num_dois: "ler_num acc (dois_digitos n) = Some (100 * acc + n mod 100)"
  using mod_dez [of n 10] by (simp add: dois_digitos_def valor_digito_digito)

lemma ler_num_quatro: "ler_num acc (quatro_digitos n) = Some (10000 * acc + n mod 10000)"
proof -
  have "n mod 10000 = 1000 * (n div 1000 mod 10) + 100 * (n div 100 mod 10) + 10 * (n div 10 mod 10) + n mod 10"
    using mod_dez [of n 1000] mod_dez [of "n div 10" 100] mod_dez [of "n div 100" 10]
      div_mult2_eq [of n 10 10] div_mult2_eq [of n 100 10]
    by simp
  then show ?thesis
    by (simp add: quatro_digitos_def valor_digito_digito)
qed
lemma dias_no_mes_le: "dias_no_mes y m \<le> 31"
  by (simp add: dias_no_mes_def)

lemma ler_iso_formato:
  "ler_iso (quatro_digitos a @ CHR ''-'' # dois_digitos b @ CHR ''-'' # dois_digitos c) =
     (if data_valida (int (a mod 10000), b mod 100, c mod 100)
      then Some (int (a mod 10000), b mod 100, c mod 100) else None)"
proof -
  obtain p q r t where a: "quatro_digitos a = [p, q, r, t]" by (simp add: quatro_digitos_def)
  obtain u v where b: "dois_digitos b = [u, v]" by (simp add: dois_digitos_def)
  obtain w x where c: "dois_digitos c = [w, x]" by (simp add: dois_digitos_def)
  have "ler_num 0 [p, q, r, t] = Some (a mod 10000)"
    using ler_num_quatro [of 0 a] a by simp
  moreover have "ler_num 0 [u, v] = Some (b mod 100)" "ler_num 0 [w, x] = Some (c mod 100)"
    using ler_num_dois [of 0 b] ler_num_dois [of 0 c] b c by simp_all
  ultimately show ?thesis
    by (simp add: a b c ler_iso_def)
qed

text \<open>The ISO text of a date with a four-digit year and two-digit month and day fields
  parses back to the date exactly when the date is valid.\<close>

lemma ler_iso_formatar:
  "0 \<le> y \<Longrightarrow> y < 10000 \<Longrightarrow> m < 100 \<Longrightarrow> dd < 100 \<Longrightarrow>
   ler_iso (formatar_iso (y, m, dd)) = (if data_valida (y, m, dd) then Some (y, m, dd) else None)"
  by (simp add: formatar_iso_def ler_iso_formato)

lemma ler_num_dois_Some: "ler_num 0 [a, b] = Some n \<Longrightarrow> dois_digitos n = [a, b]"
proof -
  assume h: "ler_num 0 [a, b] = Some n"
  then obtain va vb where v: "valor_digito a = Some va" "valor_digito b = Some vb" "n = 10 * va + vb"
    by (auto split: option.splits)
  then have "va < 10" "vb < 10" "digito va = a" "digito vb = b"
    using valor_digito_Some by blast+
  moreover have "n div 10 = va" "n mod 10 = vb"
    using v(3) \<open>vb < 10\<close> by simp_all
  ultimately show ?thesis
    by (simp add: dois_digitos_def)
qed

lemma ler_num_quatro_Some: "ler_num 0 [a, b, c, d] = Some n \<Longrightarrow> quatro_digitos n = [a, b, c, d]"
proof -
  assume h: "ler_num 0 [a, b, c, d] = Some n"
  then obtain va vb vc vd where v: "valor_digito a = Some va" "valor_digito b = Some vb"
      "valor_digito c = Some vc" "valor_digito d = Some vd" "n = 10 * (10 * (10 * va + vb) + vc) + vd"
    by (auto split: option.splits)
  then have lt: "va < 10" "vb < 10" "vc < 10" "vd < 10" and dg: "digito va = a" "digito vb = b" "digito vc = c" "digito vd = d"
    using valor_digito_Some by blast+
  have h10: "\<And>x y. y < 10 \<Longrightarrow> (y + 10 * x) div 10 = x \<and> (y + 10 * x) mod 10 = (y::nat)"
    by simp
  have n: "n = vd + 10 * (vc + 10 * (vb + 10 * va))"
    using v(5) by simp
  have d1: "n div 10 = vc + 10 * (vb + 10 * va)" "n mod 10 = vd"
    unfolding n using h10 [OF lt(4)] by blast+
  have q: "n div 100 = n div 10 div 10" "n div 1000 = n div 100 div 10"
    using div_mult2_eq [of n 10 10] div_mult2_eq [of n 100 10] by simp_all
  have d2: "n div 100 = vb + 10 * va"
    by (simp only: q(1) d1(1) conjunct1 [OF h10 [OF lt(3)]])
  have d3: "n div 1000 = va"
    by (simp only: q(2) d2 conjunct1 [OF h10 [OF lt(2)]])
  have "n div 10 mod 10 = vc"
    by (simp only: d1(1) conjunct2 [OF h10 [OF lt(3)]])
  moreover have "n div 100 mod 10 = vb"
    by (simp only: d2 conjunct2 [OF h10 [OF lt(2)]])
  ultimately have "n div 1000 mod 10 = va" "n div 100 mod 10 = vb" "n div 10 mod 10 = vc" "n mod 10 = vd"
    using d1(2) d3 lt by simp_all
  then show ?thesis
    using dg by (simp add: quatro_digitos_def)
qed
section \<open>Properties\<close>

text \<open>
  A sample date written by \<open>strftime('%Y-%m-%d')\<close> is read back by
  \<open>pd.to_datetime\<close> as the same date: for every valid date with a four-digit year,
  parsing its ISO text gives the date.
\<close>

lemma ler_formatar_iso:
  assumes "data_valida d" and "0 \<le> fst d" and "fst d < 10000"
  shows "ler_iso (formatar_iso d) = Some d"
proof -
  obtain y m dd where d: "d = (y, m, dd)" by (cases d)
  have "m < 100" "dd < 100"
    using assms(1) dias_no_mes_le [of y m] by (simp_all add: d data_valida_def)
  then show ?thesis
    using assms ler_iso_formatar [of y m dd] by (simp add: d)
qed

text \<open>
  Conversely, a text that \<open>pd.to_datetime\<close> accepts in this format names a valid
  date, and printing that date gives back the text: the ISO format is a bijection between
  the valid dates of years 0--9999 and the texts the parser accepts.
\<close>

lemma formatar_ler_iso:
  assumes "ler_iso s = Some d"
  shows "formatar_iso d = s \<and> data_valida d"
proof -
  obtain y1 y2 y3 y4 h1 m1 m2 h2 d1 d2 where s: "s = [y1, y2, y3, y4, h1, m1, m2, h2, d1, d2]"
    using assms by (auto simp: ler_iso_def split: list.splits)
  have h: "h1 = CHR ''-''" "h2 = CHR ''-''"
    using assms by (auto simp: s ler_iso_def split: if_splits)
  obtain y m dd where n: "ler_num 0 [y1, y2, y3, y4] = Some y" "ler_num 0 [m1, m2] = Some m"
      "ler_num 0 [d1, d2] = Some dd"
    using assms by (auto simp: s ler_iso_def h simp del: ler_num.simps split: option.splits if_splits)
  have "d = (int y, m, dd)" "data_valida (int y, m, dd)"
    using assms by (auto simp: s ler_iso_def h n simp del: ler_num.simps split: if_splits)
  then show ?thesis
    using ler_num_quatro_Some [OF n(1)] ler_num_dois_Some [OF n(2)] ler_num_dois_Some [OF n(3)]
    by (simp add: s h formatar_iso_def)
qed
text \<open>
  \<open>pd.date_range\<close> from a valid date lists consecutive calendar days: their day
  numbers are exactly the integers from the first date's to the last date's, so each step
  of the model's successor function is one day, across month and year ends and in leap
  years.
\<close>

lemma date_range_dias:
  "data_valida a \<Longrightarrow> map dias_civis (date_range a b) = [dias_civis a .. dias_civis b]"
  by (rule nth_equalityI) (simp_all add: date_range_def dias_civis_funpow)

end
