(* ===== verification/Format.thy ===== *)
theory Format
  imports Calendar
begin

text \<open>
  The number format \<open>f"{x:,.2f}"\<close> the dashboard uses for every amount it prints
  (\<open>src/dash.py\<close>: the KPI values and deltas, lines 165--185; the goal metrics, lines
  314--317; the table's amount column, line 460; the summary statistics, lines 483--487).
  Python's format is a library; this theory states its documented behaviour on reals.
\<close>

section \<open>Definitions\<close>

text \<open>The decimal digits of a natural number, most significant first (Python's
  \<open>str(n)\<close>, used for the integer part); a loop dividing by ten, so a \<open>function\<close> whose
  termination is proved by a measure.\<close>

function (domintros) digitos_dec :: "nat \<Rightarrow> string" where
  "digitos_dec n = (if n < 10 then [digito n] else digitos_dec (n div 10) @ [digito (n mod 10)])"
  by pat_completeness auto

termination digitos_dec
  by (relation "measure id") auto

declare digitos_dec.simps [simp del]

text \<open>The \<open>,\<close> option of the format: a comma between each group of three digits,
  counted from the right.\<close>

fun agrupar_rev :: "string \<Rightarrow> string" where
  "agrupar_rev (a # b # c # d # rest) = a # b # c # CHR '','' # agrupar_rev (d # rest)"
| "agrupar_rev xs = xs"

definition agrupar :: "string \<Rightarrow> string" where
  "agrupar s = rev (agrupar_rev (rev s))"

text \<open>\<open>f"{x:,.2f}"\<close>: the sign of a negative number (also when it rounds to zero:
  Python prints \<open>-0.00\<close>), the grouped integer part, a point and two decimals. The
  amount is rounded to cents half up (Python rounds the binary value half to even; they
  differ only on exact ties).\<close>

definition formatar_numero :: "real \<Rightarrow> string" where
  "formatar_numero x =
     (let c = nat (round (\<bar>x\<bar> * 100))
      in (if x < 0 then ''-'' else []) @ agrupar (digitos_dec (c div 100)) @ ''.'' @ dois_digitos (c mod 100))"

text \<open>The value a text of that shape denotes, in cents: an optional minus sign, digits
  and commas, a point and two digits (the reading a user, or \<open>float()\<close> after removing
  the commas, gives it).\<close>

definition ler_centavos :: "string \<Rightarrow> int option" where
  "ler_centavos s =
     (let (neg, r) = (case s of c # cs \<Rightarrow> if c = CHR ''-'' then (True, cs) else (False, s) | [] \<Rightarrow> (False, s));
          sem = filter (\<lambda>c. c \<noteq> CHR '','') r
      in if length sem < 4 \<or> sem ! (length sem - 3) \<noteq> CHR ''.'' then None
         else case (ler_num 0 (take (length sem - 3) sem), ler_num 0 (drop (length sem - 2) sem)) of
                (Some i, Some f) \<Rightarrow> Some ((if neg then -1 else 1) * int (100 * i + f))
              | _ \<Rightarrow> None)"

text \<open>\<open>f"R$ {x:,.2f}"\<close> (lines 168, 175, 183, 314, 317, 460, 483, 487).\<close>

definition formatar_reais :: "real \<Rightarrow> string" where
  "formatar_reais x = ''R$ '' @ formatar_numero x"

section \<open>Lemmas\<close>

lemma ler_num_append: "ler_num acc (xs @ ys) = (case ler_num acc xs of None \<Rightarrow> None | Some a \<Rightarrow> ler_num a ys)"
  by (induction acc xs rule: ler_num.induct) (auto split: option.splits)

lemma ler_num_digitos_dec: "ler_num 0 (digitos_dec n) = Some n"
proof (induction n rule: digitos_dec.induct)
  case (1 n)
  show ?case
  proof (cases "n < 10")
    case True
    then show ?thesis by (subst digitos_dec.simps) (simp add: valor_digito_digito)
  next
    case False
    then show ?thesis using 1 by (subst digitos_dec.simps) (simp add: ler_num_append valor_digito_digito)
  qed
qed

lemma digito_abaixo: "k < 10 \<Longrightarrow> of_char c < (48::nat) \<Longrightarrow> digito k \<noteq> c"
  by (metis of_char_digito not_add_less1)

lemma digito_nao_sinal: "k < 10 \<Longrightarrow> digito k \<noteq> CHR '','' \<and> digito k \<noteq> CHR ''-'' \<and> digito k \<noteq> CHR ''.''"
  by (simp add: digito_abaixo)

lemma set_digitos_dec: "set (digitos_dec n) \<subseteq> digito ` {..<10}"
proof (induction n rule: digitos_dec.induct)
  case (1 n)
  then show ?case
    by (subst digitos_dec.simps) auto
qed

lemma digitos_dec_nao_vazio: "digitos_dec n \<noteq> []"
  by (subst digitos_dec.simps) simp

lemma filter_agrupar_rev: "filter (\<lambda>c. c \<noteq> CHR '','') (agrupar_rev s) = filter (\<lambda>c. c \<noteq> CHR '','') s"
  by (induction s rule: agrupar_rev.induct) auto

lemma set_agrupar_rev: "set (agrupar_rev s) \<subseteq> insert (CHR '','') (set s)"
  by (induction s rule: agrupar_rev.induct) auto

lemma agrupar_rev_Nil_iff: "agrupar_rev s = [] \<longleftrightarrow> s = []"
  by (induction s rule: agrupar_rev.induct) auto
lemma filter_agrupar: "CHR '','' \<notin> set s \<Longrightarrow> filter (\<lambda>c. c \<noteq> CHR '','') (agrupar s) = s"
proof -
  assume s: "CHR '','' \<notin> set s"
  have "filter (\<lambda>c. c \<noteq> CHR '','') (agrupar s) = rev (filter (\<lambda>c. c \<noteq> CHR '','') (agrupar_rev (rev s)))"
    by (simp only: agrupar_def rev_filter)
  also have "\<dots> = rev (filter (\<lambda>c. c \<noteq> CHR '','') (rev s))"
    by (simp only: filter_agrupar_rev)
  also have "\<dots> = s"
  proof -
    have "filter (\<lambda>c. c \<noteq> CHR '','') s = s"
      using s by (rule filter_nao_membro)
    then show ?thesis by (simp add: rev_filter [symmetric] del: rev_filter)
  qed
  finally show ?thesis .
qed

lemma digitos_dec_sem_virgula: "CHR '','' \<notin> set (digitos_dec n)"
proof
  assume "CHR '','' \<in> set (digitos_dec n)"
  then have "CHR '','' \<in> digito ` {..<10}"
    by (rule subsetD [OF set_digitos_dec])
  then obtain k where "k \<in> {..<10}" "CHR '','' = digito k"
    by (rule imageE)
  then show False
    using digito_nao_sinal [of k] by simp
qed

lemma hd_agrupar_digitos: "agrupar (digitos_dec n) \<noteq> [] \<and> hd (agrupar (digitos_dec n)) \<noteq> CHR ''-''"
proof -
  have ne: "agrupar (digitos_dec n) \<noteq> []"
    by (simp add: agrupar_def agrupar_rev_Nil_iff digitos_dec_nao_vazio)
  have "set (agrupar (digitos_dec n)) \<subseteq> insert (CHR '','') (digito ` {..<10})"
    using set_agrupar_rev [of "rev (digitos_dec n)"] set_digitos_dec [of n] by (auto simp: agrupar_def)
  then have "hd (agrupar (digitos_dec n)) \<in> insert (CHR '','') (digito ` {..<10})"
    using ne hd_in_set by blast
  then consider "hd (agrupar (digitos_dec n)) = CHR '',''"
    | k where "k < 10" "hd (agrupar (digitos_dec n)) = digito k"
    by blast
  then have "hd (agrupar (digitos_dec n)) \<noteq> CHR ''-''"
    by cases (simp_all add: digito_nao_sinal)
  with ne show ?thesis by blast
qed

text \<open>The body of the text: what follows the sign.\<close>

lemma ler_centavos_corpo:
  assumes "f < 100"
  shows "filter (\<lambda>c. c \<noteq> CHR '','') (agrupar (digitos_dec i) @ ''.'' @ dois_digitos f) =
           digitos_dec i @ CHR ''.'' # dois_digitos f"
proof -
  have "CHR '','' \<notin> set (dois_digitos f)"
    using digito_nao_sinal [of "f div 10 mod 10"] digito_nao_sinal [of "f mod 10"]
    by (auto simp: dois_digitos_def)
  then show ?thesis
    by (simp add: filter_agrupar digitos_dec_sem_virgula filter_nao_membro)
qed

lemma ler_centavos_sem:
  assumes "f < 100" and "sem = digitos_dec i @ CHR ''.'' # dois_digitos f"
  shows "\<not> (length sem < 4 \<or> sem ! (length sem - 3) \<noteq> CHR ''.'') \<and>
         ler_num 0 (take (length sem - 3) sem) = Some i \<and> ler_num 0 (drop (length sem - 2) sem) = Some f"
proof -
  have l: "length (dois_digitos f) = 2" by (simp add: dois_digitos_def)
  have "digitos_dec i \<noteq> []" by (rule digitos_dec_nao_vazio)
  then have "length sem - 3 = length (digitos_dec i)" "length sem - 2 = Suc (length (digitos_dec i))" "4 \<le> length sem"
    using assms(2) l by (simp_all, cases "digitos_dec i") simp_all
  then show ?thesis
    using assms ler_num_digitos_dec [of i] ler_num_dois [of 0 f] by (simp add: nth_append)
qed

lemma formatar_numero_sinal:
  "formatar_numero x \<noteq> [] \<and> (hd (formatar_numero x) = CHR ''-'' \<longleftrightarrow> x < 0)"
proof (cases "x < 0")
  case True
  then show ?thesis by (simp add: formatar_numero_def Let_def)
next
  case False
  then show ?thesis
    using hd_agrupar_digitos [of "nat (round (x * 100)) div 100"]
    by (simp add: formatar_numero_def Let_def hd_append)
qed

section \<open>Properties\<close>

text \<open>
  The digit loop of the number format terminates on every input and computes the
  decimal digits of its input: every natural number is in the domain of \<open>digitos_dec\<close>
  (by well-founded induction, each step dividing by ten), and the digits it returns read
  back as the number.
\<close>

lemma digitos_dec_termina: "digitos_dec_dom n \<and> ler_num 0 (digitos_dec n) = Some n"
proof -
  have "digitos_dec_dom n"
  proof (induction n rule: less_induct)
    case (less n)
    show ?case
      by (rule digitos_dec.domintros) (use less in simp)
  qed
  then show ?thesis
    by (simp add: ler_num_digitos_dec)
qed

text \<open>
  The amounts the dashboard prints are exact to the cent: reading back the text of
  \<open>f"{x:,.2f}"\<close> (commas ignored) gives the amount rounded to cents, with its sign.
\<close>

lemma ler_formatar_numero:
  "ler_centavos (formatar_numero x) = Some ((if x < 0 then -1 else 1) * round (\<bar>x\<bar> * 100))"
proof -
  define c where "c = nat (round (\<bar>x\<bar> * 100))"
  have c: "int c = round (\<bar>x\<bar> * 100)"
    unfolding c_def by (simp add: round_def)
  define sem where "sem = digitos_dec (c div 100) @ CHR ''.'' # dois_digitos (c mod 100)"
  have f: "filter (\<lambda>c. c \<noteq> CHR '','') (agrupar (digitos_dec (c div 100)) @ ''.'' @ dois_digitos (c mod 100)) = sem"
    unfolding sem_def by (rule ler_centavos_corpo) simp
  have s: "\<not> (length sem < 4 \<or> sem ! (length sem - 3) \<noteq> CHR ''.'') \<and>
           ler_num 0 (take (length sem - 3) sem) = Some (c div 100) \<and> ler_num 0 (drop (length sem - 2) sem) = Some (c mod 100)"
    by (rule ler_centavos_sem) (simp_all add: sem_def)
  have h: "agrupar (digitos_dec (c div 100)) \<noteq> [] \<and> hd (agrupar (digitos_dec (c div 100))) \<noteq> CHR ''-''"
    by (rule hd_agrupar_digitos)
  have "int (100 * (c div 100) + c mod 100) = round (\<bar>x\<bar> * 100)"
    using c by simp
  with f s h show ?thesis
    by (cases "agrupar (digitos_dec (c div 100))")
       (auto simp: formatar_numero_def ler_centavos_def Let_def c_def [symmetric])
qed
end
