(* ===== verification/Kpis.thy ===== *)
theory Kpis
  imports Ledger Format
begin

text \<open>
  The three headline metrics (\<open>src/dash.py\<close>, lines 158--189): total income (sum of
  the credit amounts), total expense (absolute value of the sum of the debit amounts) and
  the balance, each shown with \<open>st.metric\<close> and a delta; the balance's delta colour
  mode depends on its sign.
\<close>

text \<open>Line 161.\<close>

definition total_creditos :: "transacao list \<Rightarrow> money" where
  "total_creditos df = sum_list (map valor (filter (\<lambda>t. tipo t = ''credito'') df))"

text \<open>Line 162.\<close>

definition total_debitos :: "transacao list \<Rightarrow> money" where
  "total_debitos df = \<bar>sum_list (map valor (filter (\<lambda>t. tipo t = ''debito'') df))\<bar>"

text \<open>Line 163.\<close>

definition saldo :: "transacao list \<Rightarrow> money" where
  "saldo df = total_creditos df - total_debitos df"

text \<open>Line 180: the \<open>delta_color\<close> argument of the balance metric.\<close>

datatype modo_delta = Normal | Inverse

definition delta_color :: "money \<Rightarrow> modo_delta" where
  "delta_color s = (if s \<ge> 0 then Inverse else Normal)"

text \<open>
  How \<open>st.metric\<close> colours a delta, by Streamlit's documented contract (a library, not
  code of this repository): a delta string that starts with a minus sign is a decrease,
  anything else an increase; \<open>normal\<close> shows increases green and decreases red,
  \<open>inverse\<close> the other way round.
\<close>

datatype cor = Verde | Vermelho

definition cor_metric :: "modo_delta \<Rightarrow> bool \<Rightarrow> cor" where
  "cor_metric modo negativo =
     (case modo of Normal \<Rightarrow> if negativo then Vermelho else Verde
      | Inverse \<Rightarrow> if negativo then Verde else Vermelho)"

text \<open>Streamlit's test of a delta string: it is a decrease when it starts with a minus sign.\<close>

definition delta_negativo :: "string \<Rightarrow> bool" where
  "delta_negativo s = (case s of [] \<Rightarrow> False | c # _ \<Rightarrow> c = CHR ''-'')"

text \<open>One \<open>st.metric\<close> card: its value text, its delta text and its \<open>delta_color\<close>.\<close>

record metrica =
  mt_valor :: string
  mt_delta :: string
  mt_modo :: modo_delta

text \<open>Lines 165--185: income, expense and balance cards, in this order.\<close>

definition metricas_kpi :: "transacao list \<Rightarrow> metrica list" where
  "metricas_kpi df =
     [\<lparr>mt_valor = formatar_reais (total_creditos df), mt_delta = ''+'' @ formatar_numero (total_creditos df),
       mt_modo = Normal\<rparr>,
      \<lparr>mt_valor = formatar_reais (total_debitos df), mt_delta = ''-'' @ formatar_numero (total_debitos df),
       mt_modo = Normal\<rparr>,
      \<lparr>mt_valor = formatar_reais (saldo df), mt_delta = formatar_numero (saldo df),
       mt_modo = delta_color (saldo df)\<rparr>]"

definition cor_delta :: "metrica \<Rightarrow> cor" where
  "cor_delta m = cor_metric (mt_modo m) (delta_negativo (mt_delta m))"

text \<open>The colour the balance's delta is drawn in.\<close>

definition cor_saldo :: "transacao list \<Rightarrow> cor" where
  "cor_saldo df = cor_delta (metricas_kpi df ! 2)"

section \<open>Lemmas\<close>

lemma total_debitos_nonneg: "0 \<le> total_debitos df"
  by (simp add: total_debitos_def)

lemma total_creditos_append [ledger_sums]:
  "total_creditos (xs @ ys) = total_creditos xs + total_creditos ys"
  by (simp add: total_creditos_def)

lemma sum_debitos_append [ledger_sums]:
  "sum_list (map valor (filter (\<lambda>t. tipo t = ''debito'') (xs @ ys))) =
     sum_list (map valor (filter (\<lambda>t. tipo t = ''debito'') xs)) +
     sum_list (map valor (filter (\<lambda>t. tipo t = ''debito'') ys))"
  by simp

text \<open>The formatted number starts with a minus sign exactly when it is negative.\<close>

lemma delta_negativo_formatar: "delta_negativo (formatar_numero x) \<longleftrightarrow> x < 0"
  using formatar_numero_sinal [of x] by (cases "formatar_numero x") (simp_all add: delta_negativo_def)

section \<open>Properties\<close>

text \<open>
  C6. The balance's delta is always drawn red: a non-negative balance is shown with the
  \<open>inverse\<close> mode, which draws its (non-negative) delta red, and a negative balance with
  the \<open>normal\<close> mode, which draws its negative delta red too. The sign test of line 180
  never yields green.
\<close>

theorem cor_saldo_sempre_vermelho: "cor_saldo df = Vermelho"
  by (simp add: cor_saldo_def cor_delta_def metricas_kpi_def cor_metric_def delta_color_def
      delta_negativo_formatar)

end
