(* ===== verification/Table.thy ===== *)
theory Table
  imports Ledger Format
begin

text \<open>
  The detailed statement table (\<open>src/dash.py\<close>, lines 422--470). Three more filters
  (type, minimum absolute amount, a case-insensitive search in the description) apply to
  the filtered frame; then the date column is turned into the string \<open>'%d/%m/%Y'\<close> and
  the rows are sorted by that column, descending, "most recent first" as the comment of
  line 463 says. The search pattern is a regular expression in pandas; the model treats it
  as a literal text (a pattern without regex metacharacters), compared after ASCII
  lower-casing.
\<close>

section \<open>Filters of the table\<close>

text \<open>Python's \<open>str.lower()\<close> on ASCII letters.\<close>

definition minuscula :: "char \<Rightarrow> char" where
  "minuscula c = (if CHR ''A'' \<le> c \<and> c \<le> CHR ''Z'' then char_of (of_char c + (32::nat)) else c)"

definition minusculas :: "string \<Rightarrow> string" where
  "minusculas s = map minuscula s"

text \<open>Whether \<open>pat\<close> occurs in \<open>s\<close>, scanning the start positions left to right.\<close>

fun contem :: "string \<Rightarrow> string \<Rightarrow> bool" where
  "contem pat [] \<longleftrightarrow> pat = []"
| "contem pat (c # cs) \<longleftrightarrow> take (length pat) (c # cs) = pat \<or> contem pat cs"

text \<open>Line 456: \<open>str.contains(busca, case=False, na=False)\<close>.\<close>

definition contem_ci :: "string \<Rightarrow> string \<Rightarrow> bool" where
  "contem_ci busca s = contem (minusculas busca) (minusculas s)"

text \<open>Line 431: the choices of the type select box.\<close>

definition opcoes_tipo :: "transacao list \<Rightarrow> string list" where
  "opcoes_tipo df = ''Todos'' # unique (map tipo df)"

text \<open>Lines 448--456.\<close>

definition filtrar_tabela :: "string \<Rightarrow> money \<Rightarrow> string \<Rightarrow> transacao list \<Rightarrow> transacao list" where
  "filtrar_tabela tipo_filtro valor_min busca df =
     (let df1 = (if tipo_filtro \<noteq> ''Todos'' then filter (\<lambda>t. tipo t = tipo_filtro) df else df);
          df2 = filter (\<lambda>t. valor_min \<le> \<bar>valor t\<bar>) df1
      in if busca \<noteq> [] then filter (\<lambda>t. contem_ci busca (descricao t)) df2 else df2)"

section \<open>Display and order\<close>

text \<open>Line 461: \<open>dt.strftime('%d/%m/%Y')\<close>.\<close>

definition formatar_data :: "date \<Rightarrow> string" where
  "formatar_data d =
     (case d of (y, m, dd) \<Rightarrow> dois_digitos dd @ ''/'' @ dois_digitos m @ ''/'' @ quatro_digitos (nat y))"

text \<open>A row of \<open>df_display\<close> (line 467): the date and the amount as text
  (\<open>f"R$ {x:,.2f}"\<close>, line 460), the other columns as they are.\<close>

record linha_tabela =
  lt_data :: string
  lt_descricao :: string
  lt_categoria :: string
  lt_valor :: string
  lt_tipo :: string
  lt_tags :: string

text \<open>Lines 459--461.\<close>

definition exibir_linha :: "transacao \<Rightarrow> linha_tabela" where
  "exibir_linha t =
     \<lparr>lt_data = formatar_data (data t), lt_descricao = descricao t, lt_categoria = categoria t,
      lt_valor = formatar_reais (valor t), lt_tipo = tipo t, lt_tags = tags t\<rparr>"

text \<open>
  Line 464: \<open>sort_values('data', ascending=False)\<close> on the text column. pandas' default
  sort is not stable, so the order of rows with equal text is unspecified; the model
  takes the reverse of a stable ascending sort, and no property below depends on the order
  of such rows.
\<close>

definition ordenar_desc :: "linha_tabela list \<Rightarrow> linha_tabela list" where
  "ordenar_desc rows = rev (sort_key lt_data rows)"

text \<open>Lines 447--470: the rows the table shows, in order.\<close>

definition tabela :: "string \<Rightarrow> money \<Rightarrow> string \<Rightarrow> transacao list \<Rightarrow> linha_tabela list" where
  "tabela tipo_filtro valor_min busca df =
     ordenar_desc (map exibir_linha (filtrar_tabela tipo_filtro valor_min busca df))"

section \<open>Lemmas\<close>

lemma digito_less_iff: "n < 10 \<Longrightarrow> k < 10 \<Longrightarrow> digito n < digito k \<longleftrightarrow> n < k"
  by (simp add: less_char_def of_char_digito)

lemma digito_eq_iff: "n < 10 \<Longrightarrow> k < 10 \<Longrightarrow> digito n = digito k \<longleftrightarrow> n = k"
  by (metis of_char_digito add_left_cancel)

text \<open>Two-digit fields compare as their numbers, whatever follows them.\<close>

lemma dois_digitos_less:
  assumes "a < b" and "b < 100"
  shows "dois_digitos a @ r1 < dois_digitos b @ r2"
proof (cases "a div 10 = b div 10")
  case True
  with assms have "a mod 10 < b mod 10"
    by (metis div_mult_mod_eq add_less_cancel_left)
  with True show ?thesis
    by (simp add: dois_digitos_def digito_less_iff digito_eq_iff)
next
  case False
  with assms have "a div 10 < b div 10"
    by (meson div_le_mono le_neq_implies_less less_imp_le_nat)
  moreover have "b div 10 < 10" using assms(2) by simp
  ultimately show ?thesis
    by (simp add: dois_digitos_def digito_less_iff digito_eq_iff)
qed

text \<open>The ten digits, for evaluating formatted dates.\<close>

lemma digito_simps:
  "digito 0 = CHR ''0''" "digito (Suc 0) = CHR ''1''" "digito 2 = CHR ''2''" "digito 3 = CHR ''3''"
  "digito 4 = CHR ''4''" "digito 5 = CHR ''5''" "digito 6 = CHR ''6''" "digito 7 = CHR ''7''"
  "digito 8 = CHR ''8''" "digito 9 = CHR ''9''"
  by (simp_all add: digito_def) code_simp+

lemma sorted_ordenar_desc: "sorted_wrt (\<lambda>a b. lt_data b \<le> lt_data a) (ordenar_desc rows)"
proof -
  have "sorted (map lt_data (sort_key lt_data rows))" by (rule sorted_sort_key)
  then show ?thesis
    by (simp add: ordenar_desc_def sorted_wrt_rev sorted_wrt_map)
qed

lemma mset_ordenar_desc: "mset (ordenar_desc rows) = mset rows"
  by (simp add: ordenar_desc_def)

section \<open>Properties\<close>

text \<open>
  C13. The order the table is sorted by compares the day of the month first: a date with
  a smaller day sorts below a date with a larger day, whatever their months and years. So
  "most recent first" holds only among the dates of one month; 1 February 2024 is shown
  below 31 January 2024.
\<close>

theorem formatar_data_dia_primeiro:
  assumes "dd1 < dd2" and "dd2 < 100"
  shows "formatar_data (y1, m1, dd1) < formatar_data (y2, m2, dd2)"
  using dois_digitos_less [OF assms] by (simp add: formatar_data_def)

theorem formatar_data_dia_primeiro_witness:
  "(1::nat) < 31 \<and> (31::nat) < 100 \<and> ((2024::int), (1::nat), (31::nat)) < (2024, 2, 1) \<and>
   formatar_data (2024, 2, 1) < formatar_data (2024, 1, 31)"
  using formatar_data_dia_primeiro [of 1 31 2024 2 2024 1] by simp

text \<open>
  The description search of the table is substring search: the scan \<open>contem\<close>
  holds exactly when the pattern is a contiguous sublist of the text.
\<close>

lemma contem_sublist: "contem pat s \<longleftrightarrow> sublist pat s"
proof (induction pat s rule: contem.induct)
  case (1 pat)
  then show ?case by simp
next
  case (2 pat c cs)
  have "take (length pat) (c # cs) = pat \<longleftrightarrow> prefix pat (c # cs)"
    by (metis append_take_drop_id prefix_def prefixE take_all_iff prefix_length_le take_append
        cancel_comm_monoid_add_class.diff_cancel take0 append_Nil2)
  with "2.IH" show ?case by (auto simp: sublist_Cons_right)
qed

text \<open>
  C15. With the table's default filters (type 'Todos', minimum 0, empty search) the table
  shows every row of the filtered frame, each once, sorted by the text of its date,
  descending.
\<close>

theorem tabela_padrao:
  "mset (tabela ''Todos'' 0 [] df) = mset (map exibir_linha df) \<and>
   sorted_wrt (\<lambda>a b. lt_data b \<le> lt_data a) (tabela ''Todos'' 0 [] df)"
proof -
  have "filtrar_tabela ''Todos'' 0 [] df = df"
    by (simp add: filtrar_tabela_def)
  then show ?thesis
    by (simp add: tabela_def mset_ordenar_desc sorted_ordenar_desc)
qed

end
