(* ===== verification/Charts.thy ===== *)
theory Charts
  imports Kpis Badges
begin

text \<open>
  The aggregates behind the charts (\<open>src/dash.py\<close>, lines 319--420); the drawing
  itself (plotly) is a library and not modelled. The pie and the bar chart show the debit
  amounts summed per category (pandas' \<open>groupby\<close> sorts the keys) and made absolute;
  the timeline shows the running sum of all amounts in date order; the monthly chart
  shows, per month, the credit sum and the absolute debit sum, each column present only
  when some row has that type.
\<close>

section \<open>Expenses by category\<close>

text \<open>Line 326: \<open>groupby('categoria')['valor'].sum().abs()\<close> over the debit rows, as
  the list of (category, value) pairs in key order.\<close>

definition despesas_por_categoria :: "transacao list \<Rightarrow> (string \<times> money) list" where
  "despesas_por_categoria df =
     (let deb = filter (\<lambda>t. tipo t = ''debito'') df in
      map (\<lambda>c. (c, \<bar>sum_list (map valor (filter (\<lambda>t. categoria t = c) deb))\<bar>))
        (sort (unique (map categoria deb))))"

text \<open>Lines 328 and 340: both charts are drawn only for a non-empty series.\<close>

definition mostra_graficos_categoria :: "transacao list \<Rightarrow> bool" where
  "mostra_graficos_categoria df \<longleftrightarrow> despesas_por_categoria df \<noteq> []"

section \<open>Balance timeline\<close>

text \<open>\<open>Series.cumsum()\<close>: the running sums, starting from \<open>acc\<close>.\<close>

fun cumsum :: "money \<Rightarrow> money list \<Rightarrow> money list" where
  "cumsum acc [] = []"
| "cumsum acc (x # xs) = (acc + x) # cumsum (acc + x) xs"

text \<open>
  Lines 356--357: rows sorted by date, then the running sum of the amounts. pandas' default
  sort is not stable, so the order of rows of one date (and the intermediate sums among
  them) is unspecified; the model uses a stable sort.
\<close>

definition linha_do_tempo :: "transacao list \<Rightarrow> (date \<times> money) list" where
  "linha_do_tempo df =
     (let ord = sort_key data df in zip (map data ord) (cumsum 0 (map valor ord)))"

section \<open>Monthly analysis\<close>

record analise =
  an_meses :: "month_period list"
  an_receitas :: "money list option"
  an_despesas :: "money list option"

text \<open>The sum of a type's amounts in a month (a missing cell of \<open>unstack\<close> is 0).\<close>

definition soma_mes_tipo :: "transacao list \<Rightarrow> string \<Rightarrow> month_period \<Rightarrow> money" where
  "soma_mes_tipo df k m = sum_list (map valor (filter (\<lambda>t. mes t = m \<and> tipo t = k) df))"

text \<open>Lines 388--410: \<open>groupby(['mes', 'tipo'])['valor'].sum().unstack(fill_value=0)\<close>,
  the debit column made absolute; a column exists when some row has its type.\<close>

definition analise_mensal :: "transacao list \<Rightarrow> analise" where
  "analise_mensal df =
     (let meses = sort (unique (map mes df)) in
      \<lparr>an_meses = meses,
       an_receitas = (if ''credito'' \<in> set (map tipo df)
                      then Some (map (soma_mes_tipo df ''credito'') meses) else None),
       an_despesas = (if ''debito'' \<in> set (map tipo df)
                      then Some (map (\<lambda>m. \<bar>soma_mes_tipo df ''debito'' m\<bar>) meses) else None)\<rparr>)"

section \<open>Lemmas\<close>

lemma length_cumsum [simp]: "length (cumsum a xs) = length xs"
  by (induction xs arbitrary: a) auto

lemma last_cumsum: "xs \<noteq> [] \<Longrightarrow> last (cumsum acc xs) = acc + sum_list xs"
proof (induction xs arbitrary: acc)
  case Nil
  then show ?case by simp
next
  case (Cons x xs)
  show ?case
  proof (cases "xs = []")
    case True
    then show ?thesis by simp
  next
    case False
    then have "cumsum (acc + x) xs \<noteq> []" by (cases xs) simp_all
    with False Cons.IH [of "acc + x"] show ?thesis by (simp add: add.assoc)
  qed
qed

lemma sum_valor_sort_key: "sum_list (map valor (sort_key data df)) = sum_list (map valor df)"
  by (metis mset_map mset_sort sum_mset_sum_list)

lemma despesas_por_categoria_map:
  "map snd (despesas_por_categoria df) =
     map (\<lambda>c. \<bar>sum_list (map valor (filter (\<lambda>t. categoria t = c) (filter (\<lambda>t. tipo t = ''debito'') df)))\<bar>)
       (sort (unique (map categoria (filter (\<lambda>t. tipo t = ''debito'') df))))"
  by (simp add: despesas_por_categoria_def Let_def comp_def)

text \<open>The per-category debit sums add up to the total debit sum.\<close>

lemma soma_categorias_debitos:
  "sum_list (map (\<lambda>c. sum_list (map valor (filter (\<lambda>t. categoria t = c) (filter (\<lambda>t. tipo t = ''debito'') df))))
     (sort (unique (map categoria (filter (\<lambda>t. tipo t = ''debito'') df))))) =
   sum_list (map valor (filter (\<lambda>t. tipo t = ''debito'') df))"
  by (rule sum_list_partition) simp_all

lemma soma_categorias_abs:
  "sum_list (map (\<lambda>c. sum_list (map (\<lambda>t. \<bar>valor t\<bar>) (filter (\<lambda>t. categoria t = c) (filter (\<lambda>t. tipo t = ''debito'') df))))
     (sort (unique (map categoria (filter (\<lambda>t. tipo t = ''debito'') df))))) =
   sum_list (map (\<lambda>t. \<bar>valor t\<bar>) (filter (\<lambda>t. tipo t = ''debito'') df))"
  by (rule sum_list_partition) simp_all

lemma filter_categoria_debito:
  "filter (\<lambda>t. categoria t = c) (filter (\<lambda>t. tipo t = ''debito'') df) =
   filter (\<lambda>t. categoria t = c \<and> tipo t = ''debito'') df"
  by (simp add: filter_filter conj_commute)

lemma soma_mes_tipo_filter:
  "soma_mes_tipo df k m = sum_list (map valor (filter (\<lambda>t. mes t = m) (filter (\<lambda>t. tipo t = k) df)))"
  by (simp add: soma_mes_tipo_def filter_filter conj_commute)

lemma soma_meses_tipo:
  "sum_list (map (soma_mes_tipo df k) (sort (unique (map mes df)))) =
   sum_list (map valor (filter (\<lambda>t. tipo t = k) df))"
  unfolding soma_mes_tipo_filter by (rule sum_list_partition) auto

lemma soma_meses_tipo_abs:
  "sum_list (map (\<lambda>m. \<bar>soma_mes_tipo df k m\<bar>) (sort (unique (map mes df)))) \<le>
   sum_list (map (\<lambda>t. \<bar>valor t\<bar>) (filter (\<lambda>t. tipo t = k) df))"
proof -
  have "sum_list (map (\<lambda>m. \<bar>soma_mes_tipo df k m\<bar>) (sort (unique (map mes df)))) \<le>
        sum_list (map (\<lambda>m. sum_list (map (\<lambda>t. \<bar>valor t\<bar>) (filter (\<lambda>t. mes t = m) (filter (\<lambda>t. tipo t = k) df))))
          (sort (unique (map mes df))))"
    unfolding soma_mes_tipo_filter by (intro sum_list_mono abs_sum_list_le)
  also have "\<dots> = sum_list (map (\<lambda>t. \<bar>valor t\<bar>) (filter (\<lambda>t. tipo t = k) df))"
    by (rule sum_list_partition) auto
  finally show ?thesis .
qed

lemma abs_soma_meses_ge:
  "\<bar>sum_list (map valor (filter (\<lambda>t. tipo t = k) df))\<bar> \<le>
   sum_list (map (\<lambda>m. \<bar>soma_mes_tipo df k m\<bar>) (sort (unique (map mes df))))"
  using abs_sum_list_le [of "soma_mes_tipo df k" "sort (unique (map mes df))"]
  by (simp add: soma_meses_tipo)

section \<open>Properties\<close>

text \<open>
  C16. The category charts agree with the goals section: their categories are sorted and
  distinct, and every expense category of the goals section appears with exactly the spend
  its badge and progress bar are computed from.
\<close>

theorem despesas_por_categoria_badges:
  "sorted (map fst (despesas_por_categoria df)) \<and> distinct (map fst (despesas_por_categoria df)) \<and>
   list_all (\<lambda>c. map_of (despesas_por_categoria df) c = Some (gasto_categoria df c)) (categorias_despesas df)"
proof -
  have keys: "map fst (despesas_por_categoria df) = sort (unique (map categoria (filter (\<lambda>t. tipo t = ''debito'') df)))"
    by (simp add: despesas_por_categoria_def Let_def comp_def)
  have "map_of (despesas_por_categoria df) c = Some (gasto_categoria df c)"
    if "c \<in> set (categorias_despesas df)" for c
  proof -
    from that have "c \<in> set (sort (unique (map categoria (filter (\<lambda>t. tipo t = ''debito'') df))))"
      by (auto simp: categorias_despesas_def)
    then show ?thesis
      by (simp add: despesas_por_categoria_def Let_def map_of_map_restrict gasto_categoria_def
          conj_commute)
  qed
  with keys show ?thesis by (simp add: list_all_iff)
qed

text \<open>
  C18. The balance timeline has one point per row, in date order, and ends at the sum of
  all amounts of the filtered frame, credits, debits and rows of any other type alike.
\<close>

theorem linha_do_tempo_final:
  assumes "df \<noteq> []"
  shows "length (linha_do_tempo df) = length df \<and> sorted (map fst (linha_do_tempo df)) \<and>
         snd (last (linha_do_tempo df)) = sum_list (map valor df)"
proof -
  let ?ord = "sort_key data df"
  have len: "length ?ord = length df" by simp
  have "?ord \<noteq> []" using assms by (metis length_0_conv length_sort)
  then have ne: "map valor ?ord \<noteq> []" by simp
  have "snd (last (zip (map data ?ord) (cumsum 0 (map valor ?ord)))) = last (cumsum 0 (map valor ?ord))"
  proof -
    have "cumsum 0 (map valor ?ord) \<noteq> []" using ne by (metis length_0_conv length_cumsum)
    moreover have "map data ?ord \<noteq> []" using ne by simp
    ultimately show ?thesis by (simp add: last_zip)
  qed
  also have "\<dots> = sum_list (map valor df)"
    using ne by (simp add: last_cumsum sum_valor_sort_key)
  finally show ?thesis
    by (simp add: linha_do_tempo_def Let_def sorted_sort_key)
qed

text \<open>
  C19. The timeline's final balance is the balance KPI exactly under the CSV's conventions:
  every row is a credit or a debit and no debit amount is positive.
\<close>

theorem linha_do_tempo_saldo:
  assumes "df \<noteq> []"
    and "list_all (\<lambda>t. tipo t = ''credito'' \<or> tipo t = ''debito'') df"
    and "list_all (\<lambda>t. tipo t = ''debito'' \<longrightarrow> valor t \<le> 0) df"
  shows "snd (last (linha_do_tempo df)) = saldo df"
proof -
  have split: "sum_list (map valor df) =
      sum_list (map valor (filter (\<lambda>t. tipo t = ''credito'') df)) +
      sum_list (map valor (filter (\<lambda>t. tipo t \<noteq> ''credito'') df))"
    using sum_list_filter_split [of valor "\<lambda>_. True" df "\<lambda>t. tipo t = ''credito''"] by simp
  have "filter (\<lambda>t. tipo t \<noteq> ''credito'') df = filter (\<lambda>t. tipo t = ''debito'') df"
    using assms(2) by (intro filter_cong) (auto simp: list_all_iff)
  moreover have "sum_list (map valor (filter (\<lambda>t. tipo t = ''debito'') df)) \<le> 0"
    using assms(3) by (intro sum_list_nonpos) (auto simp: list_all_iff)
  ultimately have "sum_list (map valor df) = saldo df"
    using split by (simp add: saldo_def total_creditos_def total_debitos_def)
  with linha_do_tempo_final [OF assms(1)] show ?thesis by simp
qed

text \<open>
  C20. The monthly chart adds up to the KPIs: the income bars sum to the total income
  (and there is no income column only when the total income is 0), and the expense bars sum
  to at least the expense KPI and at most the sum of the absolute debit amounts.
\<close>

theorem analise_mensal_totais:
  "(case an_receitas (analise_mensal df) of
      None \<Rightarrow> total_creditos df = 0 | Some xs \<Rightarrow> sum_list xs = total_creditos df) \<and>
   (case an_despesas (analise_mensal df) of
      None \<Rightarrow> total_debitos df = 0
    | Some ys \<Rightarrow> total_debitos df \<le> sum_list ys \<and>
                 sum_list ys \<le> sum_list (map (\<lambda>t. \<bar>valor t\<bar>) (filter (\<lambda>t. tipo t = ''debito'') df)))"
proof -
  have nocred: "''credito'' \<notin> set (map tipo df) \<Longrightarrow> filter (\<lambda>t. tipo t = ''credito'') df = []"
    by (induction df) auto
  have nodeb: "''debito'' \<notin> set (map tipo df) \<Longrightarrow> filter (\<lambda>t. tipo t = ''debito'') df = []"
    by (induction df) auto
  show ?thesis
    using nocred nodeb soma_meses_tipo [of df "''credito''"] abs_soma_meses_ge [of "''debito''" df]
      soma_meses_tipo_abs [of df "''debito''"]
    by (simp add: analise_mensal_def Let_def total_creditos_def total_debitos_def comp_def)
qed

end
