(* ===== verification/Sample.thy ===== *)
theory Sample
  imports Table
begin

text \<open>
  The sample ledger of the "Usar Dados de Exemplo" button (\<open>src/dash.py\<close>, lines
  71--103). The generator walks the days of January 2024 (\<open>pd.date_range\<close>, line 74)
  and draws, for each day, one to three transactions: a category, a type (debit with
  probability 0.7) and a uniform amount (20--500 for a debit, 1000--3000 for a credit).
  The model takes the draws as its input, a function from each day to the list of its
  draws (\<open>sorteio\<close>); the random generator itself is a library. Credits are always booked
  under the income category \<open>'Renda'\<close>. The frame is stored in the session with its
  dates as text (\<open>strftime('%Y-%m-%d')\<close>, line 95), which \<open>process_data\<close> parses
  back with \<open>pd.to_datetime\<close>; the row's date cell is that parse. Accented letters of
  the source's literals are transliterated.
\<close>

text \<open>One draw of the inner loop (lines 83--91).\<close>

record sorteio =
  s_categoria :: string
  s_tipo :: string
  s_uniforme :: real

text \<open>Line 74: the days of the sample.\<close>

definition datas_amostra :: "date list" where
  "datas_amostra = date_range (2024, 1, 1) (2024, 1, 31)"

text \<open>Line 78.\<close>

definition categorias_amostra :: "string list" where
  "categorias_amostra = [''Alimentacao'', ''Transporte'', ''Saude'', ''Entretenimento'', ''Educacao'', ''Moradia'']"

text \<open>Line 98: \<open>round(valor, 2)\<close>. HOL's \<open>round\<close> rounds halves up, Python's rounds the
  binary value half to even; they differ only on exact ties.\<close>

definition round2 :: "real \<Rightarrow> real" where
  "round2 x = of_int (round (x * 100)) / 100"

text \<open>Lines 83--101: the row built from one draw on day \<open>d\<close>; its date cell is the text
  of line 95 as \<open>pd.to_datetime\<close> reads it (line 107).\<close>

definition linha_amostra :: "date \<Rightarrow> sorteio \<Rightarrow> linha" where
  "linha_amostra d s =
     (if s_tipo s = ''debito'' then
        \<lparr>l_data = ler_iso (formatar_iso d), l_descricao = ''Gasto em '' @ minusculas (s_categoria s),
         l_categoria = s_categoria s, l_valor = Some (round2 (- s_uniforme s)),
         l_tipo = s_tipo s, l_tags = ''Exemplo''\<rparr>
      else
        \<lparr>l_data = ler_iso (formatar_iso d), l_descricao = (if s_uniforme s > 2000 then ''Salario'' else ''Freelance''),
         l_categoria = ''Renda'', l_valor = Some (round2 (s_uniforme s)),
         l_tipo = s_tipo s, l_tags = ''Exemplo''\<rparr>)"

text \<open>Lines 72--103: the rows of every day, in order; \<open>sorteios d\<close> are the draws made
  for day \<open>d\<close>.\<close>

definition gerar_amostra :: "(date \<Rightarrow> sorteio list) \<Rightarrow> linha list" where
  "gerar_amostra sorteios = concat (map (\<lambda>d. map (linha_amostra d) (sorteios d)) datas_amostra)"

text \<open>What \<open>np.random\<close> can draw (lines 82--90): a category of the list, one of the two
  types, and an amount in the interval of that type; and, per day, one to three draws
  (\<open>np.random.randint(1, 4)\<close>, line 81).\<close>

definition sorteio_valido :: "sorteio \<Rightarrow> bool" where
  "sorteio_valido s \<longleftrightarrow>
     s_categoria s \<in> set categorias_amostra \<and>
     (if s_tipo s = ''debito'' then 20 \<le> s_uniforme s \<and> s_uniforme s \<le> 500
      else s_tipo s = ''credito'' \<and> 1000 \<le> s_uniforme s \<and> s_uniforme s \<le> 3000)"

definition sorteios_validos :: "(date \<Rightarrow> sorteio list) \<Rightarrow> bool" where
  "sorteios_validos sorteios \<longleftrightarrow>
     list_all (\<lambda>d. 1 \<le> length (sorteios d) \<and> length (sorteios d) \<le> 3 \<and> list_all sorteio_valido (sorteios d))
       datas_amostra"

section \<open>Lemmas\<close>

lemma round2_le: "x \<le> of_int k \<Longrightarrow> round2 x \<le> of_int k"
proof -
  assume x: "x \<le> of_int k"
  have r: "round (of_int (k * 100) :: real) = k * 100" by (rule round_of_int)
  have "round (x * 100) \<le> round (of_int (k * 100) :: real)" using x by (intro round_mono) simp
  then have "round (x * 100) \<le> k * 100" by (simp only: r)
  then have "(of_int (round (x * 100)) :: real) \<le> of_int k * 100" by (simp flip: of_int_mult)
  then show ?thesis by (simp add: round2_def pos_divide_le_eq)
qed

lemma round2_ge: "of_int k \<le> x \<Longrightarrow> of_int k \<le> round2 x"
proof -
  assume x: "of_int k \<le> x"
  have r: "round (of_int (k * 100) :: real) = k * 100" by (rule round_of_int)
  have "round (of_int (k * 100) :: real) \<le> round (x * 100)" using x by (intro round_mono) simp
  then have "k * 100 \<le> round (x * 100)" by (simp only: r)
  then have "of_int k * 100 \<le> (of_int (round (x * 100)) :: real)" by (simp flip: of_int_mult)
  then show ?thesis by (simp add: round2_def pos_le_divide_eq)
qed

lemma datas_amostra_eq: "datas_amostra = map (\<lambda>k. (2024, 1, k)) [1..<32]"
  using date_range_mes [of 2024 1] by (simp add: datas_amostra_def dias_no_mes_def)

text \<open>Every sample day is written and read back as itself.\<close>

lemma ler_iso_amostra: "d \<in> set datas_amostra \<Longrightarrow> ler_iso (formatar_iso d) = Some d"
proof -
  assume "d \<in> set datas_amostra"
  then obtain k where d: "d = (2024, 1, k)" "1 \<le> k" "k < 32"
    by (auto simp: datas_amostra_eq)
  then have "data_valida d"
    by (simp add: data_valida_def dias_no_mes_def)
  with d show ?thesis
    using ler_iso_formatar [of 2024 1 k] by simp
qed

lemma converter_linha_amostra:
  "d \<in> set datas_amostra \<Longrightarrow> \<exists>t. converter_linha (linha_amostra d s) = Some t \<and> data t = d"
  by (simp add: converter_linha_def linha_amostra_def ler_iso_amostra)

lemma list_all_gerar_amostra:
  "list_all P (gerar_amostra ss) \<longleftrightarrow> (\<forall>d\<in>set datas_amostra. \<forall>s\<in>set (ss d). P (linha_amostra d s))"
  by (auto simp: gerar_amostra_def list_all_iff)

lemma in_gerar_amostra:
  "d \<in> set datas_amostra \<Longrightarrow> s \<in> set (ss d) \<Longrightarrow> linha_amostra d s \<in> set (gerar_amostra ss)"
  by (auto simp: gerar_amostra_def)

lemma length_gerar_amostra: "length (gerar_amostra ss) = sum_list (map (\<lambda>d. length (ss d)) datas_amostra)"
  by (simp add: gerar_amostra_def length_concat comp_def)

text \<open>The dates of the loaded sample frame are the days that have a draw.\<close>

lemma datas_map_filter_amostra:
  "data ` set (List.map_filter converter_linha (gerar_amostra ss)) = {d \<in> set datas_amostra. ss d \<noteq> []}"
proof
  show "data ` set (List.map_filter converter_linha (gerar_amostra ss)) \<subseteq> {d \<in> set datas_amostra. ss d \<noteq> []}"
  proof
    fix x assume "x \<in> data ` set (List.map_filter converter_linha (gerar_amostra ss))"
    then obtain t r where t: "x = data t" "r \<in> set (gerar_amostra ss)" "converter_linha r = Some t"
      by (auto simp: in_set_map_filter)
    then obtain d s where d: "d \<in> set datas_amostra" "s \<in> set (ss d)" "r = linha_amostra d s"
      by (auto simp: gerar_amostra_def)
    then have "data t = d"
      using converter_linha_amostra [OF d(1), of s] t(3) by auto
    with t d show "x \<in> {d \<in> set datas_amostra. ss d \<noteq> []}"
      by auto
  qed
next
  show "{d \<in> set datas_amostra. ss d \<noteq> []} \<subseteq> data ` set (List.map_filter converter_linha (gerar_amostra ss))"
  proof
    fix d assume d: "d \<in> {d \<in> set datas_amostra. ss d \<noteq> []}"
    then obtain s where s: "s \<in> set (ss d)" by (metis (mono_tags) list.set_intros(1) mem_Collect_eq neq_Nil_conv)
    obtain t where "converter_linha (linha_amostra d s) = Some t" "data t = d"
      using converter_linha_amostra d by blast
    with d s show "d \<in> data ` set (List.map_filter converter_linha (gerar_amostra ss))"
      by (force simp: in_set_map_filter gerar_amostra_def)
  qed
qed

lemma amostra_linha_convencao:
  assumes "sorteio_valido s" and "converter_linha (linha_amostra d s) = Some t"
  shows "(tipo t = ''debito'' \<longrightarrow> valor t \<le> -20) \<and>
         (tipo t = ''credito'' \<longrightarrow> categoria t = ''Renda'' \<and> 1000 \<le> valor t) \<and>
         (tipo t = ''debito'' \<or> tipo t = ''credito'')"
proof (cases "s_tipo s = ''debito''")
  case True
  with assms(1) have "- s_uniforme s \<le> of_int (-20)" by (simp add: sorteio_valido_def)
  then have "round2 (- s_uniforme s) \<le> -20" using round2_le by fastforce
  with True assms(2) show ?thesis
    by (auto simp: converter_linha_Some_iff linha_amostra_def)
next
  case False
  with assms(1) have c: "s_tipo s = ''credito''" and "of_int 1000 \<le> s_uniforme s"
    by (simp_all add: sorteio_valido_def)
  then have "1000 \<le> round2 (s_uniforme s)" using round2_ge by fastforce
  with False c assms(2) show ?thesis
    by (auto simp: converter_linha_Some_iff linha_amostra_def)
qed

text \<open>Loading a sample frame parses every date and every amount.\<close>

lemma carregar_amostra:
  "carregar None (Some (gerar_amostra ss)) = Carregado (List.map_filter converter_linha (gerar_amostra ss))"
proof -
  have "list_all (\<lambda>r. converter_linha r \<noteq> None) (gerar_amostra ss)"
    unfolding list_all_gerar_amostra using converter_linha_amostra by fastforce
  then have "list_all (\<lambda>r. l_data r \<noteq> None) (gerar_amostra ss)"
    by (simp add: list_all_iff converter_linha_None_iff del: not_None_eq)
  then show ?thesis by (simp add: carregar_def process_data_def)
qed

lemma length_amostra_carregada:
  "length (List.map_filter converter_linha (gerar_amostra ss)) = length (gerar_amostra ss)"
proof -
  have "list_all (\<lambda>r. converter_linha r \<noteq> None) (gerar_amostra ss)"
    unfolding list_all_gerar_amostra using converter_linha_amostra by fastforce
  then have "filter (\<lambda>r. converter_linha r \<noteq> None) (gerar_amostra ss) = gerar_amostra ss"
    by (simp add: filter_id_conv list_all_iff del: not_None_eq)
  then show ?thesis
    by (simp add: length_map_filter_converter)
qed

text \<open>A sample frame from possible draws is not empty: every day has a row.\<close>

lemma amostra_nao_vazia:
  assumes "sorteios_validos ss"
  shows "List.map_filter converter_linha (gerar_amostra ss) \<noteq> []"
proof
  assume "List.map_filter converter_linha (gerar_amostra ss) = []"
  then have "{d \<in> set datas_amostra. ss d \<noteq> []} = {}"
    using datas_map_filter_amostra [of ss] by simp
  moreover have d1: "(2024, 1, 1) \<in> set datas_amostra"
    by (simp add: datas_amostra_eq)
  moreover have "1 \<le> length (ss (2024, 1, 1))"
    using assms d1 unfolding sorteios_validos_def list_all_iff by blast
  then have "ss (2024, 1, 1) \<noteq> []" by auto
  ultimately show False by blast
qed

section \<open>Properties\<close>

text \<open>
  The sample path of the loader never raises (it runs outside any \<open>try\<close>): for any
  draws, the sample frame is loaded with every generated row, none dropped by
  \<open>dropna\<close>.
\<close>

lemma amostra_carrega:
  "\<exists>df. carregar None (Some (gerar_amostra ss)) = Carregado df \<and> length df = length (gerar_amostra ss)"
  by (simp add: carregar_amostra length_amostra_carregada)

text \<open>
  C21. Every row of a sample frame built from possible draws follows the CSV's sign
  convention: it is a debit of at most -20 or a credit of at least 1000 booked under
  \<open>'Renda'\<close>.
\<close>

theorem amostra_convencao:
  assumes "list_all (\<lambda>d. list_all sorteio_valido (ss d)) datas_amostra"
  shows "list_all (\<lambda>t. (tipo t = ''debito'' \<longrightarrow> valor t \<le> -20) \<and>
                        (tipo t = ''credito'' \<longrightarrow> categoria t = ''Renda'' \<and> 1000 \<le> valor t) \<and>
                        (tipo t = ''debito'' \<or> tipo t = ''credito''))
           (List.map_filter converter_linha (gerar_amostra ss))"
proof (rule list_all_map_filter_converter)
  show "list_all (\<lambda>r. case converter_linha r of None \<Rightarrow> True
          | Some t \<Rightarrow> (tipo t = ''debito'' \<longrightarrow> valor t \<le> -20) \<and>
                      (tipo t = ''credito'' \<longrightarrow> categoria t = ''Renda'' \<and> 1000 \<le> valor t) \<and>
                      (tipo t = ''debito'' \<or> tipo t = ''credito'')) (gerar_amostra ss)"
    unfolding list_all_gerar_amostra using assms
    by (fastforce simp: list_all_iff split: option.splits dest: amostra_linha_convencao)
qed

end
