(* ===== verification/Stats.thy ===== *)
theory Stats
  imports Filters Kpis Calendar
begin

text \<open>
  The summary statistics (\<open>src/dash.py\<close>, lines 472--491): the number of transactions,
  the mean and the minimum of the debit amounts (shown as absolute values) and the number
  of days between the first and last date, inclusive. pandas gives NaN for the mean or
  minimum of an empty series and NaT for the dates of an empty frame; these are
  \<open>None\<close> here (no number).
\<close>

text \<open>Line 478.\<close>

definition total_transacoes :: "transacao list \<Rightarrow> nat" where
  "total_transacoes df = length df"

text \<open>Lines 482--483: \<open>abs(mean)\<close> of the debit amounts.\<close>

definition ticket_medio :: "transacao list \<Rightarrow> money option" where
  "ticket_medio df =
     (let vs = map valor (filter (\<lambda>t. tipo t = ''debito'') df) in
      if vs = [] then None else Some \<bar>sum_list vs / of_nat (length vs)\<bar>)"

text \<open>Lines 486--487: \<open>abs(min)\<close> of the debit amounts.\<close>

definition maior_despesa :: "transacao list \<Rightarrow> money option" where
  "maior_despesa df =
     (case map valor (filter (\<lambda>t. tipo t = ''debito'') df) of
        [] \<Rightarrow> None
      | v # vs \<Rightarrow> Some \<bar>fold min vs v\<bar>)"

text \<open>Lines 490--491: \<open>(max - min).days + 1\<close> over the dates of the frame.\<close>

definition dias_analisados :: "transacao list \<Rightarrow> int option" where
  "dias_analisados df =
     (case limites_datas df of
        Inl _ \<Rightarrow> None
      | Inr (lo, hi) \<Rightarrow> Some (dias_civis hi - dias_civis lo + 1))"

section \<open>Lemmas\<close>

text \<open>The day of the month of a row.\<close>

lemma data_mes:
  "fst (data t) = y \<and> fst (snd (data t)) = m \<Longrightarrow> data t = (y, m, snd (snd (data t)))"
  by (cases "data t") auto

text \<open>Within one month, the first and last dates of a frame are those of its first and last
  days.\<close>

lemma limites_datas_mes:
  assumes lim: "limites_datas df = Inr (lo, hi)"
    and mes: "\<forall>t\<in>set df. fst (data t) = y \<and> fst (snd (data t)) = m"
  shows "lo = (y, m, Min ((\<lambda>t. snd (snd (data t))) ` set df)) \<and>
         hi = (y, m, Max ((\<lambda>t. snd (snd (data t))) ` set df))"
proof -
  let ?dia = "\<lambda>t. snd (snd (data t))"
  have dt: "\<And>t. t \<in> set df \<Longrightarrow> data t = (y, m, ?dia t)"
    using mes data_mes by blast
  obtain a where a: "a \<in> set df" "lo = data a"
    using limites_datas_Inr(2) [OF lim] by blast
  obtain b where b: "b \<in> set df" "hi = data b"
    using limites_datas_Inr(3) [OF lim] by blast
  have "?dia a \<le> ?dia t \<and> ?dia t \<le> ?dia b" if "t \<in> set df" for t
  proof -
    have "data a \<le> data t \<and> data t \<le> data b"
      using limites_datas_Inr(1) [OF lim] that a b by blast
    then have "(y, m, ?dia a) \<le> (y, m, ?dia t) \<and> (y, m, ?dia t) \<le> (y, m, ?dia b)"
      using dt [OF that] dt [OF a(1)] dt [OF b(1)] by metis
    then show ?thesis by (simp add: less_eq_prod_def)
  qed
  then have "Min (?dia ` set df) = ?dia a" "Max (?dia ` set df) = ?dia b"
    using a(1) b(1) by (auto intro!: Min_eqI Max_eqI)
  then show ?thesis
    using a b dt by simp
qed

lemma fold_min_nonpos_abs:
  "list_all (\<lambda>x. x \<le> 0) (v # vs) \<Longrightarrow> list_all (\<lambda>x. \<bar>x\<bar> \<le> \<bar>fold min vs v\<bar>) (v # vs)"
  for v :: real
proof -
  assume np: "list_all (\<lambda>x. x \<le> 0) (v # vs)"
  have "fold min vs v \<le> x" if "x \<in> set (v # vs)" for x
    using that by (simp add: fold_min_Min)
  moreover have "fold min vs v \<le> 0"
    using np by (metis fold_min_Min List.finite_set Min_in insert_not_empty list.set(2) list_all_iff)
  ultimately show ?thesis
    using np by (auto simp: list_all_iff)
qed

text \<open>The minimum of a list is one of its elements.\<close>

lemma fold_min_in: "fold min vs v \<in> set (v # vs)"
  for v :: "'a::linorder"
  by (simp only: fold_min_Min) (rule Min_in; simp)

section \<open>Properties\<close>

text \<open>
  C22. On a frame that follows the CSV's sign convention (debits are non-positive) and has
  at least one debit, the "Ticket Medio" metric is the total of the debits KPI divided by
  the number of debits, and the "Maior Despesa" metric is the largest absolute debit: no
  debit exceeds it and some debit attains it.
\<close>

theorem estatisticas_despesas:
  assumes conv: "list_all (\<lambda>t. tipo t = ''debito'' \<longrightarrow> valor t \<le> 0) df"
    and deb: "filter (\<lambda>t. tipo t = ''debito'') df \<noteq> []"
  shows "ticket_medio df = Some (total_debitos df / of_nat (length (filter (\<lambda>t. tipo t = ''debito'') df))) \<and>
         (\<exists>x. maior_despesa df = Some x \<and>
              list_all (\<lambda>t. tipo t = ''debito'' \<longrightarrow> \<bar>valor t\<bar> \<le> x) df \<and>
              (\<exists>t\<in>set df. tipo t = ''debito'' \<and> \<bar>valor t\<bar> = x))"
proof -
  let ?vs = "map valor (filter (\<lambda>t. tipo t = ''debito'') df)"
  have "ticket_medio df = Some (total_debitos df / of_nat (length (filter (\<lambda>t. tipo t = ''debito'') df)))"
    using deb by (simp add: ticket_medio_def total_debitos_def Let_def abs_divide)
  moreover obtain v vs where vs: "?vs = v # vs"
    using deb by (cases ?vs) auto
  moreover have "list_all (\<lambda>x. x \<le> 0) (v # vs)"
    using conv by (simp flip: vs add: list_all_iff)
  then have "list_all (\<lambda>x. \<bar>x\<bar> \<le> \<bar>fold min vs v\<bar>) ?vs"
    using vs fold_min_nonpos_abs by metis
  then have "list_all (\<lambda>t. tipo t = ''debito'' \<longrightarrow> \<bar>valor t\<bar> \<le> \<bar>fold min vs v\<bar>) df"
    by (simp add: list_all_iff)
  moreover have "fold min vs v \<in> set ?vs"
    using vs fold_min_in by metis
  then have "\<exists>t\<in>set df. tipo t = ''debito'' \<and> \<bar>valor t\<bar> = \<bar>fold min vs v\<bar>"
    by auto
  ultimately show ?thesis
    by (simp add: maior_despesa_def)
qed

text \<open>
  C23. Within one calendar month, the "Periodo Analisado" metric counts the days from the
  first to the last day of the frame, both included.
\<close>

theorem dias_analisados_mes:
  assumes "df \<noteq> []"
    and "list_all (\<lambda>t. fst (data t) = y \<and> fst (snd (data t)) = m) df"
  shows "dias_analisados df =
           Some (int (Max ((\<lambda>t. snd (snd (data t))) ` set df)) -
                 int (Min ((\<lambda>t. snd (snd (data t))) ` set df)) + 1)"
proof -
  obtain lo hi where lim: "limites_datas df = Inr (lo, hi)"
    using assms(1) by (cases df) (auto simp: limites_datas_Cons)
  moreover have "lo = (y, m, Min ((\<lambda>t. snd (snd (data t))) ` set df)) \<and>
                 hi = (y, m, Max ((\<lambda>t. snd (snd (data t))) ` set df))"
    using limites_datas_mes [OF lim] assms(2) by (simp add: list_all_iff)
  ultimately show ?thesis
    by (simp add: dias_analisados_def dias_civis_dia [of y m "Max _"] dias_civis_dia [of y m "Min _"])
qed


end
