(* ===== verification/DateParse.thy ===== *)
theory DateParse
  imports Table
begin

text \<open>
  The date column parse of \<open>process_data\<close> (\<open>src/dash.py\<close>, line 107) at the level of
  the CSV texts. pandas (version 2 and later) infers one format from the first element
  of the column and applies it to every element, raising if one of them does not parse in
  it. The formats are ISO, then \<open>MM/DD/YYYY\<close>, then \<open>DD/MM/YYYY\<close>. \<open>coluna_datas\<close>
  gives the per-cell results that the \<open>linha\<close> rows of \<open>Ledger\<close> carry.
\<close>

text \<open>The three formats the column parse can infer: ISO \<open>YYYY-MM-DD\<close>, and
  \<open>NN/NN/YYYY\<close> read month first or day first.\<close>

datatype formato_data = FormatoISO | FormatoMDY | FormatoDMY

text \<open>One \<open>NN/NN/YYYY\<close> text in the month-first (\<open>dia_primeiro = False\<close>) or
  day-first format: \<open>None\<close> when the text does not have the form or names no date.\<close>

definition ler_barra :: "bool \<Rightarrow> string \<Rightarrow> date option" where
  "ler_barra dia_primeiro s =
     (case s of
        [a, b, h1, c, d, h2, y1, y2, y3, y4] \<Rightarrow>
          if h1 = CHR ''/'' \<and> h2 = CHR ''/'' then
            (case (ler_num 0 [a, b], ler_num 0 [c, d], ler_num 0 [y1, y2, y3, y4]) of
               (Some p, Some q, Some y) \<Rightarrow>
                 let dt = (if dia_primeiro then (int y, q, p) else (int y, p, q))
                 in if data_valida dt then Some dt else None
             | _ \<Rightarrow> None)
          else None
      | _ \<Rightarrow> None)"

text \<open>One text in an inferred format.\<close>

definition ler_formato :: "formato_data \<Rightarrow> string \<Rightarrow> date option" where
  "ler_formato f s =
     (case f of FormatoISO \<Rightarrow> ler_iso s | FormatoMDY \<Rightarrow> ler_barra False s | FormatoDMY \<Rightarrow> ler_barra True s)"

text \<open>The format guessed from the first non-null element: ISO first, then month first,
  then day first.\<close>

definition inferir_formato :: "string \<Rightarrow> formato_data option" where
  "inferir_formato s =
     (if ler_iso s \<noteq> None then Some FormatoISO
      else if ler_barra False s \<noteq> None then Some FormatoMDY
      else if ler_barra True s \<noteq> None then Some FormatoDMY
      else None)"

text \<open>Line 107: \<open>pd.to_datetime(df['data'])\<close> on a column of texts. The format is
  inferred from the first element and applied to all; one element that does not parse in
  it raises (\<open>None\<close>).\<close>

definition to_datetime :: "string list \<Rightarrow> date list option" where
  "to_datetime xs =
     (case xs of
        [] \<Rightarrow> Some []
      | x # _ \<Rightarrow> (case inferir_formato x of None \<Rightarrow> None | Some f \<Rightarrow> those (map (ler_formato f) xs)))"


text \<open>The per-cell date results the loader works with (\<open>l_data\<close> of the rows of
  \<open>Ledger\<close>): every cell has its date when the column parses, and no cell has one when
  it raises.\<close>

definition coluna_datas :: "string list \<Rightarrow> date option list" where
  "coluna_datas xs =
     (case to_datetime xs of Some ds \<Rightarrow> map Some ds | None \<Rightarrow> map (\<lambda>_. None) xs)"

section \<open>Lemmas\<close>

lemma those_map: "those (map f xs) = (if \<forall>x\<in>set xs. f x \<noteq> None then Some (map (\<lambda>x. the (f x)) xs) else None)"
  by (induction xs) (auto split: option.splits)

lemma formatar_data_partes:
  "\<exists>a b c d y1 y2 y3 y4. formatar_data (y, m, dd) = [a, b, CHR ''/'', c, d, CHR ''/'', y1, y2, y3, y4] \<and>
     dois_digitos dd = [a, b] \<and> dois_digitos m = [c, d] \<and> quatro_digitos (nat y) = [y1, y2, y3, y4]"
  by (simp add: formatar_data_def dois_digitos_def quatro_digitos_def)

lemma ler_iso_formatar_data: "ler_iso (formatar_data (y, m, dd)) = None"
proof -
  obtain a b c d y1 y2 y3 y4 where f: "formatar_data (y, m, dd) = [a, b, CHR ''/'', c, d, CHR ''/'', y1, y2, y3, y4]"
    and "dois_digitos m = [c, d]"
    using formatar_data_partes by blast
  then have "d \<noteq> CHR ''-''"
    using digito_nao_sinal [of "m mod 10"] by (simp add: dois_digitos_def)
  with f show ?thesis by (simp add: ler_iso_def)
qed

lemma ler_barra_formatar_data:
  assumes "0 \<le> y" "y < 10000" "data_valida (y, m, dd)"
  shows "ler_barra False (formatar_data (y, m, dd)) = (if dd \<le> 12 then Some (y, dd, m) else None)"
proof -
  obtain a b c d y1 y2 y3 y4 where f: "formatar_data (y, m, dd) = [a, b, CHR ''/'', c, d, CHR ''/'', y1, y2, y3, y4]"
    and p: "dois_digitos dd = [a, b]" "dois_digitos m = [c, d]" "quatro_digitos (nat y) = [y1, y2, y3, y4]"
    using formatar_data_partes by blast
  have v: "1 \<le> m" "m \<le> 12" "1 \<le> dd" "dd \<le> 31"
    using assms(3) dias_no_mes_le [of y m] by (auto simp: data_valida_def)
  have n: "ler_num 0 [a, b] = Some dd" "ler_num 0 [c, d] = Some m" "ler_num 0 [y1, y2, y3, y4] = Some (nat y)"
    using ler_num_dois [of 0 dd] ler_num_dois [of 0 m] ler_num_quatro [of 0 "nat y"] p v assms(1,2) by simp_all
  have "data_valida (y, dd, m) \<longleftrightarrow> dd \<le> 12"
    using v dias_no_mes_ge [of y dd] by (auto simp: data_valida_def)
  then show ?thesis
    using assms(1) by (simp add: f n ler_barra_def Let_def del: ler_num.simps)
qed
lemma ler_barra_formatar_data':
  "(case d of (y, m, dd) \<Rightarrow> 0 \<le> y \<and> y < 10000 \<and> data_valida (y, m, dd)) \<Longrightarrow>
   ler_barra False (formatar_data d) =
     (if snd (snd d) \<le> 12 then Some (case d of (y, m, dd) \<Rightarrow> (y, dd, m)) else None)"
  by (cases d) (simp add: ler_barra_formatar_data)


lemma ler_iso_valida: "ler_iso s = Some d \<Longrightarrow> data_valida d"
  by (auto simp: ler_iso_def split: list.splits if_splits option.splits)

lemma ler_barra_valida: "ler_barra b s = Some d \<Longrightarrow> data_valida d"
  by (auto simp: ler_barra_def Let_def split: list.splits if_splits option.splits)

lemma ler_formato_valida: "ler_formato f s = Some d \<Longrightarrow> data_valida d"
  by (cases f) (auto simp: ler_formato_def intro: ler_iso_valida ler_barra_valida)

text \<open>A column that parses gives one valid date per element.\<close>

lemma to_datetime_Some:
  assumes "to_datetime xs = Some ds"
  shows "length ds = length xs \<and> list_all data_valida ds"
proof (cases xs)
  case Nil
  then show ?thesis using assms by (simp add: to_datetime_def)
next
  case (Cons x rest)
  then obtain f where "those (map (ler_formato f) xs) = Some ds"
    using assms by (auto simp: to_datetime_def split: option.splits)
  then have "\<forall>x\<in>set xs. ler_formato f x \<noteq> None" and ds: "ds = map (\<lambda>x. the (ler_formato f x)) xs"
    by (simp_all add: those_map split: if_splits)
  then have "\<forall>x\<in>set xs. data_valida (the (ler_formato f x))"
    using ler_formato_valida by fastforce
  then show ?thesis
    by (simp add: ds list_all_iff)
qed

lemma coluna_datas_validas: "list_all (\<lambda>c. case c of None \<Rightarrow> True | Some d \<Rightarrow> data_valida d) (coluna_datas xs)"
  using to_datetime_Some by (auto simp: coluna_datas_def list_all_iff split: option.splits)

text \<open>The cells that \<open>process_data\<close> sees as unparsable: all of a non-empty column that
  raises, none of one that parses.\<close>

lemma coluna_datas_None:
  "xs \<noteq> [] \<Longrightarrow> (None \<in> set (coluna_datas xs) \<longleftrightarrow> to_datetime xs = None)"
  by (cases xs) (auto simp: coluna_datas_def split: option.splits)

lemma length_coluna_datas: "length (coluna_datas xs) = length xs"
  using to_datetime_Some by (auto simp: coluna_datas_def split: option.splits)

section \<open>Properties\<close>

text \<open>
  C14. The help text (line 500) and the input format promise \<open>DD/MM/YYYY\<close> dates, but
  pandas infers the format from the first date: a column of \<open>DD/MM/YYYY\<close> texts whose
  first day is at most 12 is read month first, so every date comes back with its day and
  month exchanged, and the whole column raises when a later date has a day above 12.
\<close>

theorem barra_lida_mes_primeiro:
  assumes "ds \<noteq> []"
    and "list_all (\<lambda>(y, m, dd). 0 \<le> y \<and> y < 10000 \<and> data_valida (y, m, dd)) ds"
    and "snd (snd (hd ds)) \<le> 12"
  shows "to_datetime (map formatar_data ds) =
           (if list_all (\<lambda>d. snd (snd d) \<le> 12) ds then Some (map (\<lambda>(y, m, dd). (y, dd, m)) ds) else None)"
proof -
  obtain d0 rest where ds: "ds = d0 # rest" using assms(1) by (cases ds) auto
  have el: "\<And>d. d \<in> set ds \<Longrightarrow> ler_barra False (formatar_data d) =
              (if snd (snd d) \<le> 12 then Some (case d of (y, m, dd) \<Rightarrow> (y, dd, m)) else None)"
    using assms(2) ler_barra_formatar_data' by (auto simp: list_all_iff)
  have "ler_iso (formatar_data d0) = None"
    by (cases d0) (simp add: ler_iso_formatar_data)
  moreover have "ler_barra False (formatar_data d0) \<noteq> None"
    using el [of d0] assms(3) by (simp add: ds)
  ultimately have "inferir_formato (formatar_data d0) = Some FormatoMDY"
    by (simp add: inferir_formato_def)
  then have "to_datetime (map formatar_data ds) = those (map (\<lambda>d. ler_barra False (formatar_data d)) ds)"
    by (simp add: to_datetime_def ds ler_formato_def comp_def)
  also have "\<dots> = (if list_all (\<lambda>d. snd (snd d) \<le> 12) ds then Some (map (\<lambda>(y, m, dd). (y, dd, m)) ds) else None)"
    using el by (auto simp: those_map list_all_iff split: prod.splits intro!: map_cong)
  finally show ?thesis .
qed
text \<open>The texts 05/01/2024 and 07/03/2024 (5 January and 7 March) are read as 1 May and
  3 July.\<close>

theorem barra_lida_mes_primeiro_witness:
  "to_datetime (map formatar_data [(2024, 1, 5), (2024, 3, 7)]) = Some [(2024, 5, 1), (2024, 7, 3)]"
  using barra_lida_mes_primeiro [of "[(2024, 1, 5), (2024, 3, 7)]"]
  by (simp add: data_valida_def dias_no_mes_def bissexto_def)

end
