(* ===== verification/Dashboard.thy ===== *)
theory Dashboard
  imports Progress Filters Kpis Table Charts Sample Stats Calendar Format DateParse
begin

text \<open>
  The script's sections composed as the script runs them (\<open>src/dash.py\<close>). The goals
  and achievements section (lines 191--317) runs only when the filtered frame has an
  expense category; it reads and writes the goal dict of the session, then draws the
  badges and the progress bars from the same goals.
\<close>

record resultado_metas =
  rm_metas :: "string \<rightharpoonup> money"
  rm_badges :: "erro + aviso list"
  rm_progresso :: "(linha_progresso \<times> barra) list"

text \<open>Lines 194--317. \<open>sess\<close> is \<open>st.session_state.get('metas')\<close>, \<open>inp\<close> the
  values entered in the goal widgets; \<open>None\<close>: the section is not drawn.\<close>

definition secao_metas ::
  "transacao list \<Rightarrow> (string \<rightharpoonup> money) option \<Rightarrow> (string \<Rightarrow> money option) \<Rightarrow> resultado_metas option" where
  "secao_metas df sess inp =
     (let cats = categorias_despesas df in
      if cats = [] then None
      else
        let m = definir_metas sess inp cats in
        Some \<lparr>rm_metas = m,
              rm_badges = (case coletar_badges None df m cats of
                             Inl e \<Rightarrow> Inl e | Inr bs \<Rightarrow> Inr (exibir_badges bs)),
              rm_progresso = progresso df m cats\<rparr>)"

section \<open>Lemmas\<close>

text \<open>The definitions a concrete run of the goals section unfolds.\<close>

lemmas secao_metas_defs = secao_metas_def categorias_despesas_def unique_def definir_metas_def
  gasto_categoria_def meta_categoria_def classificar_badge_def exibir_badges_def progresso_def
  progresso_categoria_def exibir_progresso_def percentual_real_def percentual_barra_def
  number_input_def

lemma secao_metas_Some:
  "secao_metas df sess inp = Some r \<longleftrightarrow>
     categorias_despesas df \<noteq> [] \<and>
     r = (let m = definir_metas sess inp (categorias_despesas df) in
          \<lparr>rm_metas = m,
           rm_badges = Inr (exibir_badges (map (\<lambda>c. let b = the (classificar_badge (gasto_categoria df c) (meta_categoria m c))
                   in (c, b, badge_cor b)) (categorias_despesas df))),
           rm_progresso = progresso df m (categorias_despesas df)\<rparr>)"
  by (auto simp: secao_metas_def Let_def coletar_badges_Inr)

text \<open>The badge loop of a drawn goals section never raises.\<close>

lemma secao_metas_Inr: "secao_metas df sess inp = Some r \<Longrightarrow> \<exists>avs. rm_badges r = Inr avs"
  by (simp add: secao_metas_Some Let_def)

section \<open>Properties\<close>

text \<open>
  C9. The encouragement message "Continue economizando para ganhar badges!" is never
  shown: whenever the goals section is drawn, the badge loop succeeds with one message
  per expense category (over-goal alerts count as badges), so the list is never empty.
\<close>

theorem secao_metas_sem_info:
  assumes "secao_metas df sess inp = Some r"
  shows "\<exists>avs. rm_badges r = Inr avs \<and> length avs = length (categorias_despesas df) \<and>
               InfoEconomize \<notin> set avs"
  using assms by (auto simp: secao_metas_Some Let_def exibir_badges_def)

end
