(* ===== verification/Session.thy ===== *)
theory Session
  imports Dashboard
begin

text \<open>
  The script across reruns (\<open>src/dash.py\<close>). Streamlit runs the whole script again on
  every interaction; what survives a run is \<open>st.session_state\<close>, of which the script uses
  two keys: \<open>'sample_df'\<close> (the sample frame, written by the button at line 103) and
  \<open>'metas'\<close> (the goal dict, created at line 211 and written at line 217). One run reads
  the widget values of that run (\<open>entrada\<close>): the uploaded file, the button with the draws
  made when it is pressed, the period and categories chosen in the sidebar and the values
  typed in the goal inputs. \<open>executar\<close> is one run: it returns the session after the run
  and what the run shows, a crash being an exception that stops the script. \<open>alcancavel\<close>
  is the set of sessions reachable from the empty session by runs whose button draws are
  draws \<open>np.random\<close> can make.
\<close>

text \<open>The keys of \<open>st.session_state\<close> the script uses; \<open>None\<close>: key absent.\<close>

record sessao =
  ss_sample :: "linha list option"
  ss_metas :: "(string \<rightharpoonup> money) option"

text \<open>The widget values of one run.\<close>

record entrada =
  e_upload :: "linha list option"
  e_botao :: "(date \<Rightarrow> sorteio list) option"
  e_periodo :: "date list"
  e_categorias :: "string list"
  e_metas :: "string \<Rightarrow> money option"

text \<open>What a run shows: the empty-state instructions (lines 493--539), the upload error
  message followed by the instructions (line 121), the dashboard of the filtered frame with
  the goals section when it is drawn, or a crash.\<close>

datatype saida =
    Instrucoes
  | ErroCarga erro
  | Painel "transacao list" "resultado_metas option"
  | Falha erro

definition sessao_inicial :: sessao where
  "sessao_inicial = \<lparr>ss_sample = None, ss_metas = None\<rparr>"

text \<open>One run of the script, lines 71--317: the button writes the sample frame (lines
  71--103), the frame is loaded (lines 113--124), filtered in the sidebar (lines 127--156),
  and the goals section updates the goal dict (lines 191--317). A \<open>NameError\<close> of the
  badge loop (line 261) stops the script after the goal dict was written (line 217).\<close>

definition executar :: "sessao \<Rightarrow> entrada \<Rightarrow> sessao \<times> saida" where
  "executar ss e =
     (let ss1 = (case e_botao e of None \<Rightarrow> ss | Some sorteios \<Rightarrow> ss\<lparr>ss_sample := Some (gerar_amostra sorteios)\<rparr>)
      in case carregar (e_upload e) (ss_sample ss1) of
           SemDados \<Rightarrow> (ss1, Instrucoes)
         | ErroArquivo err \<Rightarrow> (ss1, ErroCarga err)
         | Excecao err \<Rightarrow> (ss1, Falha err)
         | Carregado df \<Rightarrow>
             (case filtros df (e_periodo e) (e_categorias e) of
                Inl err \<Rightarrow> (ss1, Falha err)
              | Inr dff \<Rightarrow>
                  (case secao_metas dff (ss_metas ss1) (e_metas e) of
                     None \<Rightarrow> (ss1, Painel dff None)
                   | Some r \<Rightarrow>
                       (ss1\<lparr>ss_metas := Some (rm_metas r)\<rparr>,
                        case rm_badges r of Inl err \<Rightarrow> Falha err | Inr _ \<Rightarrow> Painel dff (Some r)))))"

text \<open>The draws of a pressed button are draws \<open>np.random\<close> can make. The seed of line 75
  fixes one such sequence; the model allows every one, so that what holds of all reachable
  sessions holds of the seeded one.\<close>

definition entrada_valida :: "entrada \<Rightarrow> bool" where
  "entrada_valida e \<longleftrightarrow> (case e_botao e of None \<Rightarrow> True | Some sorteios \<Rightarrow> sorteios_validos sorteios)"

inductive alcancavel :: "sessao \<Rightarrow> bool" where
  inicial: "alcancavel sessao_inicial"
| passo: "alcancavel ss \<Longrightarrow> entrada_valida e \<Longrightarrow> alcancavel (fst (executar ss e))"

text \<open>The session invariant: the goal dict holds no negative goal, and the stored sample
  frame is one the button can produce.\<close>

definition sessao_valida :: "sessao \<Rightarrow> bool" where
  "sessao_valida ss \<longleftrightarrow>
     (case ss_metas ss of None \<Rightarrow> True | Some m \<Rightarrow> metas_validas m) \<and>
     (case ss_sample ss of None \<Rightarrow> True | Some rs \<Rightarrow> \<exists>sorteios. sorteios_validos sorteios \<and> rs = gerar_amostra sorteios)"

text \<open>Draws for the sample generator: one debit of 100 in transport each day, except a
  salary credit of 2500 on the 15th.\<close>

definition sorteios_fixos :: "date \<Rightarrow> sorteio list" where
  "sorteios_fixos d =
     (if snd (snd d) = 15 then [\<lparr>s_categoria = ''Saude'', s_tipo = ''credito'', s_uniforme = 2500\<rparr>]
      else [\<lparr>s_categoria = ''Transporte'', s_tipo = ''debito'', s_uniforme = 100\<rparr>])"

text \<open>A run that presses the sample button with these draws and keeps only the transport
  category in the sidebar.\<close>

definition entrada_exemplo :: entrada where
  "entrada_exemplo = \<lparr>e_upload = None, e_botao = Some sorteios_fixos, e_periodo = [],
                      e_categorias = [''Transporte''], e_metas = (\<lambda>_. None)\<rparr>"

text \<open>The frame the example run shows.\<close>

abbreviation painel_exemplo :: "transacao list" where
  "painel_exemplo \<equiv> filtrar_categorias [''Transporte''] (List.map_filter converter_linha (gerar_amostra sorteios_fixos))"

text \<open>An uploaded CSV with one row, a bus fare of 50 on 5 January 2024: its date cell is
  what \<open>pd.to_datetime\<close> makes of the column \<open>['2024-01-05']\<close>.\<close>

definition linhas_upload :: "linha list" where
  "linhas_upload =
     [\<lparr>l_data = hd (coluna_datas [''2024-01-05'']), l_descricao = ''Onibus'', l_categoria = ''Transporte'',
       l_valor = Some (-50), l_tipo = ''debito'', l_tags = ''''\<rparr>]"

text \<open>A run that uploads that file and leaves the sidebar at its defaults: the period
  \<open>(min_date, max_date)\<close> of line 137 and the single category offered.\<close>

definition entrada_upload :: entrada where
  "entrada_upload = \<lparr>e_upload = Some linhas_upload, e_botao = None, e_periodo = [(2024, 1, 5), (2024, 1, 5)],
                     e_categorias = [''Transporte''], e_metas = (\<lambda>_. None)\<rparr>"

text \<open>The row that file loads to.\<close>

definition transacao_upload :: transacao where
  "transacao_upload = \<lparr>data = (2024, 1, 5), descricao = ''Onibus'', categoria = ''Transporte'', valor = - 50,
                        tipo = ''debito'', tags = '''', mes = (2024, 1)\<rparr>"

section \<open>Lemmas\<close>

lemma sorteios_fixos_validos: "sorteio_valido s" if "s \<in> set (sorteios_fixos d)"
  using that by (auto simp: sorteios_fixos_def sorteio_valido_def categorias_amostra_def split: if_splits)

lemma list_all_sorteios_fixos: "list_all (\<lambda>d. list_all sorteio_valido (sorteios_fixos d)) datas_amostra"
  using sorteios_fixos_validos by (simp add: list_all_iff)

lemma sorteios_fixos_sorteios_validos: "sorteios_validos sorteios_fixos"
  using sorteios_fixos_validos by (simp add: sorteios_validos_def list_all_iff sorteios_fixos_def)

lemma entrada_exemplo_valida: "entrada_valida entrada_exemplo"
  by (simp add: entrada_valida_def entrada_exemplo_def sorteios_fixos_sorteios_validos)

lemma executar_sample:
  "ss_sample (fst (executar ss e)) =
     (case e_botao e of None \<Rightarrow> ss_sample ss | Some sorteios \<Rightarrow> Some (gerar_amostra sorteios))"
  by (auto simp: executar_def Let_def split: option.splits carga.splits sum.splits)

lemma executar_metas:
  "ss_metas (fst (executar ss e)) = ss_metas ss \<or>
   (\<exists>cats. cats \<noteq> [] \<and> ss_metas (fst (executar ss e)) = Some (definir_metas (ss_metas ss) (e_metas e) cats))"
  by (auto simp: executar_def Let_def secao_metas_def split: option.splits carga.splits sum.splits if_splits)

lemma definir_metas_valida:
  "(case sess of None \<Rightarrow> True | Some m \<Rightarrow> metas_validas m) \<Longrightarrow> metas_validas (definir_metas sess inp cats)"
  by (cases sess) (simp_all add: definir_metas_def metas_loop_validas)

lemma executar_valida:
  assumes "sessao_valida ss" and "entrada_valida e"
  shows "sessao_valida (fst (executar ss e))"
proof -
  have "case ss_metas (fst (executar ss e)) of None \<Rightarrow> True | Some m \<Rightarrow> metas_validas m"
    using executar_metas [of ss e] assms(1) definir_metas_valida
    by (auto simp: sessao_valida_def)
  moreover have "case ss_sample (fst (executar ss e)) of None \<Rightarrow> True
                  | Some rs \<Rightarrow> \<exists>sorteios. sorteios_validos sorteios \<and> rs = gerar_amostra sorteios"
    using assms by (auto simp: executar_sample sessao_valida_def entrada_valida_def split: option.splits)
  ultimately show ?thesis
    by (simp add: sessao_valida_def)
qed

lemma alcancavel_valida: "alcancavel ss \<Longrightarrow> sessao_valida ss"
proof (induction rule: alcancavel.induct)
  case inicial
  then show ?case by (simp add: sessao_inicial_def sessao_valida_def)
next
  case (passo ss e)
  then show ?case by (simp add: executar_valida)
qed

text \<open>A frame whose rows all have one category, one of them an expense, has that single
  expense category.\<close>

lemma categorias_despesas_unica:
  assumes "t \<in> set df" "tipo t = ''debito''" "categoria t = c" "c \<noteq> ''Renda''"
    and "\<forall>u\<in>set df. categoria u = c"
  shows "categorias_despesas df = [c]"
proof -
  let ?ds = "map categoria (filter (\<lambda>t. tipo t = ''debito'' \<and> categoria t \<noteq> ''Renda'') df)"
  have "t \<in> set (filter (\<lambda>t. tipo t = ''debito'' \<and> categoria t \<noteq> ''Renda'') df)"
    using assms(1-4) by simp
  then have c: "c \<in> set ?ds" using assms(3) by force
  moreover have "set ?ds \<subseteq> {c}" using assms(5) by auto
  ultimately have "set ?ds = {c}" by blast
  moreover have "?ds \<noteq> []" using c by (metis empty_iff empty_set)
  ultimately show ?thesis unfolding categorias_despesas_def by (intro unique_const)
qed

text \<open>The example run shows the transport debits, whose only expense category is
  \<open>'Transporte'\<close>.\<close>

lemma categorias_exemplo: "categorias_despesas painel_exemplo = [''Transporte'']"
proof -
  define s0 where "s0 = \<lparr>s_categoria = ''Transporte'', s_tipo = ''debito'', s_uniforme = (100::real)\<rparr>"
  have d1: "(2024, 1, 1) \<in> set datas_amostra" by (simp add: datas_amostra_eq)
  obtain t where t: "converter_linha (linha_amostra (2024, 1, 1) s0) = Some t"
    using converter_linha_amostra [OF d1] by blast
  have tt: "tipo t = ''debito''" "categoria t = ''Transporte''"
    using t by (auto simp: converter_linha_Some_iff linha_amostra_def s0_def)
  have "s0 \<in> set (sorteios_fixos (2024, 1, 1))"
    by (simp add: sorteios_fixos_def s0_def)
  then have "linha_amostra (2024, 1, 1) s0 \<in> set (gerar_amostra sorteios_fixos)"
    by (rule in_gerar_amostra [OF d1])
  then have "t \<in> set (List.map_filter converter_linha (gerar_amostra sorteios_fixos))"
    using t unfolding in_set_map_filter by blast
  then have tin: "t \<in> set painel_exemplo"
    using tt(2) unfolding filtrar_categorias_def by simp
  have all: "\<forall>u\<in>set painel_exemplo. categoria u = ''Transporte''"
    unfolding filtrar_categorias_def by simp
  show ?thesis
    by (rule categorias_despesas_unica [OF tin tt(1) tt(2) _ all]) simp
qed

lemma executar_exemplo:
  "\<exists>r. secao_metas painel_exemplo (ss_metas ss) (\<lambda>_. None) = Some r \<and>
       executar ss entrada_exemplo =
         (ss\<lparr>ss_sample := Some (gerar_amostra sorteios_fixos), ss_metas := Some (rm_metas r)\<rparr>, Painel painel_exemplo (Some r))"
proof -
  have ne: "List.map_filter converter_linha (gerar_amostra sorteios_fixos) \<noteq> []"
    by (rule amostra_nao_vazia [OF sorteios_fixos_sorteios_validos])
  then have "filtros (List.map_filter converter_linha (gerar_amostra sorteios_fixos)) [] [''Transporte''] = Inr painel_exemplo"
    by (cases "List.map_filter converter_linha (gerar_amostra sorteios_fixos)")
       (simp_all add: filtros_def limites_datas_def filtrar_periodo_def)
  moreover obtain r where r: "secao_metas painel_exemplo (ss_metas ss) (\<lambda>_. None) = Some r"
    using categorias_exemplo by (simp add: secao_metas_Some)
  moreover obtain avs where "rm_badges r = Inr avs"
    using secao_metas_Inr [OF r] by blast
  ultimately show ?thesis
    by (simp add: executar_def entrada_exemplo_def Let_def carregar_amostra)
qed

lemma coluna_upload: "coluna_datas [''2024-01-05''] = [Some (2024, 1, 5)]"
  by (simp add: coluna_datas_def to_datetime_def inferir_formato_def ler_formato_def ler_iso_def
      valor_digito_def data_valida_def dias_no_mes_def bissexto_def)

lemma process_data_upload: "process_data linhas_upload = Inr [transacao_upload]"
  by (simp add: linhas_upload_def coluna_upload process_data_def converter_linha_def periodo_mes_def
      transacao_upload_def)


text \<open>In a reachable session, the sample frame a run loads (after the button, if pressed)
  is absent or one the button can produce.\<close>

lemma amostra_execucao:
  assumes "alcancavel ss" and "entrada_valida e"
  obtains "ss_sample (case e_botao e of None \<Rightarrow> ss | Some so \<Rightarrow> ss\<lparr>ss_sample := Some (gerar_amostra so)\<rparr>) = None"
    | so where "sorteios_validos so"
        "ss_sample (case e_botao e of None \<Rightarrow> ss | Some so \<Rightarrow> ss\<lparr>ss_sample := Some (gerar_amostra so)\<rparr>) =
           Some (gerar_amostra so)"
proof -
  have "case ss_sample (case e_botao e of None \<Rightarrow> ss | Some so \<Rightarrow> ss\<lparr>ss_sample := Some (gerar_amostra so)\<rparr>) of
          None \<Rightarrow> True | Some rs \<Rightarrow> \<exists>so. sorteios_validos so \<and> rs = gerar_amostra so"
    using alcancavel_valida [OF assms(1)] assms(2)
    by (auto simp: sessao_valida_def entrada_valida_def split: option.splits)
  then show ?thesis
    using that by (auto split: option.splits)
qed


section \<open>Properties\<close>

text \<open>
  C25. In every session reachable by runs of the script, the goal each category is measured
  against (the stored goal or the default 1000.0) is non-negative, so no run draws badges or
  progress against a negative goal.
\<close>

theorem metas_sessao_nao_negativas:
  assumes "alcancavel ss" and "ss_metas ss = Some m"
  shows "\<forall>c. 0 \<le> meta_categoria m c"
  using alcancavel_valida [OF assms(1)] assms(2) meta_categoria_nonneg by (simp add: sessao_valida_def)

text \<open>
  C26. Without an upload, no run of a reachable session crashes: the stored sample frame
  (when there is one) always loads, is never empty, so the sidebar's date bounds exist.
  Only an uploaded file can stop the script (see C12).
\<close>

theorem execucao_sem_upload_segura:
  assumes "alcancavel ss" and "entrada_valida e" and "e_upload e = None"
  shows "\<forall>err. snd (executar ss e) \<noteq> Falha err"
proof -
  let ?ss1 = "case e_botao e of None \<Rightarrow> ss | Some so \<Rightarrow> ss\<lparr>ss_sample := Some (gerar_amostra so)\<rparr>"
  show ?thesis
  proof (rule amostra_execucao [OF assms(1,2)])
    assume "ss_sample ?ss1 = None"
    then show ?thesis
      using assms(3) by (simp add: executar_def Let_def carregar_def)
  next
    fix so
    assume so: "sorteios_validos so" "ss_sample ?ss1 = Some (gerar_amostra so)"
    then have "filtros (List.map_filter converter_linha (gerar_amostra so)) (e_periodo e) (e_categorias e) \<noteq> Inl err" for err
      using amostra_nao_vazia by (simp add: filtros_Inl_iff)
    then show ?thesis
      using so assms(3)
      by (auto simp: executar_def Let_def carregar_amostra dest: secao_metas_Inr split: sum.splits option.splits)
  qed
qed


text \<open>
  C28. Goals persist across runs: a run never changes the goal of a category it does not
  show in the goals section, whatever the filters and widget values of that run.
\<close>

theorem metas_preservadas:
  assumes "ss_metas ss = Some m" and "snd (executar ss e) = Painel dff rr"
    and "c \<notin> set (categorias_despesas dff)"
  shows "\<exists>m'. ss_metas (fst (executar ss e)) = Some m' \<and> m' c = m c"
  using assms
  by (auto simp: executar_def Let_def secao_metas_def definir_metas_def metas_loop_other
           split: option.splits carga.splits sum.splits if_splits)


text \<open>
  C32. An uploaded file takes precedence over the sample frame (lines 115--124): when the
  upload loads to a non-empty frame, the run shows that frame through the sidebar filters,
  whatever sample the session holds and even if the sample button is pressed in the same
  run.
\<close>

theorem upload_prevalece:
  assumes "e_upload e = Some rs" and "process_data rs = Inr df" and "df \<noteq> []"
  shows "\<exists>r. snd (executar ss e) = Painel (filtrar_categorias (e_categorias e) (filtrar_periodo (e_periodo e) df)) r"
proof -
  have "filtros df (e_periodo e) (e_categorias e) = Inr (filtrar_categorias (e_categorias e) (filtrar_periodo (e_periodo e) df))"
    using assms(3) by (cases df) (simp_all add: filtros_def limites_datas_Cons)
  then show ?thesis
    using assms(1,2)
    by (auto simp: executar_def Let_def carregar_def dest: secao_metas_Inr split: option.splits sum.splits)
qed

text \<open>Witness of C32: the bus-fare upload wins over a stored sample and a pressed button.\<close>

theorem upload_prevalece_witness:
  "\<exists>r. snd (executar \<lparr>ss_sample = Some (gerar_amostra sorteios_fixos), ss_metas = None\<rparr>
                     (entrada_upload\<lparr>e_botao := Some sorteios_fixos\<rparr>)) = Painel [transacao_upload] r"
proof -
  have u: "e_upload (entrada_upload\<lparr>e_botao := Some sorteios_fixos\<rparr>) = Some linhas_upload"
    by (simp add: entrada_upload_def)
  have "filtrar_categorias (e_categorias (entrada_upload\<lparr>e_botao := Some sorteios_fixos\<rparr>))
          (filtrar_periodo (e_periodo (entrada_upload\<lparr>e_botao := Some sorteios_fixos\<rparr>)) [transacao_upload]) =
        [transacao_upload]"
    by (simp add: entrada_upload_def transacao_upload_def filtrar_periodo_def filtrar_categorias_def)
  then show ?thesis
    using upload_prevalece [OF u process_data_upload, of "\<lparr>ss_sample = Some (gerar_amostra sorteios_fixos), ss_metas = None\<rparr>"]
    by simp
qed

end
