(* ===== verification/Spec2Isabelle.thy ===== *)
theory Spec2Isabelle
  imports Session
begin

text \<open>
  \<^bold>\<open>Verification model of the personal-finance dashboard \<open>src/dash.py\<close>.\<close>

  \<^emph>\<open>The program.\<close> \<open>src/dash.py\<close> is one Streamlit script, re-run from the top on every
  interaction. It loads a transaction ledger (an uploaded CSV, or a random sample kept in
  the session), filters it by period and category in the sidebar, and draws: three
  headline metrics; a goals and achievements section (a goal per expense category kept in
  \<open>st.session_state['metas']\<close>, a badge per category from the ratio of spend to goal,
  and a progress bar per category); charts; a filterable statement table; summary
  statistics. The only state that survives a run is the session (goal dict, sample frame,
  widget values); everything else is recomputed from the frame.

  \<^emph>\<open>How the model corresponds to the code.\<close> One theory per part, in the script's order,
  each definition named after the source's variable and annotated with its lines:
  \<^item> \<open>Prelude\<close>: the column types (a date is (year, month, day), ordered
    lexicographically, which is chronological order), amounts as exact reals, the errors
    the script can raise (\<open>erro\<close>), \<open>dict.get\<close> (\<open>dict_get\<close>) and pandas'
    \<open>unique()\<close> (first-occurrence order, \<open>unique\<close>), with their shared lemmas.
  \<^item> \<open>Ledger\<close> (lines 105--124): the raw CSV row \<open>linha\<close> (already split into cells;
    \<open>pd.read_csv\<close> is not modelled), the processed row \<open>transacao\<close>,
    \<open>process_data\<close> (a date that does not parse raises, as \<open>Inl ErroData\<close>; an
    amount that does not parse is dropped), and \<open>carregar\<close>: the upload path inside
    \<open>try\<close>, the sample path outside it.
  \<^item> \<open>Filters\<close> (lines 127--156): the date bounds (\<open>limites_datas\<close>, raising on an
    empty frame), the period filter (only for a two-date range), the category filter, and
    the whole stage \<open>filtros\<close>.
  \<^item> \<open>Calendar\<close> (lines 74, 95, 107, 490): valid dates, the next day, the day number
    \<open>dias_civis\<close> behind timestamp differences, \<open>pd.date_range\<close> (\<open>date_range\<close>),
    the ISO text \<open>strftime('%Y-%m-%d')\<close> (\<open>formatar_iso\<close>) and its parse by
    \<open>pd.to_datetime\<close> (\<open>ler_iso\<close>).
  \<^item> \<open>DateParse\<close> (line 107): \<open>pd.to_datetime\<close> on a whole column of date texts
    (\<open>to_datetime\<close>): the format (ISO, month first, day first) is inferred from the
    first element (\<open>inferir_formato\<close>) and applied to all, one failure raising; its
    per-cell result \<open>coluna_datas\<close> is what the \<open>l_data\<close> cells of \<open>Ledger\<close> hold.
  \<^item> \<open>Format\<close> (lines 168--487): Python's \<open>f"{x:,.2f}"\<close> on every printed amount
    (\<open>formatar_numero\<close>, \<open>formatar_reais\<close>), with its digit loop \<open>digitos_dec\<close>
    (a \<open>function\<close> with a termination proof) and thousands grouping.
  \<^item> \<open>Kpis\<close> (lines 158--189): total income, total expense, balance, the three
    \<open>st.metric\<close> cards with their value and delta texts (\<open>metricas_kpi\<close>), and the
    colour of a delta; Streamlit's colouring rule (a delta text starting with a minus sign is
    a decrease) is stated as its documented contract.
  \<^item> \<open>Goals\<close> (lines 191--221, 235): expense categories, the goal widgets loop
    \<open>metas_loop\<close> writing into the session's dict (\<open>definir_metas\<close>), and the goal a
    category is measured against (\<open>meta_categoria\<close>, default 1000.0). The widget
    \<open>st.number_input\<close> is modelled by its contract: the user's value if it is at least
    \<open>min_value\<close>, otherwise the value shown.
  \<^item> \<open>Badges\<close> (lines 223--268): spend per category, the six-way \<open>if/elif\<close> cascade
    (\<open>classificar_badge\<close>, \<open>None\<close> when no branch assigns), the loop
    \<open>coletar_badges\<close> carrying the previous \<open>badge_type\<close> exactly as Python's scoping
    does (\<open>NameError\<close> when there is none), and the messages.
  \<^item> \<open>Progress\<close> (lines 270--317): the real and clamped percentages, the bar drawn
    (\<open>st.progress\<close> with one of three prefixes, or the red HTML bar), and the
    \<open>progress_data\<close> rows; \<open>barra_valida\<close> is \<open>st.progress\<close>'s precondition.
  \<^item> \<open>Charts\<close> (lines 319--420): the group-by sum behind the two category charts
    (\<open>despesas_por_categoria\<close>), the running balance (\<open>cumsum\<close>,
    \<open>linha_do_tempo\<close>, after a sort by date) and the month-by-type table of the monthly
    chart (\<open>analise_mensal\<close>, \<open>unstack(fill_value=0)\<close> and the absolute debit column).
    The figures themselves (plotly) are not modelled.
  \<^item> \<open>Table\<close> (lines 422--470): the type, minimum-amount and search filters
    (\<open>filtrar_tabela\<close>; the search as literal, ASCII case-insensitive substring search
    \<open>contem_ci\<close>), the \<open>'%d/%m/%Y'\<close> date text (\<open>formatar_data\<close>) and the descending
    sort on that text (\<open>ordenar_desc\<close>, \<open>tabela\<close>).
  \<^item> \<open>Sample\<close> (lines 71--103): the sample rows built for each day of January 2024
    from the random draws (\<open>linha_amostra\<close>, \<open>gerar_amostra\<close>), their dates going
    through the ISO text; the draws are the model's input and \<open>sorteios_validos\<close> says
    what \<open>np.random\<close> can draw.
  \<^item> \<open>Stats\<close> (lines 472--491): number of rows, mean and minimum of the debit amounts
    (\<open>None\<close> where pandas gives NaN) and the days analysed, through the civil-calendar
    day number \<open>dias_civis\<close> that the difference of two midnight timestamps counts.
  \<^item> \<open>Dashboard\<close>: the goals and achievements section composed as the script runs it
    (\<open>secao_metas\<close>, lines 191--317).
  \<^item> \<open>Session\<close>: the script across Streamlit reruns. The state is the two keys of
    \<open>st.session_state\<close> the script uses (\<open>sessao\<close>), a run is a function of the state
    and the widget values (\<open>executar\<close>: button, load, sidebar filters, goals section),
    and the reachable sessions are an inductive relation (\<open>alcancavel\<close>) whose
    invariant is proved by rule induction. A \<open>NameError\<close> of the badge loop would be a
    crash (\<open>Falha\<close>) after the goal dict is written.
  \<^item> This theory: the specification's abstract budget tracker (\<open>ratio_percent\<close>,
    \<open>spec_tier\<close>, \<open>classify\<close>, \<open>total_expense\<close>), the abstraction
    \<open>tier_of_badge\<close> from badges to tiers, fixtures, and the properties that span parts.

  \<^emph>\<open>What is proved.\<close> The badge loop never raises and never reuses a stale badge (C1);
  for a positive goal the cascade refines the specified tier table (C2) and the progress
  section refines \<open>classify\<close> (C5), while a goal of 0 gives the critical alert, against
  the specification and against the bar of the same category (C3); \<open>st.progress\<close> is
  always called in range (C4); the balance delta is always red, because its text starts
  with a minus sign exactly when the balance is negative and both \<open>delta_color\<close>
  choices colour such a delta red (C6); the goal dict keeps its non-negativity invariant
  (C7) and gets exactly the documented values (C8); the "keep saving" message is
  unreachable (C9). The expense KPI, the absolute value of the summed debits, never
  exceeds the specified sum of absolute debits and equals it exactly when all debits have
  one sign (C10). A transaction outside the period never contributes (C11); an upload
  with no parsable amount crashes the sidebar outside the \<open>try\<close> (C12). The statement
  table sorts by day of month first, so "most recent first" fails across months (C13). A
  CSV whose dates are written \<open>DD/MM/YYYY\<close>, as the help text invites, is read month
  first when its first day is at most 12, and raises as soon as a later day exceeds 12
  (C14). With default filters the table shows every row once (C15). The category charts
  agree with the badges' spend (C16) and their total lies between the two expense totals
  (C17); the balance timeline ends at the sum of all amounts (C18), which is the balance
  KPI on a frame that keeps the sign convention (C19); the monthly chart adds up to the
  KPIs (C20). The sample frame keeps the sign convention (C21). The summary statistics
  agree with the expense KPI (C22), count the days of a period within a month (C23), and
  show an average ticket no larger than the largest expense (C31). For any draws the
  sample frame spans January 2024 and its period metric shows 31 days (C24). Across
  reruns, every reachable session keeps non-negative goals (C25); a run without an upload
  never crashes (C26), and more precisely the only crash of a run is an upload that loads
  to an empty frame (C29); one upload run reaches the goals section from any reachable
  session (C27); a run never changes the goal of a category it does not show (C28); an
  upload takes precedence over the stored sample and the button (C32). The sidebar at its
  default widget values keeps the whole loaded frame (C30).

  \<^emph>\<open>Modelling choices and limits.\<close> Amounts are exact reals: the rounding of Python
  floats is not modelled, so band boundaries are exact (e.g. a spend of exactly 0.7 of the
  goal is gold), and \<open>round(x, 2)\<close> and the cents of \<open>f"{x:,.2f}"\<close> use HOL's half-up
  rounding (Python rounds the binary value half to even; they differ only on exact ties).
  Strings are HOL strings; the non-ASCII letters of the source's literals are
  transliterated and do not occur in the compared values (\<open>'debito'\<close>,
  \<open>'credito'\<close>, \<open>'Renda'\<close>). pandas' sorts are not stable; the model uses a
  stable sort and no property depends on the order of equal keys. No loop needs fuel:
  every loop of the script runs over a finite list and is a structural recursion or a
  list combinator; the one loop on numbers (the digits of an amount) is a
  \<open>function\<close> with a measure. Streamlit, pandas and numpy calls are modelled by their
  documented behaviour, not by their code, on the inputs the script gives them (ISO dates
  with four-digit years, midnight timestamps). The column parse is that of pandas 2 and
  later (one format inferred from the first element); it is modelled for zero-padded
  ten-character texts in the three formats the specification and the help text name.
  The sample button seeds numpy (\<open>np.random.seed(42)\<close>, line 75), so in the program
  it always produces the same frame; the model takes the draws as an input constrained
  only by the ranges the calls can return (\<open>sorteios_validos\<close>). This is a superset
  of the seeded draws: claims over all reachable sessions (C24--C26, C28, C29) hold a
  fortiori, and the one claim that exhibits a run (C27) uses an upload, not a draw. The
  date bounds of an empty frame are NaT; \<open>st.date_input\<close> (line 135) then raises,
  which the model records as the raise of the sidebar stage (\<open>limites_datas\<close>).

  \<^emph>\<open>Not modelled.\<close> Page layout, CSS, \<open>style_metric_cards\<close>, headings and the static
  text of the empty state and footer (presentation, no computation); the plotly figures
  (library drawing; the series they are drawn from are modelled); \<open>pd.read_csv\<close> (the
  model starts from the parsed cells); the regular-expression reading of the table search
  (modelled as literal substring search, which it is for a text without regex
  metacharacters); empty date cells of an uploaded CSV, which \<open>pd.to_datetime\<close> turns
  into NaT without raising (the model's date cells are non-empty texts, and a row
  without a date is not representable); exceptions raised inside pandas or plotly on an empty filtered frame
  in the chart and table sections (the model covers the exceptions the script's own code
  raises: unparsable dates, NaT bounds, the unbound badge variable).
\<close>

section \<open>The specified budget tracker\<close>

text \<open>
  The abstract contract of the budget tracker: \<open>classify(spent, limit)\<close> returns the
  ratio of spend to goal in percent (0 for a non-positive limit), one of six tiers from
  the table of bands 70, 85, 100, 120 and 150 (upper bounds inclusive), and the ratio
  clamped at 100 for display.
\<close>

datatype tier = TGold | TSilver | TBronze | TAboveGoal | THighAlert | TCriticalAlert

definition ratio_percent :: "real \<Rightarrow> real \<Rightarrow> real" where
  "ratio_percent spent limit = (if limit \<le> 0 then 0 else spent / limit * 100)"

definition spec_tier :: "real \<Rightarrow> tier" where
  "spec_tier r =
     (if r \<le> 70 then TGold else if r \<le> 85 then TSilver else if r \<le> 100 then TBronze
      else if r \<le> 120 then TAboveGoal else if r \<le> 150 then THighAlert else TCriticalAlert)"

definition classify :: "real \<Rightarrow> real \<Rightarrow> real \<times> tier \<times> real" where
  "classify spent limit =
     (let r = ratio_percent spent limit in (r, spec_tier r, min r 100))"

text \<open>The abstraction from the code's badges to the specified tiers.\<close>

fun tier_of_badge :: "badge \<Rightarrow> tier" where
  "tier_of_badge Ouro = TGold"
| "tier_of_badge Prata = TSilver"
| "tier_of_badge Bronze = TBronze"
| "tier_of_badge AcimaDaMeta = TAboveGoal"
| "tier_of_badge AlertaAlto = THighAlert"
| "tier_of_badge AlertaCritico = TCriticalAlert"

text \<open>The alert level a progress bar shows (0: no sign, 1: warning, 2: siren, 3: red
  bar) and the level of the specified tier in the same scale.\<close>

fun nivel_barra :: "barra \<Rightarrow> nat" where
  "nivel_barra (Progresso v SemAlerta p) = 0"
| "nivel_barra (Progresso v Atencao p) = 1"
| "nivel_barra (Progresso v Perigo p) = 2"
| "nivel_barra (BarraVermelha p) = 3"

fun nivel_tier :: "tier \<Rightarrow> nat" where
  "nivel_tier TGold = 0"
| "nivel_tier TSilver = 1"
| "nivel_tier TBronze = 2"
| "nivel_tier _ = 3"

text \<open>The specified aggregate KPIs (spec 4.2): the expense is the sum of the absolute
  debit amounts.\<close>

definition total_income :: "transacao list \<Rightarrow> money" where
  "total_income df = sum_list (map valor (filter (\<lambda>t. tipo t = ''credito'') df))"

definition total_expense :: "transacao list \<Rightarrow> money" where
  "total_expense df = sum_list (map (\<lambda>t. \<bar>valor t\<bar>) (filter (\<lambda>t. tipo t = ''debito'') df))"

section \<open>Fixtures\<close>

text \<open>A processed row with empty description and tags, the ledger of the spec's first
  scenario (two food debits and a salary credit), and a CSV row whose amount does not
  parse.\<close>

definition tx :: "date \<Rightarrow> string \<Rightarrow> money \<Rightarrow> string \<Rightarrow> transacao" where
  "tx d c v k = \<lparr>data = d, descricao = '''', categoria = c, valor = v, tipo = k, tags = '''',
                 mes = periodo_mes d\<rparr>"

definition extrato_food :: "transacao list" where
  "extrato_food = [tx (2024, 1, 5) ''Food'' (-100) ''debito'', tx (2024, 1, 6) ''Food'' (-50) ''debito'',
                   tx (2024, 1, 7) ''Renda'' 2000 ''credito'']"

definition linha_sem_valor :: linha where
  "linha_sem_valor = \<lparr>l_data = Some (2024, 3, 1), l_descricao = ''Mercado'', l_categoria = ''Food'',
                      l_valor = None, l_tipo = ''debito'', l_tags = ''''\<rparr>"

section \<open>Lemmas\<close>

lemma ratio_percent_eq: "ratio_percent g m = percentual_real g m"
  by (simp add: ratio_percent_def percentual_real_def)

text \<open>Against a positive goal, each band of the ratio is the badge cascade's comparison
  of the spend with a multiple of the goal.\<close>

lemma ratio_bands:
  assumes "0 < m"
  shows "ratio_percent g m \<le> 70 \<longleftrightarrow> g \<le> m * 0.7"
    and "ratio_percent g m \<le> 85 \<longleftrightarrow> g \<le> m * 0.85"
    and "ratio_percent g m \<le> 100 \<longleftrightarrow> g \<le> m"
    and "ratio_percent g m \<le> 120 \<longleftrightarrow> g \<le> m * 1.2"
    and "ratio_percent g m \<le> 150 \<longleftrightarrow> g \<le> m * 1.5"
  using percentual_real_le_iff [OF assms, of g "0.7"] percentual_real_le_iff [OF assms, of g "0.85"]
    percentual_real_le_iff [OF assms, of g 1] percentual_real_le_iff [OF assms, of g "1.2"]
    percentual_real_le_iff [OF assms, of g "1.5"]
  by (simp_all add: ratio_percent_eq)

lemma classificar_badge_tier:
  "0 < m \<Longrightarrow> classificar_badge g m = Some b \<Longrightarrow> tier_of_badge b = spec_tier (ratio_percent g m)"
  by (auto simp: classificar_badge_eq spec_tier_def ratio_bands)

lemma exibir_progresso_nivel:
  "0 < m \<Longrightarrow> nivel_barra (exibir_progresso g m) = nivel_tier (spec_tier (ratio_percent g m))"
  by (simp add: exibir_progresso_def Let_def spec_tier_def ratio_percent_eq [symmetric])

section \<open>Properties\<close>

text \<open>
  C2. Refinement of the specified tier table: for every positive goal and every spend,
  the badge cascade of the code assigns exactly the tier that the specification's table
  assigns to the ratio \<open>spent / limit * 100\<close>.
\<close>

theorem badge_refines_spec_tier:
  assumes "0 < m"
  shows "map_option tier_of_badge (classificar_badge g m) = Some (spec_tier (ratio_percent g m))"
proof -
  obtain b where b: "classificar_badge g m = Some b"
    using classificar_badge_Some by blast
  with assms show ?thesis by (simp add: classificar_badge_tier)
qed

theorem badge_refines_spec_tier_witness:
  "(0::real) < 100 \<and>
   map_option tier_of_badge (classificar_badge 150 100) = Some (spec_tier (ratio_percent 150 100))"
  using badge_refines_spec_tier [of 100 150] by simp

text \<open>
  C3. With a goal of 0 the code disagrees with the specification and with itself: any
  positive spend gets the critical-alert badge, while the specification forces the ratio
  to 0 and the gold tier, and the progress bar of the same category shows 0\% with no
  alert.
\<close>

theorem zero_goal_badge_divergence:
  assumes "0 < g"
  shows "classificar_badge g 0 = Some AlertaCritico \<and> spec_tier (ratio_percent g 0) = TGold \<and>
         exibir_progresso g 0 = Progresso 0 SemAlerta 0"
  using assms
  by (simp add: classificar_badge_def spec_tier_def ratio_percent_def exibir_progresso_def
      percentual_barra_def)

theorem zero_goal_badge_divergence_witness:
  "(0::real) < 500 \<and> classificar_badge 500 0 = Some AlertaCritico \<and>
   spec_tier (ratio_percent 500 0) = TGold \<and> exibir_progresso 500 0 = Progresso 0 SemAlerta 0"
  using zero_goal_badge_divergence [of 500] by simp

text \<open>
  C5. Refinement of \<open>classify\<close> by the progress section: for every spend and goal the
  percentage the code stores in \<open>progress_data\<close> is the specified ratio, the bar's
  clamped percentage is the specified \<open>clamped_progress\<close>, and, for a positive goal,
  the alert level of the bar drawn is the level of the specified tier (gold: no sign,
  silver: warning, bronze: siren, above the goal: red bar).
\<close>

theorem progress_refines_classify:
  "fst (classify g m) = percentual_real g m \<and> snd (snd (classify g m)) = percentual_barra g m \<and>
   (0 < m \<longrightarrow> nivel_barra (exibir_progresso g m) = nivel_tier (fst (snd (classify g m))))"
  by (simp add: classify_def Let_def ratio_percent_eq percentual_barra_def exibir_progresso_nivel
      [folded ratio_percent_eq])

theorem progress_refines_classify_witness:
  "(0::real) < 100 \<and> fst (classify 80 100) = percentual_real 80 100 \<and>
   snd (snd (classify 80 100)) = percentual_barra 80 100 \<and>
   nivel_barra (exibir_progresso 80 100) = nivel_tier (fst (snd (classify 80 100)))"
  using progress_refines_classify [of 80 100] by simp

text \<open>
  C9 (witness). The goals section of the first scenario is drawn, and its badge list has
  no encouragement message.
\<close>

theorem secao_metas_sem_info_witness:
  "\<exists>r. secao_metas extrato_food None (\<lambda>_. None) = Some r \<and>
       (\<exists>avs. rm_badges r = Inr avs \<and> length avs = length (categorias_despesas extrato_food) \<and>
              InfoEconomize \<notin> set avs)"
proof -
  obtain r where r: "secao_metas extrato_food None (\<lambda>_. None) = Some r"
    by (simp add: secao_metas_defs extrato_food_def tx_def)
  with secao_metas_sem_info [OF r] show ?thesis by blast
qed

text \<open>
  The specification's first scenario: debits of 100 and 50 in Food, a salary credit,
  and a Food goal of 100. The spend is 150, the ratio 150\%, the badge the high alert (150
  is the upper bound of that band), the progress row records 150\% and the bar is the red
  one, its clamped percentage being 100; the goal is written back unchanged.
\<close>

lemma scenario_food_high_alert:
  "secao_metas extrato_food (Some [''Food'' \<mapsto> 100]) (\<lambda>_. None) =
     Some \<lparr>rm_metas = [''Food'' \<mapsto> 100], rm_badges = Inr [Sucesso AlertaAlto ''Food''],
           rm_progresso = [(\<lparr>pg_categoria = ''Food'', pg_gasto = 150, pg_meta = 100, pg_percentual = 150\<rparr>,
                            BarraVermelha 150)]\<rparr> \<and>
   percentual_barra 150 100 = 100"
  by (simp add: secao_metas_defs extrato_food_def tx_def)

text \<open>
  The specification's second scenario: a Transport spend of 500 with no goal set. The
  goal dict is created with the default 1000.0, the ratio is 50\%, the badge gold and the
  bar half full with no alert.
\<close>

lemma scenario_transport_default_goal:
  "secao_metas [tx (2024, 2, 1) ''Transport'' (-500) ''debito''] None (\<lambda>_. None) =
     Some \<lparr>rm_metas = [''Transport'' \<mapsto> 1000], rm_badges = Inr [Sucesso Ouro ''Transport''],
           rm_progresso = [(\<lparr>pg_categoria = ''Transport'', pg_gasto = 500, pg_meta = 1000, pg_percentual = 50\<rparr>,
                            Progresso (1 / 2) SemAlerta 50)]\<rparr>"
  by (simp add: secao_metas_defs tx_def)

text \<open>
  C10. The expense KPI is the absolute value of the sum of the debit amounts (line 162),
  not the specified sum of their absolute values: it never exceeds the specified total, and
  the two agree exactly when all debit amounts have one sign. A frame that mixes negative
  debits with a positive one (a refund booked as a debit) shows a smaller expense.
\<close>

theorem total_debitos_igual_spec_iff:
  "total_debitos df \<le> total_expense df \<and>
   (total_debitos df = total_expense df \<longleftrightarrow>
      list_all (\<lambda>t. tipo t = ''debito'' \<longrightarrow> valor t \<le> 0) df \<or>
      list_all (\<lambda>t. tipo t = ''debito'' \<longrightarrow> 0 \<le> valor t) df)"
proof -
  have "total_debitos df \<le> total_expense df"
    unfolding total_debitos_def total_expense_def by (rule abs_sum_list_le)
  moreover have "total_debitos df = total_expense df \<longleftrightarrow>
      list_all (\<lambda>t. tipo t = ''debito'' \<longrightarrow> valor t \<le> 0) df \<or>
      list_all (\<lambda>t. tipo t = ''debito'' \<longrightarrow> 0 \<le> valor t) df"
    using abs_sum_list_eq_iff [of valor "filter (\<lambda>t. tipo t = ''debito'') df"]
    by (auto simp: total_debitos_def total_expense_def list_all_iff)
  ultimately show ?thesis by blast
qed

text \<open>Witness of C10: food debits of -100 and +30 show an expense of 70 where the
  specification gives 130, and neither sign condition holds.\<close>

theorem total_debitos_igual_spec_iff_witness:
  "total_debitos [tx (2024, 1, 5) ''Food'' (-100) ''debito'', tx (2024, 1, 9) ''Food'' 30 ''debito''] = 70 \<and>
   total_expense [tx (2024, 1, 5) ''Food'' (-100) ''debito'', tx (2024, 1, 9) ''Food'' 30 ''debito''] = 130 \<and>
   \<not> list_all (\<lambda>t. tipo t = ''debito'' \<longrightarrow> valor t \<le> 0)
       [tx (2024, 1, 5) ''Food'' (-100) ''debito'', tx (2024, 1, 9) ''Food'' 30 ''debito''] \<and>
   \<not> list_all (\<lambda>t. tipo t = ''debito'' \<longrightarrow> 0 \<le> valor t)
       [tx (2024, 1, 5) ''Food'' (-100) ''debito'', tx (2024, 1, 9) ''Food'' 30 ''debito'']"
  using total_debitos_igual_spec_iff [of "[tx (2024, 1, 5) ''Food'' (-100) ''debito'', tx (2024, 1, 9) ''Food'' 30 ''debito'']"]
  by (simp add: total_debitos_def total_expense_def tx_def)

text \<open>
  C11. Filter-window exclusion (spec 8): a transaction dated outside the selected period
  changes neither the filtered frame, nor the balance, nor the goals section, wherever it
  sits in the ledger.
\<close>

theorem window_excludes_transaction:
  assumes "\<not> (s \<le> data t \<and> data t \<le> e)"
  shows "filtrar_categorias sel (filtrar_periodo [s, e] (xs @ t # ys)) =
           filtrar_categorias sel (filtrar_periodo [s, e] (xs @ ys)) \<and>
         saldo (filtrar_categorias sel (filtrar_periodo [s, e] (xs @ t # ys))) =
           saldo (filtrar_categorias sel (filtrar_periodo [s, e] (xs @ ys))) \<and>
         secao_metas (filtrar_categorias sel (filtrar_periodo [s, e] (xs @ t # ys))) sess inp =
           secao_metas (filtrar_categorias sel (filtrar_periodo [s, e] (xs @ ys))) sess inp"
proof -
  have "filtrar_periodo [s, e] (xs @ t # ys) = filtrar_periodo [s, e] (xs @ ys)"
    using assms by (simp add: filtrar_periodo_pair)
  then show ?thesis by simp
qed

theorem window_excludes_transaction_witness:
  "\<not> ((2024, 1, 1) \<le> data (tx (2023, 12, 31) ''Food'' (-80) ''debito'') \<and>
       data (tx (2023, 12, 31) ''Food'' (-80) ''debito'') \<le> (2024, 1, 31)) \<and>
   saldo (filtrar_categorias [''Food''] (filtrar_periodo [(2024, 1, 1), (2024, 1, 31)]
           ([] @ tx (2023, 12, 31) ''Food'' (-80) ''debito'' # extrato_food))) =
   saldo (filtrar_categorias [''Food''] (filtrar_periodo [(2024, 1, 1), (2024, 1, 31)] ([] @ extrato_food)))"
proof -
  have h: "\<not> ((2024, 1, 1) \<le> data (tx (2023, 12, 31) ''Food'' (-80) ''debito'') \<and>
       data (tx (2023, 12, 31) ''Food'' (-80) ''debito'') \<le> ((2024, 1, 31)::date))"
    by (simp add: tx_def)
  show ?thesis
    using h window_excludes_transaction [OF h, of "[''Food'']" "[]" extrato_food] by blast
qed

text \<open>
  C12. An uploaded CSV whose rows all have a valid date but an unparsable amount passes the
  \<open>try\<close> block (every row is dropped by \<open>dropna\<close>), is accepted as an empty frame,
  and then the date bounds of the sidebar, outside the \<open>try\<close>, raise on it.
\<close>

theorem upload_sem_valores_quebra:
  assumes "rs \<noteq> []" and "list_all (\<lambda>r. l_data r \<noteq> None \<and> l_valor r = None) rs"
  shows "carregar (Some rs) amostra = Carregado [] \<and> filtros [] rng sel = Inl ErroNaT"
proof -
  have "List.map_filter converter_linha rs = []"
    using assms(2) by (intro map_filter_converter_sem_valores) (simp add: list_all_iff)
  with assms(2) have "process_data rs = Inr []"
    by (auto simp: process_data_def list_all_iff)
  then show ?thesis by (simp add: carregar_def filtros_def)
qed

theorem upload_sem_valores_quebra_witness:
  "[linha_sem_valor] \<noteq> [] \<and> list_all (\<lambda>r. l_data r \<noteq> None \<and> l_valor r = None) [linha_sem_valor] \<and>
   carregar (Some [linha_sem_valor]) None = Carregado [] \<and> filtros [] [] [] = Inl ErroNaT"
proof -
  have h1: "[linha_sem_valor] \<noteq> []" by simp
  have h2: "list_all (\<lambda>r. l_data r \<noteq> None \<and> l_valor r = None) [linha_sem_valor]"
    by (simp add: linha_sem_valor_def)
  show ?thesis using h1 h2 upload_sem_valores_quebra [OF h1 h2, of None "[]" "[]"] by blast
qed

text \<open>
  The statement table lists an older transaction above a newer one: with a debit on
  31 January 2024 and one on 1 February 2024, the table, meant to show the most recent
  first, shows 31/01/2024 above 01/02/2024.
\<close>

lemma tabela_janeiro_acima_de_fevereiro:
  "map lt_data (tabela ''Todos'' 0 [] [tx (2024, 1, 31) ''Food'' (-10) ''debito'',
                                       tx (2024, 2, 1) ''Food'' (-20) ''debito'']) =
     [''31/01/2024'', ''01/02/2024''] \<and>
   ((2024::int), (1::nat), (31::nat)) < (2024, 2, 1)"
  by (simp add: tabela_def filtrar_tabela_def ordenar_desc_def exibir_linha_def tx_def
      formatar_data_def dois_digitos_def quatro_digitos_def digito_simps)

text \<open>
  C17. The category charts sit between the two expense totals: the slices add up to at
  least the expense KPI (abs of the summed debits) and at most the specified expense (the
  sum of the absolute debit amounts); with no positive debit all three agree.
\<close>

theorem despesas_categoria_entre_kpis:
  "total_debitos df \<le> sum_list (map snd (despesas_por_categoria df)) \<and>
   sum_list (map snd (despesas_por_categoria df)) \<le> total_expense df"
proof -
  let ?deb = "filter (\<lambda>t. tipo t = ''debito'') df"
  let ?cs = "sort (unique (map categoria ?deb))"
  let ?S = "\<lambda>c. sum_list (map valor (filter (\<lambda>t. categoria t = c) ?deb))"
  have slices: "sum_list (map snd (despesas_por_categoria df)) = sum_list (map (\<lambda>c. \<bar>?S c\<bar>) ?cs)"
    by (simp add: despesas_por_categoria_map)
  have "total_debitos df = \<bar>sum_list (map ?S ?cs)\<bar>"
    by (simp only: total_debitos_def soma_categorias_debitos)
  also have "\<dots> \<le> sum_list (map (\<lambda>c. \<bar>?S c\<bar>) ?cs)"
    by (rule abs_sum_list_le)
  finally have lo: "total_debitos df \<le> sum_list (map (\<lambda>c. \<bar>?S c\<bar>) ?cs)" .
  have "sum_list (map (\<lambda>c. \<bar>?S c\<bar>) ?cs) \<le>
        sum_list (map (\<lambda>c. sum_list (map (\<lambda>t. \<bar>valor t\<bar>) (filter (\<lambda>t. categoria t = c) ?deb))) ?cs)"
    by (intro sum_list_mono abs_sum_list_le)
  also have "\<dots> = total_expense df"
    by (simp only: total_expense_def soma_categorias_abs)
  finally show ?thesis using lo slices by simp
qed

theorem linha_do_tempo_final_witness:
  "extrato_food \<noteq> [] \<and> length (linha_do_tempo extrato_food) = length extrato_food \<and>
   sorted (map fst (linha_do_tempo extrato_food)) \<and>
   snd (last (linha_do_tempo extrato_food)) = sum_list (map valor extrato_food)"
proof -
  have h: "extrato_food \<noteq> []" by (simp add: extrato_food_def)
  show ?thesis using h linha_do_tempo_final [OF h] by blast
qed

theorem linha_do_tempo_saldo_witness:
  "extrato_food \<noteq> [] \<and> list_all (\<lambda>t. tipo t = ''credito'' \<or> tipo t = ''debito'') extrato_food \<and>
   list_all (\<lambda>t. tipo t = ''debito'' \<longrightarrow> valor t \<le> 0) extrato_food \<and>
   snd (last (linha_do_tempo extrato_food)) = saldo extrato_food"
proof -
  have h1: "extrato_food \<noteq> []" by (simp add: extrato_food_def)
  have h2: "list_all (\<lambda>t. tipo t = ''credito'' \<or> tipo t = ''debito'') extrato_food"
    by (simp add: extrato_food_def tx_def)
  have h3: "list_all (\<lambda>t. tipo t = ''debito'' \<longrightarrow> valor t \<le> 0) extrato_food"
    by (simp add: extrato_food_def tx_def)
  show ?thesis using h1 h2 h3 linha_do_tempo_saldo [OF h1 h2 h3] by blast
qed

theorem amostra_convencao_witness:
  "list_all (\<lambda>d. list_all sorteio_valido (sorteios_fixos d)) datas_amostra \<and>
   list_all (\<lambda>t. (tipo t = ''debito'' \<longrightarrow> valor t \<le> -20) \<and>
                  (tipo t = ''credito'' \<longrightarrow> categoria t = ''Renda'' \<and> 1000 \<le> valor t) \<and>
                  (tipo t = ''debito'' \<or> tipo t = ''credito''))
     (List.map_filter converter_linha (gerar_amostra sorteios_fixos))"
  using list_all_sorteios_fixos Sample.amostra_convencao [OF list_all_sorteios_fixos] by blast

text \<open>
  C24. Whatever the random draws, the sample frame loads and spans January 2024: the
  sidebar's date bounds are 1 and 31 January, the "Periodo Analisado" metric shows 31 days,
  and the frame has between 31 and 93 rows (one to three per day). The dates go through
  their ISO text and back, and the range through the calendar.
\<close>

theorem amostra_periodo:
  assumes "sorteios_validos ss"
  shows "\<exists>df. carregar None (Some (gerar_amostra ss)) = Carregado df \<and>
              limites_datas df = Inr ((2024, 1, 1), (2024, 1, 31)) \<and>
              dias_analisados df = Some 31 \<and> 31 \<le> length df \<and> length df \<le> 93"
proof -
  let ?df = "List.map_filter converter_linha (gerar_amostra ss)"
  have ds: "data ` set ?df = set datas_amostra"
    using assms datas_map_filter_amostra [of ss] by (auto simp: sorteios_validos_def list_all_iff)
  have first: "(2024, 1, 1) \<in> set datas_amostra" and last: "(2024, 1, 31) \<in> set datas_amostra"
    and range: "\<forall>d\<in>set datas_amostra. (2024, 1, 1) \<le> d \<and> d \<le> ((2024::int), (1::nat), (31::nat))"
    by (auto simp: datas_amostra_eq less_eq_prod_def)
  then have "?df \<noteq> []" using ds by auto
  then obtain lo hi where lim: "limites_datas ?df = Inr (lo, hi)"
    by (cases ?df) (auto simp: limites_datas_Cons)
  have "lo \<le> (2024, 1, 1)" "(2024, 1, 31) \<le> hi"
    using limites_datas_Inr(1) [OF lim] first last ds by (metis imageE)+
  moreover have "lo \<in> set datas_amostra" "hi \<in> set datas_amostra"
    using limites_datas_Inr(2,3) [OF lim] ds by blast+
  ultimately have lh: "lo = (2024, 1, 1)" "hi = (2024, 1, 31)"
    using range by (meson order_antisym)+
  have "length (gerar_amostra ss) = sum_list (map (\<lambda>d. length (ss d)) datas_amostra)"
    by (rule length_gerar_amostra)
  moreover have "1 * length datas_amostra \<le> sum_list (map (\<lambda>d. length (ss d)) datas_amostra) \<and>
                 sum_list (map (\<lambda>d. length (ss d)) datas_amostra) \<le> 3 * length datas_amostra"
    using assms by (intro sum_list_bounds) (auto simp: sorteios_validos_def list_all_iff)
  moreover have "length datas_amostra = 31" by (simp add: datas_amostra_eq)
  moreover have "dias_civis (2024, 1, 31) - dias_civis (2024, 1, 1) + 1 = 31"
    using dias_civis_dia [of 2024 1 31] dias_civis_dia [of 2024 1 1] by simp
  ultimately show ?thesis
    using lim lh by (simp add: carregar_amostra length_amostra_carregada dias_analisados_def)
qed

theorem amostra_periodo_witness:
  "sorteios_validos sorteios_fixos \<and>
   (\<exists>df. carregar None (Some (gerar_amostra sorteios_fixos)) = Carregado df \<and>
         limites_datas df = Inr ((2024, 1, 1), (2024, 1, 31)) \<and>
         dias_analisados df = Some 31 \<and> 31 \<le> length df \<and> length df \<le> 93)"
  using sorteios_fixos_sorteios_validos amostra_periodo [OF sorteios_fixos_sorteios_validos] by blast

text \<open>Witness of C22 on the food statement: two debits of 100 and 50 give an average
  ticket of 75 and a largest expense of 100.\<close>

theorem estatisticas_despesas_witness:
  "list_all (\<lambda>t. tipo t = ''debito'' \<longrightarrow> valor t \<le> 0) extrato_food \<and>
   filter (\<lambda>t. tipo t = ''debito'') extrato_food \<noteq> [] \<and>
   ticket_medio extrato_food = Some 75 \<and> maior_despesa extrato_food = Some 100 \<and>
   ticket_medio extrato_food =
     Some (total_debitos extrato_food / of_nat (length (filter (\<lambda>t. tipo t = ''debito'') extrato_food))) \<and>
   (\<exists>x. maior_despesa extrato_food = Some x \<and>
        list_all (\<lambda>t. tipo t = ''debito'' \<longrightarrow> \<bar>valor t\<bar> \<le> x) extrato_food \<and>
        (\<exists>t\<in>set extrato_food. tipo t = ''debito'' \<and> \<bar>valor t\<bar> = x))"
proof -
  have h1: "list_all (\<lambda>t. tipo t = ''debito'' \<longrightarrow> valor t \<le> 0) extrato_food"
    by (simp add: extrato_food_def tx_def)
  have h2: "filter (\<lambda>t. tipo t = ''debito'') extrato_food \<noteq> []"
    by (simp add: extrato_food_def tx_def)
  have c: "ticket_medio extrato_food = Some 75 \<and> maior_despesa extrato_food = Some 100"
    by (simp add: extrato_food_def tx_def ticket_medio_def maior_despesa_def)
  show ?thesis using h1 h2 c Stats.estatisticas_despesas [OF h1 h2] by blast
qed

text \<open>Witness of C23 on the food statement: the 5th to the 7th of January is 3 days.\<close>

theorem dias_analisados_mes_witness:
  "extrato_food \<noteq> [] \<and>
   list_all (\<lambda>t. fst (data t) = 2024 \<and> fst (snd (data t)) = 1) extrato_food \<and>
   dias_analisados extrato_food = Some 3"
proof -
  have h1: "extrato_food \<noteq> []" by (simp add: extrato_food_def)
  have h2: "list_all (\<lambda>t. fst (data t) = 2024 \<and> fst (snd (data t)) = 1) extrato_food"
    by (simp add: extrato_food_def tx_def)
  show ?thesis
    using h1 h2 Stats.dias_analisados_mes [OF h1 h2] by (simp add: extrato_food_def tx_def)
qed

text \<open>The day count crosses month and year ends with the civil calendar: 28 February to
  1 March is 3 days in the leap year 2024 and 2 days in 2023; 31 December 2023 to
  1 January 2024 is 2 days.\<close>

lemma dias_analisados_calendario:
  "dias_analisados [tx (2024, 2, 28) ''Food'' (-1) ''debito'', tx (2024, 3, 1) ''Food'' (-1) ''debito''] = Some 3"
  "dias_analisados [tx (2023, 2, 28) ''Food'' (-1) ''debito'', tx (2023, 3, 1) ''Food'' (-1) ''debito''] = Some 2"
  "dias_analisados [tx (2024, 1, 1) ''Food'' (-1) ''debito'', tx (2023, 12, 31) ''Food'' (-1) ''debito''] = Some 2"
  by (simp_all add: dias_analisados_def limites_datas_def tx_def dias_civis_def)

text \<open>The first run of a fresh session with the example input stores the sample frame and
  the default goal 1000.0 for transport.\<close>

lemma executar_exemplo_inicial:
  "fst (executar sessao_inicial entrada_exemplo) =
     \<lparr>ss_sample = Some (gerar_amostra sorteios_fixos), ss_metas = Some [''Transporte'' \<mapsto> 1000]\<rparr>"
proof -
  obtain r where r: "secao_metas painel_exemplo None (\<lambda>_. None) = Some r"
    "executar sessao_inicial entrada_exemplo =
       (sessao_inicial\<lparr>ss_sample := Some (gerar_amostra sorteios_fixos), ss_metas := Some (rm_metas r)\<rparr>,
        Painel painel_exemplo (Some r))"
    using executar_exemplo [of sessao_inicial] by (auto simp: sessao_inicial_def)
  then have "rm_metas r = [''Transporte'' \<mapsto> 1000]"
    by (simp add: secao_metas_Some categorias_exemplo Let_def definir_metas_def number_input_def)
  with r(2) show ?thesis
    by (simp add: sessao_inicial_def)
qed

text \<open>Witness of C25: after the first example run the stored goals are non-negative.\<close>

theorem metas_sessao_nao_negativas_witness:
  "alcancavel (fst (executar sessao_inicial entrada_exemplo)) \<and>
   ss_metas (fst (executar sessao_inicial entrada_exemplo)) = Some [''Transporte'' \<mapsto> 1000] \<and>
   (\<forall>c. 0 \<le> meta_categoria [''Transporte'' \<mapsto> 1000] c)"
proof -
  have a: "alcancavel (fst (executar sessao_inicial entrada_exemplo))"
    by (rule alcancavel.passo [OF alcancavel.inicial entrada_exemplo_valida])
  have m: "ss_metas (fst (executar sessao_inicial entrada_exemplo)) = Some [''Transporte'' \<mapsto> 1000]"
    by (simp add: executar_exemplo_inicial)
  show ?thesis using a m Session.metas_sessao_nao_negativas [OF a m] by blast
qed

text \<open>Witness of C26: the first example run of a fresh session does not crash.\<close>

theorem execucao_sem_upload_segura_witness:
  "alcancavel sessao_inicial \<and> entrada_valida entrada_exemplo \<and> e_upload entrada_exemplo = None \<and>
   (\<forall>err. snd (executar sessao_inicial entrada_exemplo) \<noteq> Falha err)"
proof -
  have u: "e_upload entrada_exemplo = None" by (simp add: entrada_exemplo_def)
  show ?thesis
    using alcancavel.inicial entrada_exemplo_valida u
      Session.execucao_sem_upload_segura [OF alcancavel.inicial entrada_exemplo_valida u] by blast
qed


text \<open>Witness of C28: a stored health goal of 50 survives a run that shows only transport.\<close>

theorem metas_preservadas_witness:
  "ss_metas \<lparr>ss_sample = None, ss_metas = Some [''Saude'' \<mapsto> 50]\<rparr> = Some [''Saude'' \<mapsto> 50] \<and>
   snd (executar \<lparr>ss_sample = None, ss_metas = Some [''Saude'' \<mapsto> 50]\<rparr> entrada_exemplo) =
     Painel painel_exemplo (secao_metas painel_exemplo (Some [''Saude'' \<mapsto> 50]) (\<lambda>_. None)) \<and>
   ''Saude'' \<notin> set (categorias_despesas painel_exemplo) \<and>
   (\<exists>m'. ss_metas (fst (executar \<lparr>ss_sample = None, ss_metas = Some [''Saude'' \<mapsto> 50]\<rparr> entrada_exemplo)) = Some m' \<and>
         m' ''Saude'' = [''Saude'' \<mapsto> (50::real)] ''Saude'')"
proof -
  let ?ss = "\<lparr>ss_sample = None, ss_metas = Some [''Saude'' \<mapsto> (50::real)]\<rparr>"
  have h1: "ss_metas ?ss = Some [''Saude'' \<mapsto> 50]" by simp
  have h2: "snd (executar ?ss entrada_exemplo) =
     Painel painel_exemplo (secao_metas painel_exemplo (Some [''Saude'' \<mapsto> 50]) (\<lambda>_. None))"
    using executar_exemplo [of ?ss] by auto
  have h3: "''Saude'' \<notin> set (categorias_despesas painel_exemplo)"
    by (simp add: categorias_exemplo)
  show ?thesis using h1 h2 h3 Session.metas_preservadas [OF h1 h2 h3] by blast
qed

text \<open>The number format on concrete amounts: thousands grouped, two decimals, and the
  minus sign Python keeps for a negative amount that rounds to zero.\<close>

lemma formatar_exemplos:
  "formatar_reais 1234.5 = ''R$ 1,234.50''"
  "formatar_numero (-0.001) = ''-0.00''"
proof -
  show "formatar_reais 1234.5 = ''R$ 1,234.50''"
    by (simp add: formatar_reais_def formatar_numero_def agrupar_def digitos_dec.simps dois_digitos_def digito_simps)
  have "round (1 / 10 :: real) = 0" by (simp add: round_def floor_eq_iff)
  then show "formatar_numero (-0.001) = ''-0.00''"
    by (simp add: formatar_numero_def agrupar_def digitos_dec.simps dois_digitos_def digito_simps)
qed


text \<open>Witness of C30: the food ledger of the first scenario under the default sidebar.\<close>

theorem sidebar_padrao_completo_witness:
  "\<exists>lo hi. limites_datas extrato_food = Inr (lo, hi) \<and>
     filtros extrato_food [lo, hi] (categorias_disponiveis (filtrar_periodo [lo, hi] extrato_food)) = Inr extrato_food"
proof -
  obtain lo hi where l: "limites_datas extrato_food = Inr (lo, hi)"
    by (simp add: extrato_food_def limites_datas_Cons)
  show ?thesis
    using l Filters.sidebar_padrao_completo [OF l] by blast
qed


end
